theory Spec2Isabelle
  imports Main "HOL-Library.Word" "HOL-Library.Sublist"
begin

unbundle bit_operations_syntax

section \<open>Values shared by the whole client\<close>

type_synonym bytes = "8 word list"

text \<open>
  A Go \<open>error\<close> value is modelled by its message. A run-time panic (nil dereference) is
  kept apart: it is never caught by an \<open>if err != nil\<close> test and unwinds every caller.
\<close>

datatype error = Err string | Panic string

text \<open>\<open>fmt.Errorf(prefix + "%v", err)\<close>; a panic passes through unchanged.\<close>

fun Errorf :: "string \<Rightarrow> error \<Rightarrow> error" where
  "Errorf p (Err m) = Err (p @ m)"
| "Errorf p (Panic m) = Panic m"

subsection \<open>hash/crc32 with the Castagnoli polynomial\<close>

text \<open>
  \<open>crc32.MakeTable(crc32.Castagnoli)\<close> and \<open>crc32.Checksum\<close> of the Go standard library,
  in the form of its portable implementation: the table entry of a byte is eight
  shift-and-xor steps with the reversed polynomial, and the checksum folds the bytes
  into the inverted register.
\<close>

definition Castagnoli :: "32 word" where
  "Castagnoli = 0x82f63b78"

definition crc_step :: "32 word \<Rightarrow> 32 word" where
  "crc_step crc = (if crc AND 1 = 1 then drop_bit 1 crc XOR Castagnoli else drop_bit 1 crc)"

definition MakeTable :: "8 word \<Rightarrow> 32 word" where
  "MakeTable i = (crc_step ^^ 8) (ucast i)"

definition crc_update :: "32 word \<Rightarrow> 8 word \<Rightarrow> 32 word" where
  "crc_update crc v = MakeTable (ucast crc XOR v) XOR drop_bit 8 crc"

definition crc32c :: "bytes \<Rightarrow> 32 word" where
  "crc32c data = NOT (foldl crc_update (NOT 0) data)"


subsection \<open>Formatting verbs of \<open>fmt\<close>\<close>

fun decimal :: "nat \<Rightarrow> string" where
  "decimal n =
     (if n < 10 then [''0123456789'' ! n]
      else decimal (n div 10) @ [''0123456789'' ! (n mod 10)])"

declare decimal.simps [simp del]

definition show_int :: "int \<Rightarrow> string" where
  "show_int i = (if i < 0 then ''-'' @ decimal (nat (- i)) else decimal (nat i))"

definition gcpKeyPrefix :: string where
  "gcpKeyPrefix = ''gcp-kms://''"

text \<open>\<open>strings.HasPrefix(s, p)\<close> is \<open>prefix p s\<close>; \<open>strings.TrimPrefix\<close> follows.\<close>

definition TrimPrefix :: "string \<Rightarrow> string \<Rightarrow> string" where
  "TrimPrefix s p = (if prefix p s then drop (length p) s else s)"

section \<open>Messages of the configuration and of the services\<close>

subsection \<open>Cloud KMS\<close>

datatype ProtectionLevel =
  PROTECTION_LEVEL_UNSPECIFIED | SOFTWARE | HSM | EXTERNAL | EXTERNAL_VPC

fun ProtectionLevel_String :: "ProtectionLevel \<Rightarrow> string" where
  "ProtectionLevel_String PROTECTION_LEVEL_UNSPECIFIED = ''PROTECTION_LEVEL_UNSPECIFIED''"
| "ProtectionLevel_String SOFTWARE = ''SOFTWARE''"
| "ProtectionLevel_String HSM = ''HSM''"
| "ProtectionLevel_String EXTERNAL = ''EXTERNAL''"
| "ProtectionLevel_String EXTERNAL_VPC = ''EXTERNAL_VPC''"

datatype CryptoKeyVersionState =
  CRYPTO_KEY_VERSION_STATE_UNSPECIFIED | PENDING_GENERATION | ENABLED | DISABLED
  | DESTROYED | DESTROY_SCHEDULED | PENDING_IMPORT | IMPORT_FAILED

record ExternalProtectionLevelOptions =
  ExternalKeyUri :: string

record CryptoKeyVersion =
  State :: CryptoKeyVersionState
  ProtectionLevel :: ProtectionLevel
  ExternalProtectionLevelOptions :: "ExternalProtectionLevelOptions option"

text \<open>\<open>Primary\<close> is a pointer: \<open>None\<close> is the nil version, whose getters return zero values.\<close>

record CryptoKey =
  Primary :: "CryptoKeyVersion option"

text \<open>
  The checksum fields are \<open>*wrapperspb.Int64Value\<close>: \<open>None\<close> is the nil pointer, and the
  client reads \<open>.Value\<close> through it without a getter.
\<close>

record EncryptRequest =
  enc_Name :: string
  enc_Plaintext :: bytes
  enc_PlaintextCrc32C :: "64 word option"

record EncryptResponse =
  enc_Ciphertext :: bytes
  enc_CiphertextCrc32C :: "64 word option"
  enc_VerifiedPlaintextCrc32C :: bool

record DecryptRequest =
  dec_Name :: string
  dec_Ciphertext :: bytes
  dec_CiphertextCrc32C :: "64 word option"

record DecryptResponse =
  dec_Plaintext :: bytes
  dec_PlaintextCrc32C :: "64 word option"

text \<open>
  The interface \<open>cloudKMSClient\<close>: one response function per method, as a test fake
  provides them. \<open>kms_Close\<close> is the outcome of \<open>Close()\<close>.
\<close>

record cloudKMSClient =
  GetCryptoKey :: "string \<Rightarrow> error + CryptoKey"
  kms_Encrypt :: "EncryptRequest \<Rightarrow> error + EncryptResponse"
  kms_Decrypt :: "DecryptRequest \<Rightarrow> error + DecryptResponse"
  kms_Close :: "error option"

subsection \<open>External key manager\<close>

text \<open>The interface \<open>secureSessionClient\<close>; arguments are key path, resource name, payload.\<close>

record secureSessionClient =
  ConfidentialWrap :: "string \<Rightarrow> string \<Rightarrow> bytes \<Rightarrow> error + bytes"
  ConfidentialUnwrap :: "string \<Rightarrow> string \<Rightarrow> bytes \<Rightarrow> error + bytes"
  EndSession :: "error option"

subsection \<open>Configuration protos\<close>

text \<open>The oneof \<open>KekInfo.KekType\<close>; \<open>KekInfo_unset\<close> is the nil interface value.\<close>

datatype KekInfo =
  KekInfo_RsaFingerprint string | KekInfo_KekUri string | KekInfo_unset

text \<open>Shamir parameters are int64 fields, read through \<open>int(...)\<close>.\<close>

datatype KeySplittingAlgorithm =
  KeyConfig_NoSplit | KeyConfig_Shamir (Shares: int) (Threshold: int) | KeySplitting_unset

record KeyConfig =
  KekInfos :: "KekInfo list"
  KeySplittingAlgorithm :: KeySplittingAlgorithm

record EncryptConfig =
  enc_KeyConfig :: "KeyConfig option"

record DecryptConfig =
  KeyConfigs :: "KeyConfig list"

record AsymmetricKeys =
  PublicKeyFiles :: "string list"
  PrivateKeyFiles :: "string list"

record WrappedShare =
  wrapped_Share :: bytes
  wrapped_Hash :: bytes

record Metadata =
  md_BlobId :: string
  md_KeyConfig :: "KeyConfig option"
  md_Shares :: "WrappedShare list"

text \<open>\<open>shares.UnwrappedShare\<close>, as \<open>unwrapAndValidateShares\<close> fills it.\<close>

record UnwrappedShare =
  Share :: bytes
  URI :: string

record StetMetadata =
  KeyUris :: "string list"
  BlobID :: string

record kekMetadata =
  protectionLevel :: ProtectionLevel
  uri :: string
  resourceName :: string

datatype rsa_PublicKey = rsa_PublicKey nat nat

datatype rsa_PrivateKey = rsa_PrivateKey rsa_PublicKey nat

record URL =
  Scheme :: string
  Hostname :: string
  Host :: string

section \<open>Client state and observable calls\<close>

text \<open>
  The struct has the fields of \<open>client/client.go\<close> and, for the whole-buffer revision
  of the file, its \<open>fakeKeyManagementClient\<close>; each revision reads only its own fields.
\<close>

record StetClient =
  kmsClient :: "cloudKMSClient option"
  fakeKeyManagementClient :: "cloudKMSClient option"
  fakeSecureSessionClient :: "secureSessionClient option"
  InsecureSkipVerify :: bool
  Version :: string

text \<open>Every call that leaves the process, and every glog line, in the order made.\<close>

datatype event =
    NewKeyManagementClient_call string
  | GetCryptoKey_call string
  | Encrypt_call EncryptRequest
  | Decrypt_call DecryptRequest
  | Close_call
  | EstablishSecureSession_call string string bool
  | ConfidentialWrap_call string string bytes "error + bytes"
  | ConfidentialUnwrap_call string string bytes "error + bytes"
  | EndSession_call "error option"
  | ReadMetadata_call
  | WriteSTETHeader_call nat
  | Write_call bytes
  | AeadEncrypt_call
  | AeadDecrypt_call
  | Infof string
  | Warningf string

text \<open>
  \<open>c\<close> is the receiver \<open>*StetClient\<close>; \<open>deferred\<close> is the stack of pending
  \<open>defer c.kmsClient.Close()\<close> calls of the running frame; \<open>in_stream\<close> is what the
  reader \<open>input\<close> still holds and \<open>out_stream\<close> what the writer \<open>output\<close> has accepted.
\<close>

record state =
  c :: StetClient
  deferred :: "cloudKMSClient list"
  trace :: "event list"
  in_stream :: bytes
  out_stream :: bytes

definition emit :: "event \<Rightarrow> state \<Rightarrow> state" where
  "emit e s = s\<lparr>trace := trace s @ [e]\<rparr>"


section \<open>Collaborators outside the client file\<close>

text \<open>
  What \<open>client.go\<close> calls in other packages of the repository (\<open>shares\<close>, \<open>jwt\<close>,
  \<open>securesession\<close>, the container and AEAD helpers of package \<open>client\<close>) and in
  libraries (\<open>net/url\<close>, \<open>path\<close>, \<open>crypto/rsa\<close>, \<open>uuid\<close>, \<open>proto\<close>, the KMS
  constructor) is a parameter: every theorem below holds for any behaviour of these.

  \<open>NewKeyManagementClient\<close> returns a client value together with the error: Go stores
  the returned pointer in the interface-typed field \<open>c.kmsClient\<close> in both cases, so the
  field is non-nil afterwards even when the constructor failed.

  Stream helpers take the bytes the reader still holds and the bytes the writer has
  accepted, and return what is left and what has been accepted afterwards.
\<close>

record env =
  NewKeyManagementClient :: "string \<Rightarrow> cloudKMSClient \<times> error option"
  url_Parse :: "string \<Rightarrow> error + URL"
  path_Base :: "string \<Rightarrow> string"
  GenerateTokenWithAudience :: "string \<Rightarrow> error + string"
  EstablishSecureSession :: "string \<Rightarrow> string \<Rightarrow> bool \<Rightarrow> error + secureSessionClient"
  PublicKeyForRSAFingerprint :: "KekInfo \<Rightarrow> AsymmetricKeys \<Rightarrow> error + rsa_PublicKey"
  PrivateKeyForRSAFingerprint :: "KekInfo \<Rightarrow> AsymmetricKeys \<Rightarrow> error + rsa_PrivateKey"
  EncryptOAEP :: "rsa_PublicKey \<Rightarrow> bytes \<Rightarrow> error + bytes"
  DecryptOAEP :: "rsa_PrivateKey \<Rightarrow> bytes \<Rightarrow> error + bytes"
  HashShare :: "bytes \<Rightarrow> bytes"
  ValidateShare :: "bytes \<Rightarrow> bytes \<Rightarrow> bool"
  NewDEK :: bytes
  CreateDEKShares :: "bytes \<Rightarrow> KeyConfig option \<Rightarrow> error + bytes list"
  CombineUnwrappedShares :: "KeyConfig \<Rightarrow> UnwrappedShare list \<Rightarrow> error + bytes"
  NewString :: string
  MetadataToAAD :: "Metadata \<Rightarrow> error + bytes"
  Marshal :: "Metadata \<Rightarrow> error + bytes"
  WriteSTETHeader :: "bytes \<Rightarrow> nat \<Rightarrow> error option \<times> bytes"
  Write :: "bytes \<Rightarrow> bytes \<Rightarrow> error option \<times> bytes"
  AeadEncrypt :: "bytes \<Rightarrow> bytes \<Rightarrow> bytes \<Rightarrow> bytes \<Rightarrow> error option \<times> bytes \<times> bytes"
  ReadMetadata :: "bytes \<Rightarrow> (error + Metadata) \<times> bytes"
  AeadDecrypt :: "bytes \<Rightarrow> bytes \<Rightarrow> bytes \<Rightarrow> bytes \<Rightarrow> error option \<times> bytes \<times> bytes"

definition nil_dereference :: error where
  "nil_dereference = Panic ''runtime error: invalid memory address or nil pointer dereference''"

section \<open>client/client.go\<close>

subsection \<open>initializeKMSClient\<close>

definition initializeKMSClient :: "env \<Rightarrow> state \<Rightarrow> error option \<times> state" where
  "initializeKMSClient env s =
     (case kmsClient (c s) of
        Some _ \<Rightarrow> (None, s)
      | None \<Rightarrow>
          let ua = ''STET/'' @ (if Version (c s) \<noteq> [] then Version (c s) else ''dev'');
              (client, err) = NewKeyManagementClient env ua;
              s1 = emit (NewKeyManagementClient_call ua) (s\<lparr>c := (c s)\<lparr>kmsClient := Some client\<rparr>\<rparr>)
          in (case err of
                Some e \<Rightarrow> (Some (Errorf ''error creating KMS client: '' e), s1)
              | None \<Rightarrow> (None, s1)))"

subsection \<open>parseEKMKeyURI\<close>

definition parseEKMKeyURI :: "env \<Rightarrow> string \<Rightarrow> error + (string \<times> string)" where
  "parseEKMKeyURI env keyURI =
     (case url_Parse env keyURI of
        Inl err \<Rightarrow> Inl (Errorf ''could not parse: '' err)
      | Inr u \<Rightarrow> Inr (Scheme u @ ''://'' @ Hostname u, path_Base env keyURI))"

subsection \<open>ekmSecureSessionWrap and ekmSecureSessionUnwrap\<close>

definition ekmSecureSessionWrap ::
  "env \<Rightarrow> bytes \<Rightarrow> kekMetadata \<Rightarrow> state \<Rightarrow> (error + bytes) \<times> state" where
  "ekmSecureSessionWrap env unwrappedShare md s =
     (case parseEKMKeyURI env (uri md) of
        Inl err \<Rightarrow> (Inl err, s)
      | Inr (addr, keyPath) \<Rightarrow>
          let established =
            (case fakeSecureSessionClient (c s) of
               Some fake \<Rightarrow> (Inr fake, s)
             | None \<Rightarrow>
                 (case GenerateTokenWithAudience env addr of
                    Inl err \<Rightarrow> (Inl err, s)
                  | Inr authToken \<Rightarrow>
                      let s1 = emit (EstablishSecureSession_call (uri md) authToken
                                       (InsecureSkipVerify (c s))) s
                      in (case EstablishSecureSession env (uri md) authToken
                                 (InsecureSkipVerify (c s)) of
                            Inl err \<Rightarrow>
                              (Inl (Errorf ''error establishing secure session: '' err), s1)
                          | Inr session \<Rightarrow> (Inr session, s1))))
          in (case established of
                (Inl err, s1) \<Rightarrow> (Inl err, s1)
              | (Inr ekmClient, s1) \<Rightarrow>
                  let r = ConfidentialWrap ekmClient keyPath (resourceName md) unwrappedShare;
                      s2 = emit (ConfidentialWrap_call keyPath (resourceName md)
                                   unwrappedShare r) s1
                  in (case r of
                        Inl err \<Rightarrow>
                          (Inl (Errorf ''error wrapping with secure session: '' err), s2)
                      | Inr wrappedBlob \<Rightarrow>
                          let e = EndSession ekmClient;
                              s3 = emit (EndSession_call e) s2
                          in (case e of
                                Some err \<Rightarrow>
                                  (Inl (Errorf ''error ending secure session: '' err), s3)
                              | None \<Rightarrow> (Inr wrappedBlob, s3)))))"

definition ekmSecureSessionUnwrap ::
  "env \<Rightarrow> bytes \<Rightarrow> kekMetadata \<Rightarrow> state \<Rightarrow> (error + bytes) \<times> state" where
  "ekmSecureSessionUnwrap env wrappedShare md s =
     (case parseEKMKeyURI env (uri md) of
        Inl err \<Rightarrow> (Inl err, s)
      | Inr (addr, keyPath) \<Rightarrow>
          let established =
            (case fakeSecureSessionClient (c s) of
               Some fake \<Rightarrow> (Inr fake, s)
             | None \<Rightarrow>
                 (case GenerateTokenWithAudience env addr of
                    Inl err \<Rightarrow> (Inl err, s)
                  | Inr authToken \<Rightarrow>
                      let s1 = emit (EstablishSecureSession_call (uri md) authToken
                                       (InsecureSkipVerify (c s))) s
                      in (case EstablishSecureSession env (uri md) authToken
                                 (InsecureSkipVerify (c s)) of
                            Inl err \<Rightarrow>
                              (Inl (Errorf ''error establishing secure session: '' err), s1)
                          | Inr session \<Rightarrow> (Inr session, s1))))
          in (case established of
                (Inl err, s1) \<Rightarrow> (Inl err, s1)
              | (Inr ekmClient, s1) \<Rightarrow>
                  let r = ConfidentialUnwrap ekmClient keyPath (resourceName md) wrappedShare;
                      s2 = emit (ConfidentialUnwrap_call keyPath (resourceName md)
                                   wrappedShare r) s1
                  in (case r of
                        Inl err \<Rightarrow>
                          (Inl (Errorf ''error unwrapping with secure session: '' err), s2)
                      | Inr unwrappedBlob \<Rightarrow>
                          let e = EndSession ekmClient;
                              s3 = emit (EndSession_call e) s2
                          in (case e of
                                Some err \<Rightarrow>
                                  (Inl (Errorf ''error ending secure session: '' err), s3)
                              | None \<Rightarrow> (Inr unwrappedBlob, s3)))))"

subsection \<open>wrapKMSShare and unwrapKMSShare\<close>

text \<open>
  \<open>int64(crc32c(x))\<close> widens the unsigned 32-bit checksum: \<open>ucast\<close>. A method call on
  the nil interface \<open>c.kmsClient\<close> and a read of \<open>.Value\<close> through a nil checksum
  pointer panic.
\<close>

definition wrapKMSShare :: "bytes \<Rightarrow> string \<Rightarrow> state \<Rightarrow> (error + bytes) \<times> state" where
  "wrapKMSShare share keyName s =
     (let req = \<lparr>enc_Name = keyName, enc_Plaintext = share,
                 enc_PlaintextCrc32C = Some (ucast (crc32c share))\<rparr>
      in case kmsClient (c s) of
           None \<Rightarrow> (Inl nil_dereference, s)
         | Some kms \<Rightarrow>
             let s1 = emit (Encrypt_call req) s
             in (case kms_Encrypt kms req of
                   Inl err \<Rightarrow> (Inl (Errorf ''failed to encrypt: '' err), s1)
                 | Inr result \<Rightarrow>
                     if \<not> enc_VerifiedPlaintextCrc32C result
                     then (Inl (Err ''Encrypt: request corrupted in-transit''), s1)
                     else (case enc_CiphertextCrc32C result of
                             None \<Rightarrow> (Inl nil_dereference, s1)
                           | Some v \<Rightarrow>
                               if ucast (crc32c (enc_Ciphertext result)) \<noteq> v
                               then (Inl (Err ''Encrypt: response corrupted in-transit''), s1)
                               else (Inr (enc_Ciphertext result), s1))))"

definition unwrapKMSShare :: "bytes \<Rightarrow> string \<Rightarrow> state \<Rightarrow> (error + bytes) \<times> state" where
  "unwrapKMSShare wrappedShare keyName s =
     (let req = \<lparr>dec_Name = keyName, dec_Ciphertext = wrappedShare,
                 dec_CiphertextCrc32C = Some (ucast (crc32c wrappedShare))\<rparr>
      in case kmsClient (c s) of
           None \<Rightarrow> (Inl nil_dereference, s)
         | Some kms \<Rightarrow>
             let s1 = emit (Decrypt_call req) s
             in (case kms_Decrypt kms req of
                   Inl err \<Rightarrow> (Inl (Errorf ''failed to decrypt ciphertext: '' err), s1)
                 | Inr result \<Rightarrow>
                     (case dec_PlaintextCrc32C result of
                        None \<Rightarrow> (Inl nil_dereference, s1)
                      | Some v \<Rightarrow>
                          if ucast (crc32c (dec_Plaintext result)) \<noteq> v
                          then (Inl (Err ''Decrypt: response corrupted in-transit''), s1)
                          else (Inr (dec_Plaintext result), s1))))"

subsection \<open>getKekURIMetadata\<close>

text \<open>
  The getters of a nil \<open>Primary\<close> return zero values, so its state is not ENABLED and the
  direct field reads that follow are only reached with a version present.
\<close>

definition getKekURIMetadata ::
  "cloudKMSClient \<Rightarrow> KekInfo \<Rightarrow> state \<Rightarrow> (error + kekMetadata) \<times> state" where
  "getKekURIMetadata kms kekInfo s =
     (case kekInfo of
        KekInfo_KekUri kekUri \<Rightarrow>
          if \<not> prefix gcpKeyPrefix kekUri
          then (Inl (Err (kekUri @ '' does not have the expected URI prefix, want ''
                           @ gcpKeyPrefix)), s)
          else
            let name = TrimPrefix kekUri gcpKeyPrefix;
                s1 = emit (GetCryptoKey_call name) s
            in (case GetCryptoKey kms name of
                  Inl err \<Rightarrow> (Inl (Errorf ''error retrieving key metadata: '' err), s1)
                | Inr cryptoKey \<Rightarrow>
                    (case Primary cryptoKey of
                       None \<Rightarrow>
                         (Inl (Err (''CryptoKeyVersion for '' @ kekUri @ '' is not enabled'')), s1)
                     | Some cryptoKeyVer \<Rightarrow>
                         if State cryptoKeyVer \<noteq> ENABLED
                         then (Inl (Err (''CryptoKeyVersion for '' @ kekUri
                                          @ '' is not enabled'')), s1)
                         else if ProtectionLevel cryptoKeyVer = PROTECTION_LEVEL_UNSPECIFIED
                         then (Inl (Err (''unspecified protection level ''
                                 @ ProtectionLevel_String (ProtectionLevel cryptoKeyVer))), s1)
                         else if ProtectionLevel cryptoKeyVer = EXTERNAL
                         then (case ExternalProtectionLevelOptions cryptoKeyVer of
                                 None \<Rightarrow>
                                   (Inl (Err (''CryptoKeyVersion for KEK '' @ kekUri
                                     @ '' does not have external protection level options despite being EXTERNAL protection level'')), s1)
                               | Some opts \<Rightarrow>
                                   (Inr \<lparr>protectionLevel = ProtectionLevel cryptoKeyVer,
                                         uri = ExternalKeyUri opts,
                                         resourceName = TrimPrefix kekUri gcpKeyPrefix\<rparr>, s1))
                         else (Inr \<lparr>protectionLevel = ProtectionLevel cryptoKeyVer,
                                    uri = kekUri,
                                    resourceName = TrimPrefix kekUri gcpKeyPrefix\<rparr>, s1)))
      | _ \<Rightarrow> (Inl (Err ''cannot retrieve KEK Metadata for a non-KEK''), s))"


subsection \<open>Deferred calls\<close>

text \<open>
  \<open>wrapShares\<close> and \<open>unwrapAndValidateShares\<close> push one \<open>defer c.kmsClient.Close()\<close>
  per share that reaches Cloud KMS. On return the frame runs them, last pushed first;
  the error \<open>Close\<close> returns is dropped, a panic inside it replaces the result.
\<close>

fun run_deferred :: "cloudKMSClient list \<Rightarrow> (error + 'a) \<times> state \<Rightarrow> (error + 'a) \<times> state" where
  "run_deferred [] (r, s) = (r, s)"
| "run_deferred (kms # pending) (r, s) =
     run_deferred pending
       (case kms_Close kms of
          Some (Panic m) \<Rightarrow> (Inl (Panic m), emit Close_call s)
        | _ \<Rightarrow> (r, emit Close_call s))"

text \<open>A function body with its own defer stack: the caller's stack is put back on return.\<close>

definition with_defers ::
  "(state \<Rightarrow> (error + 'a) \<times> state) \<Rightarrow> state \<Rightarrow> (error + 'a) \<times> state" where
  "with_defers body s =
     (let (r, s1) = body (s\<lparr>deferred := []\<rparr>);
          (r', s2) = run_deferred (deferred s1) (r, s1)
      in (r', s2\<lparr>deferred := deferred s\<rparr>))"

subsection \<open>wrapShares\<close>

text \<open>
  The loop \<open>for i, share := range unwrappedShares\<close> with \<open>kek := kekInfos[i]\<close> runs over
  the two lists side by side; the length test before it makes them equally long.
\<close>

fun wrapShares_loop ::
  "env \<Rightarrow> AsymmetricKeys \<Rightarrow> (bytes \<times> KekInfo) list \<Rightarrow> WrappedShare list \<Rightarrow> string list
     \<Rightarrow> state \<Rightarrow> (error + WrappedShare list \<times> string list) \<times> state" where
  "wrapShares_loop env keys [] wrappedShares keyURIs s = (Inr (wrappedShares, keyURIs), s)"
| "wrapShares_loop env keys ((share, kek) # rest) wrappedShares keyURIs s =
     (let hash = HashShare env share in
      case kek of
        KekInfo_RsaFingerprint fp \<Rightarrow>
          (case PublicKeyForRSAFingerprint env kek keys of
             Inl err \<Rightarrow>
               (Inl (Errorf ''failed to find public key for RSA fingerprint: '' err), s)
           | Inr key \<Rightarrow>
               (case EncryptOAEP env key share of
                  Inl err \<Rightarrow> (Inl (Errorf ''error wrapping key share: '' err), s)
                | Inr w \<Rightarrow>
                    wrapShares_loop env keys rest
                      (wrappedShares @ [\<lparr>wrapped_Share = w, wrapped_Hash = hash\<rparr>])
                      keyURIs s))
      | KekInfo_KekUri kekUri \<Rightarrow>
          (case initializeKMSClient env s of
             (Some err, s1) \<Rightarrow> (Inl (Errorf ''error initializing KMS Client: '' err), s1)
           | (None, s1) \<Rightarrow>
               (case kmsClient (c s1) of
                  None \<Rightarrow> (Inl nil_dereference, s1)
                | Some kms \<Rightarrow>
                    (case getKekURIMetadata kms kek (s1\<lparr>deferred := kms # deferred s1\<rparr>) of
                       (Inl err, s2) \<Rightarrow>
                         (Inl (Errorf ''Error retrieving KEK Metadata: '' err), s2)
                     | (Inr kmd, s2) \<Rightarrow>
                         if protectionLevel kmd = SOFTWARE \<or> protectionLevel kmd = HSM
                         then (case wrapKMSShare share (resourceName kmd) s2 of
                                 (Inl err, s3) \<Rightarrow>
                                   (Inl (Errorf ''error wrapping key share: '' err), s3)
                               | (Inr w, s3) \<Rightarrow>
                                   wrapShares_loop env keys rest
                                     (wrappedShares @ [\<lparr>wrapped_Share = w, wrapped_Hash = hash\<rparr>])
                                     (keyURIs @ [uri kmd]) s3)
                         else if protectionLevel kmd = EXTERNAL
                         then (case ekmSecureSessionWrap env share kmd s2 of
                                 (Inl err, s3) \<Rightarrow>
                                   (Inl (Errorf ''error wrapping with secure session: '' err), s3)
                               | (Inr ekmWrappedShare, s3) \<Rightarrow>
                                   wrapShares_loop env keys rest
                                     (wrappedShares
                                        @ [\<lparr>wrapped_Share = ekmWrappedShare, wrapped_Hash = hash\<rparr>])
                                     (keyURIs @ [uri kmd]) s3)
                         else (Inl (Err (''unsupported protection level ''
                                 @ ProtectionLevel_String (protectionLevel kmd))), s2))))
      | KekInfo_unset \<Rightarrow> (Inl (Err ''unsupported KekInfo type: <nil>''), s))"

definition wrapShares ::
  "env \<Rightarrow> bytes list \<Rightarrow> KekInfo list \<Rightarrow> AsymmetricKeys \<Rightarrow> state
     \<Rightarrow> (error + WrappedShare list \<times> string list) \<times> state" where
  "wrapShares env unwrappedShares kekInfos keys s =
     (if length unwrappedShares \<noteq> length kekInfos
      then (Inl (Err (''number of shares to wrap ('' @ decimal (length unwrappedShares)
                       @ '') does not match number of KEKs ('' @ decimal (length kekInfos)
                       @ '')'')), s)
      else with_defers (wrapShares_loop env keys (zip unwrappedShares kekInfos) [] []) s)"

subsection \<open>unwrapAndValidateShares\<close>

text \<open>
  What the \<open>switch\<close> of one loop iteration leaves behind: \<open>continue\<close>, \<open>return nil, err\<close>
  (or a panic), or a filled \<open>unwrapped\<close> that goes on to the hash test.
\<close>

datatype unwrap_step = Continue | Return error | Unwrapped UnwrappedShare

text \<open>\<open>if err != nil { glog.Warningf(msg, err); continue }\<close>\<close>

fun warn_continue :: "string \<Rightarrow> error \<Rightarrow> state \<Rightarrow> unwrap_step \<times> state" where
  "warn_continue msg (Err m) s = (Continue, emit (Warningf (msg @ m)) s)"
| "warn_continue msg (Panic m) s = (Return (Panic m), s)"

definition unwrap_switch ::
  "env \<Rightarrow> AsymmetricKeys \<Rightarrow> WrappedShare \<Rightarrow> KekInfo \<Rightarrow> state \<Rightarrow> unwrap_step \<times> state" where
  "unwrap_switch env keys wrapped kek s =
     (case kek of
        KekInfo_RsaFingerprint fp \<Rightarrow>
          (case PrivateKeyForRSAFingerprint env kek keys of
             Inl err \<Rightarrow> warn_continue ''Failed to find public key for RSA fingerprint: '' err s
           | Inr key \<Rightarrow>
               (case DecryptOAEP env key (wrapped_Share wrapped) of
                  Inl err \<Rightarrow> warn_continue ''Error unwrapping key share: '' err s
                | Inr share \<Rightarrow> (Unwrapped \<lparr>Share = share, URI = []\<rparr>, s)))
      | KekInfo_KekUri kekUri \<Rightarrow>
          (case initializeKMSClient env s of
             (Some err, s1) \<Rightarrow> warn_continue ''Error initializing Cloud KMS Client: '' err s1
           | (None, s1) \<Rightarrow>
               (case kmsClient (c s1) of
                  None \<Rightarrow> (Return nil_dereference, s1)
                | Some kms \<Rightarrow>
                    (case getKekURIMetadata kms kek (s1\<lparr>deferred := kms # deferred s1\<rparr>) of
                       (Inl err, s2) \<Rightarrow>
                         (Return (Errorf ''Error retrieving KEK Metadata: '' err), s2)
                     | (Inr kmd, s2) \<Rightarrow>
                         if protectionLevel kmd = SOFTWARE \<or> protectionLevel kmd = HSM
                         then (case unwrapKMSShare (wrapped_Share wrapped) (resourceName kmd) s2 of
                                 (Inl err, s3) \<Rightarrow>
                                   warn_continue ''Error unwrapping key share: '' err s3
                               | (Inr share, s3) \<Rightarrow>
                                   (Unwrapped \<lparr>Share = share, URI = uri kmd\<rparr>, s3))
                         else if protectionLevel kmd = EXTERNAL
                         then (case ekmSecureSessionUnwrap env (wrapped_Share wrapped) kmd s2 of
                                 (Inl err, s3) \<Rightarrow>
                                   warn_continue (''Error unwrapping with external EKM for ''
                                                    @ uri kmd @ '': '') err s3
                               | (Inr share, s3) \<Rightarrow>
                                   (Unwrapped \<lparr>Share = share, URI = uri kmd\<rparr>, s3))
                         else (Continue,
                               emit (Warningf (''Unsupported protection level ''
                                       @ ProtectionLevel_String (protectionLevel kmd))) s2))))
      | KekInfo_unset \<Rightarrow> (Continue, emit (Warningf ''Unsupported KekInfo type: <nil>'') s))"

fun unwrapAndValidateShares_loop ::
  "env \<Rightarrow> AsymmetricKeys \<Rightarrow> nat \<Rightarrow> (WrappedShare \<times> KekInfo) list \<Rightarrow> UnwrappedShare list
     \<Rightarrow> state \<Rightarrow> (error + UnwrappedShare list) \<times> state" where
  "unwrapAndValidateShares_loop env keys i [] unwrappedShares s = (Inr unwrappedShares, s)"
| "unwrapAndValidateShares_loop env keys i ((wrapped, kek) # rest) unwrappedShares s =
     (case unwrap_switch env keys wrapped kek
             (emit (Infof (''Attempting to unwrap share #'' @ decimal (i + 1))) s) of
        (Return err, s1) \<Rightarrow> (Inl err, s1)
      | (Continue, s1) \<Rightarrow>
          unwrapAndValidateShares_loop env keys (i + 1) rest unwrappedShares s1
      | (Unwrapped unwrapped, s1) \<Rightarrow>
          if \<not> ValidateShare env (Share unwrapped) (wrapped_Hash wrapped)
          then unwrapAndValidateShares_loop env keys (i + 1) rest unwrappedShares
                 (emit (Warningf (''Unwrapped share '' @ decimal i
                          @ '' does not have the expected hash'')) s1)
          else unwrapAndValidateShares_loop env keys (i + 1) rest
                 (unwrappedShares @ [unwrapped])
                 (emit (Infof (''Successfully unwrapped share #'' @ decimal (i + 1))) s1))"

definition unwrapAndValidateShares ::
  "env \<Rightarrow> WrappedShare list \<Rightarrow> KekInfo list \<Rightarrow> AsymmetricKeys \<Rightarrow> state
     \<Rightarrow> (error + UnwrappedShare list) \<times> state" where
  "unwrapAndValidateShares env wrappedShares kekInfos keys s =
     (if length wrappedShares \<noteq> length kekInfos
      then (Inl (Err (''number of shares to unwrap ('' @ decimal (length wrappedShares)
                       @ '') does not match number of KEKs ('' @ decimal (length kekInfos)
                       @ '')'')), s)
      else with_defers
             (unwrapAndValidateShares_loop env keys 0 (zip wrappedShares kekInfos) []) s)"

subsection \<open>Encrypt\<close>

definition Encrypt ::
  "env \<Rightarrow> EncryptConfig option \<Rightarrow> AsymmetricKeys \<Rightarrow> string \<Rightarrow> state
     \<Rightarrow> (error + StetMetadata) \<times> state" where
  "Encrypt env config keys blobID s =
     (case config of
        None \<Rightarrow> (Inl (Err ''nil EncryptConfig passed to Encrypt()''), s)
      | Some cfg \<Rightarrow>
          let keyCfg = enc_KeyConfig cfg;
              dataEncryptionKey = NewDEK env
          in (case CreateDEKShares env dataEncryptionKey keyCfg of
                Inl err \<Rightarrow> (Inl (Errorf ''error creating DEK shares: '' err), s)
              | Inr shares \<Rightarrow>
                  let blobID = (if blobID = [] then NewString env else blobID);
                      kekInfos = (case keyCfg of None \<Rightarrow> [] | Some k \<Rightarrow> KekInfos k)
                  in (case wrapShares env shares kekInfos keys s of
                        (Inl err, s1) \<Rightarrow> (Inl (Errorf ''error wrapping shares: '' err), s1)
                      | (Inr (wrappedShares, keyURIs), s1) \<Rightarrow>
                          let metadata = \<lparr>md_BlobId = blobID, md_KeyConfig = keyCfg,
                                           md_Shares = wrappedShares\<rparr>
                          in (case MetadataToAAD env metadata of
                                Inl err \<Rightarrow>
                                  (Inl (Errorf ''error serializing metadata: '' err), s1)
                              | Inr aad \<Rightarrow>
                                  (case Marshal env metadata of
                                     Inl err \<Rightarrow>
                                       (Inl (Errorf ''failed to serialize metadata: '' err), s1)
                                   | Inr metadataBytes \<Rightarrow>
                                       let (werr, out1) = WriteSTETHeader env (out_stream s1)
                                                            (length metadataBytes);
                                           s2 = emit (WriteSTETHeader_call (length metadataBytes))
                                                  (s1\<lparr>out_stream := out1\<rparr>)
                                       in (case werr of
                                             Some err \<Rightarrow>
                                               (Inl (Errorf ''failed to write encrypted file header: '' err), s2)
                                           | None \<Rightarrow>
                                               let (werr, out2) = Write env (out_stream s2) metadataBytes;
                                                   s3 = emit (Write_call metadataBytes)
                                                          (s2\<lparr>out_stream := out2\<rparr>)
                                               in (case werr of
                                                     Some err \<Rightarrow>
                                                       (Inl (Errorf ''failed to write metadata: '' err), s3)
                                                   | None \<Rightarrow>
                                                       let (aerr, in4, out4) =
                                                             AeadEncrypt env dataEncryptionKey
                                                               (in_stream s3) (out_stream s3) aad;
                                                           s4 = emit AeadEncrypt_call
                                                                  (s3\<lparr>in_stream := in4, out_stream := out4\<rparr>)
                                                       in (case aerr of
                                                             Some err \<Rightarrow>
                                                               (Inl (Errorf ''error encrypting data: '' err), s4)
                                                           | None \<Rightarrow>
                                                               (Inr \<lparr>KeyUris = keyURIs, BlobID = blobID\<rparr>, s4)))))))))"

subsection \<open>Decrypt\<close>

text \<open>
  \<open>proto.Equal(keyCfg, metadata.GetKeyConfig())\<close>: the configured message is never nil,
  so it equals the metadata's only when that one is present with the same fields.
\<close>

definition proto_Equal :: "KeyConfig \<Rightarrow> KeyConfig option \<Rightarrow> bool" where
  "proto_Equal x y = (y = Some x)"

text \<open>The loop \<open>for _, keyCfg := range config.GetKeyConfigs()\<close> with its \<open>break\<close>.\<close>

fun matchingKeyConfig :: "KeyConfig list \<Rightarrow> KeyConfig option \<Rightarrow> KeyConfig option" where
  "matchingKeyConfig [] metadataKeyConfig = None"
| "matchingKeyConfig (keyCfg # rest) metadataKeyConfig =
     (if proto_Equal keyCfg metadataKeyConfig then Some keyCfg
      else matchingKeyConfig rest metadataKeyConfig)"

text \<open>
  Modelled from the spec: the constant \<open>shares.DEKBytes\<close> and the array type
  \<open>shares.DEK\<close> are declared outside the client file; the spec gives the DEK 32 bytes.
\<close>

definition DEKBytes :: nat where
  "DEKBytes = 32"

text \<open>\<open>var combinedDEK shares.DEK; copy(combinedDEK[:], combinedShares)\<close>\<close>

definition copy_DEK :: "bytes \<Rightarrow> bytes" where
  "copy_DEK combinedShares =
     take DEKBytes combinedShares @ replicate (DEKBytes - length combinedShares) 0"

text \<open>The closing loop of \<open>Decrypt\<close> over the unwrapped shares.\<close>

fun keyURIs_of :: "UnwrappedShare list \<Rightarrow> string list" where
  "keyURIs_of [] = []"
| "keyURIs_of (unwrapped # rest) =
     (if URI unwrapped \<noteq> [] then URI unwrapped # keyURIs_of rest else keyURIs_of rest)"

definition Decrypt ::
  "env \<Rightarrow> DecryptConfig option \<Rightarrow> AsymmetricKeys \<Rightarrow> state
     \<Rightarrow> (error + StetMetadata) \<times> state" where
  "Decrypt env config keys s =
     (case config of
        None \<Rightarrow> (Inl (Err ''nil DecryptConfig passed to Decrypt()''), s)
      | Some cfg \<Rightarrow>
          let (rm, in1) = ReadMetadata env (in_stream s);
              s1 = emit ReadMetadata_call (s\<lparr>in_stream := in1\<rparr>)
          in (case rm of
                Inl err \<Rightarrow> (Inl (Errorf ''error reading metadata: '' err), s1)
              | Inr metadata \<Rightarrow>
                  (case matchingKeyConfig (KeyConfigs cfg) (md_KeyConfig metadata) of
                     None \<Rightarrow> (Inl (Err ''no known KeyConfig matches given data''), s1)
                   | Some matching \<Rightarrow>
                       (case unwrapAndValidateShares env (md_Shares metadata)
                               (KekInfos matching) keys s1 of
                          (Inl err, s2) \<Rightarrow>
                            (Inl (Errorf ''error unwrapping and validating shares: '' err), s2)
                        | (Inr unwrappedShares, s2) \<Rightarrow>
                            (case CombineUnwrappedShares env matching unwrappedShares of
                               Inl err \<Rightarrow>
                                 (Inl (Errorf ''error combining unwrapped shares: '' err), s2)
                             | Inr combinedShares \<Rightarrow>
                                 let combinedDEK = copy_DEK combinedShares
                                 in (case MetadataToAAD env metadata of
                                       Inl err \<Rightarrow>
                                         (Inl (Errorf ''error serializing metadata: '' err), s2)
                                     | Inr aad \<Rightarrow>
                                         let (aerr, in3, out3) =
                                               AeadDecrypt env combinedDEK (in_stream s2)
                                                 (out_stream s2) aad;
                                             s3 = emit AeadDecrypt_call
                                                    (s2\<lparr>in_stream := in3, out_stream := out3\<rparr>)
                                         in (case aerr of
                                               Some err \<Rightarrow>
                                                 (Inl (Errorf ''error decrypting data: '' err), s3)
                                             | None \<Rightarrow>
                                                 (Inr \<lparr>KeyUris = keyURIs_of unwrappedShares,
                                                       BlobID = md_BlobId metadata\<rparr>, s3))))))))"


section \<open>The whole-buffer revision of the client file\<close>

text \<open>
  The second source file is the revision of the same package that encrypts a byte
  slice in memory. Its functions carry the suffix \<open>_wb\<close> where the name is also used
  by \<open>client/client.go\<close>. Its RSA key lookup (\<open>publicKeyForRSAFingerprint\<close>,
  \<open>privateKeyForRSAFingerprint\<close>) reads key files; it is taken through the same two
  parameters as in the streaming revision.
\<close>

record EncryptedData =
  ed_Ciphertext :: bytes
  ed_Metadata :: Metadata

record DecryptedData =
  dd_Plaintext :: bytes
  dd_KeyUris :: "string list"
  dd_BlobID :: string

record env_wb = env +
  NewKeyManagementClient_wb :: "cloudKMSClient \<times> error option"
  GenerateJWT :: "string \<Rightarrow> error + string"
  EstablishSecureSession_wb :: "string \<Rightarrow> string \<Rightarrow> error + secureSessionClient"
  shamir_Split :: "bytes \<Rightarrow> int \<Rightarrow> int \<Rightarrow> error + bytes list"
  CombineShares :: "bytes list \<Rightarrow> error + bytes"
  aeadEncrypt :: "bytes \<Rightarrow> bytes \<Rightarrow> bytes \<Rightarrow> error + bytes"
  aeadDecrypt :: "bytes \<Rightarrow> bytes \<Rightarrow> bytes \<Rightarrow> error + bytes"

definition proxyPort :: nat where
  "proxyPort = 8842"

definition initializeKMSClient_wb :: "env_wb \<Rightarrow> state \<Rightarrow> error option \<times> state" where
  "initializeKMSClient_wb env s =
     (case kmsClient (c s) of
        Some _ \<Rightarrow> (None, s)
      | None \<Rightarrow>
          (case fakeKeyManagementClient (c s) of
             Some fake \<Rightarrow> (None, s\<lparr>c := (c s)\<lparr>kmsClient := Some fake\<rparr>\<rparr>)
           | None \<Rightarrow>
               let (client, err) = NewKeyManagementClient_wb env;
                   s1 = emit (NewKeyManagementClient_call [])
                          (s\<lparr>c := (c s)\<lparr>kmsClient := Some client\<rparr>\<rparr>)
               in (case err of
                     Some e \<Rightarrow> (Some (Errorf ''error creating KMS client: '' e), s1)
                   | None \<Rightarrow> (None, s1))))"

definition parseEKMKeyURI_wb :: "env_wb \<Rightarrow> string \<Rightarrow> error + (string \<times> string)" where
  "parseEKMKeyURI_wb env keyURI =
     (case url_Parse env keyURI of
        Inl err \<Rightarrow> Inl (Errorf ''could not parse: '' err)
      | Inr u \<Rightarrow>
          Inr (Scheme u @ ''://'' @ Hostname u @ '':'' @ decimal proxyPort,
               path_Base env keyURI))"

definition generateTokenFromEKMAddress :: "env_wb \<Rightarrow> string \<Rightarrow> error + string" where
  "generateTokenFromEKMAddress env address =
     (case url_Parse env address of
        Inl err \<Rightarrow> Inl (Errorf ''could not parse EKM address: '' err)
      | Inr u \<Rightarrow>
          (case GenerateJWT env (Scheme u @ ''://'' @ Hostname u) of
             Inl err \<Rightarrow> Inl (Errorf ''failed to generate JWT: '' err)
           | Inr authToken \<Rightarrow> Inr authToken))"

definition removeSchemeFromURL :: "env_wb \<Rightarrow> string \<Rightarrow> error + string" where
  "removeSchemeFromURL env ekmURL =
     (case url_Parse env ekmURL of
        Inl err \<Rightarrow> Inl (Errorf ''could not extract host from EKM address: '' err)
      | Inr u \<Rightarrow> Inr (Host u))"

definition ekmSecureSessionWrap_wb ::
  "env_wb \<Rightarrow> bytes \<Rightarrow> kekMetadata \<Rightarrow> state \<Rightarrow> (error + bytes) \<times> state" where
  "ekmSecureSessionWrap_wb env unwrappedShare md s =
     (case parseEKMKeyURI_wb env (uri md) of
        Inl err \<Rightarrow> (Inl err, s)
      | Inr (addr, keyPath) \<Rightarrow>
          let established =
            (case fakeSecureSessionClient (c s) of
               Some fake \<Rightarrow> (Inr fake, s)
             | None \<Rightarrow>
                 (case generateTokenFromEKMAddress env addr of
                    Inl err \<Rightarrow> (Inl err, s)
                  | Inr authToken \<Rightarrow>
                      (case removeSchemeFromURL env addr of
                         Inl err \<Rightarrow> (Inl err, s)
                       | Inr rpcAddr \<Rightarrow>
                           let s1 = emit (EstablishSecureSession_call rpcAddr authToken False) s
                           in (case EstablishSecureSession_wb env rpcAddr authToken of
                                 Inl err \<Rightarrow>
                                   (Inl (Errorf ''error establishing secure session: '' err), s1)
                               | Inr session \<Rightarrow> (Inr session, s1)))))
          in (case established of
                (Inl err, s1) \<Rightarrow> (Inl err, s1)
              | (Inr ekmClient, s1) \<Rightarrow>
                  let r = ConfidentialWrap ekmClient keyPath (resourceName md) unwrappedShare;
                      s2 = emit (ConfidentialWrap_call keyPath (resourceName md)
                                   unwrappedShare r) s1
                  in (case r of
                        Inl err \<Rightarrow>
                          (Inl (Errorf ''error wrapping with secure session: '' err), s2)
                      | Inr wrappedBlob \<Rightarrow>
                          let e = EndSession ekmClient;
                              s3 = emit (EndSession_call e) s2
                          in (case e of
                                Some err \<Rightarrow>
                                  (Inl (Errorf ''error ending secure session: '' err), s3)
                              | None \<Rightarrow> (Inr wrappedBlob, s3)))))"

definition ekmSecureSessionUnwrap_wb ::
  "env_wb \<Rightarrow> bytes \<Rightarrow> kekMetadata \<Rightarrow> state \<Rightarrow> (error + bytes) \<times> state" where
  "ekmSecureSessionUnwrap_wb env wrappedShare md s =
     (case parseEKMKeyURI_wb env (uri md) of
        Inl err \<Rightarrow> (Inl err, s)
      | Inr (addr, keyPath) \<Rightarrow>
          let established =
            (case fakeSecureSessionClient (c s) of
               Some fake \<Rightarrow> (Inr fake, s)
             | None \<Rightarrow>
                 (case generateTokenFromEKMAddress env addr of
                    Inl err \<Rightarrow> (Inl err, s)
                  | Inr authToken \<Rightarrow>
                      (case removeSchemeFromURL env addr of
                         Inl err \<Rightarrow> (Inl err, s)
                       | Inr rpcAddr \<Rightarrow>
                           let s1 = emit (EstablishSecureSession_call rpcAddr authToken False) s
                           in (case EstablishSecureSession_wb env rpcAddr authToken of
                                 Inl err \<Rightarrow>
                                   (Inl (Errorf ''error establishing secure session: '' err), s1)
                               | Inr session \<Rightarrow> (Inr session, s1)))))
          in (case established of
                (Inl err, s1) \<Rightarrow> (Inl err, s1)
              | (Inr ekmClient, s1) \<Rightarrow>
                  let r = ConfidentialUnwrap ekmClient keyPath (resourceName md) wrappedShare;
                      s2 = emit (ConfidentialUnwrap_call keyPath (resourceName md)
                                   wrappedShare r) s1
                  in (case r of
                        Inl err \<Rightarrow>
                          (Inl (Errorf ''error unwrapping with secure session: '' err), s2)
                      | Inr unwrappedBlob \<Rightarrow>
                          let e = EndSession ekmClient;
                              s3 = emit (EndSession_call e) s2
                          in (case e of
                                Some err \<Rightarrow>
                                  (Inl (Errorf ''error ending secure session: '' err), s3)
                              | None \<Rightarrow> (Inr unwrappedBlob, s3)))))"

text \<open>Here the KMS client is an argument, an interface value that is not nil.\<close>

definition wrapKMSShare_wb ::
  "cloudKMSClient \<Rightarrow> bytes \<Rightarrow> string \<Rightarrow> state \<Rightarrow> (error + bytes) \<times> state" where
  "wrapKMSShare_wb kms share keyName s =
     (let req = \<lparr>enc_Name = keyName, enc_Plaintext = share,
                 enc_PlaintextCrc32C = Some (ucast (crc32c share))\<rparr>;
          s1 = emit (Encrypt_call req) s
      in case kms_Encrypt kms req of
           Inl err \<Rightarrow> (Inl (Errorf ''failed to encrypt: '' err), s1)
         | Inr result \<Rightarrow>
             if \<not> enc_VerifiedPlaintextCrc32C result
             then (Inl (Err ''Encrypt: request corrupted in-transit''), s1)
             else (case enc_CiphertextCrc32C result of
                     None \<Rightarrow> (Inl nil_dereference, s1)
                   | Some v \<Rightarrow>
                       if ucast (crc32c (enc_Ciphertext result)) \<noteq> v
                       then (Inl (Err ''Encrypt: response corrupted in-transit''), s1)
                       else (Inr (enc_Ciphertext result), s1)))"

definition unwrapKMSShare_wb ::
  "cloudKMSClient \<Rightarrow> bytes \<Rightarrow> string \<Rightarrow> state \<Rightarrow> (error + bytes) \<times> state" where
  "unwrapKMSShare_wb kms wrappedShare keyName s =
     (let req = \<lparr>dec_Name = keyName, dec_Ciphertext = wrappedShare,
                 dec_CiphertextCrc32C = Some (ucast (crc32c wrappedShare))\<rparr>;
          s1 = emit (Decrypt_call req) s
      in case kms_Decrypt kms req of
           Inl err \<Rightarrow> (Inl (Errorf ''failed to decrypt ciphertext: '' err), s1)
         | Inr result \<Rightarrow>
             (case dec_PlaintextCrc32C result of
                None \<Rightarrow> (Inl nil_dereference, s1)
              | Some v \<Rightarrow>
                  if ucast (crc32c (dec_Plaintext result)) \<noteq> v
                  then (Inl (Err ''Decrypt: response corrupted in-transit''), s1)
                  else (Inr (dec_Plaintext result), s1)))"

subsection \<open>protectionLevelsAndUris\<close>

text \<open>\<open>kmd := kekMetadata{}\<close>, the entry a KekInfo without a KEK URI keeps.\<close>

definition zero_kekMetadata :: kekMetadata where
  "zero_kekMetadata =
     \<lparr>protectionLevel = PROTECTION_LEVEL_UNSPECIFIED, uri = [], resourceName = []\<rparr>"

fun protectionLevelsAndUris_loop ::
  "cloudKMSClient \<Rightarrow> KekInfo list \<Rightarrow> kekMetadata list \<Rightarrow> state
     \<Rightarrow> (error + kekMetadata list) \<times> state" where
  "protectionLevelsAndUris_loop kms [] kekMetadatas s = (Inr kekMetadatas, s)"
| "protectionLevelsAndUris_loop kms (kekInfo # rest) kekMetadatas s =
     (case kekInfo of
        KekInfo_KekUri kekUri \<Rightarrow>
          if \<not> prefix gcpKeyPrefix kekUri
          then (Inl (Err (kekUri @ '' does not have the expected URI prefix, want ''
                           @ gcpKeyPrefix)), s)
          else
            let name = TrimPrefix kekUri gcpKeyPrefix;
                s1 = emit (GetCryptoKey_call name) s
            in (case GetCryptoKey kms name of
                  Inl err \<Rightarrow> (Inl (Errorf ''error retrieving key metadata: '' err), s1)
                | Inr cryptoKey \<Rightarrow>
                    (case Primary cryptoKey of
                       None \<Rightarrow>
                         (Inl (Err (''CryptoKeyVersion for '' @ kekUri @ '' is not enabled'')), s1)
                     | Some cryptoKeyVer \<Rightarrow>
                         if State cryptoKeyVer \<noteq> ENABLED
                         then (Inl (Err (''CryptoKeyVersion for '' @ kekUri
                                          @ '' is not enabled'')), s1)
                         else if ProtectionLevel cryptoKeyVer = PROTECTION_LEVEL_UNSPECIFIED
                         then (Inl (Err (''unspecified protection level ''
                                 @ ProtectionLevel_String (ProtectionLevel cryptoKeyVer))), s1)
                         else if ProtectionLevel cryptoKeyVer = EXTERNAL
                         then (case ExternalProtectionLevelOptions cryptoKeyVer of
                                 None \<Rightarrow>
                                   (Inl (Err (''CryptoKeyVersion for KEK '' @ kekUri
                                     @ '' does not have external protection level options despite being EXTERNAL protection level'')), s1)
                               | Some opts \<Rightarrow>
                                   protectionLevelsAndUris_loop kms rest
                                     (kekMetadatas
                                        @ [\<lparr>protectionLevel = ProtectionLevel cryptoKeyVer,
                                             uri = ExternalKeyUri opts,
                                             resourceName = TrimPrefix kekUri gcpKeyPrefix\<rparr>])
                                     s1)
                         else protectionLevelsAndUris_loop kms rest
                                (kekMetadatas
                                   @ [\<lparr>protectionLevel = ProtectionLevel cryptoKeyVer,
                                        uri = kekUri,
                                        resourceName = TrimPrefix kekUri gcpKeyPrefix\<rparr>])
                                s1))
      | _ \<Rightarrow> protectionLevelsAndUris_loop kms rest (kekMetadatas @ [zero_kekMetadata]) s)"

definition protectionLevelsAndUris ::
  "cloudKMSClient \<Rightarrow> KekInfo list \<Rightarrow> state \<Rightarrow> (error + kekMetadata list) \<times> state" where
  "protectionLevelsAndUris kms kekInfos s = protectionLevelsAndUris_loop kms kekInfos [] s"

subsection \<open>SplitShares\<close>

text \<open>
  Modelled from the spec: \<open>SplitShares\<close> (the Shamir split of the share codec) is
  declared in another file of the package, which is not among the sources. The spec
  admits \<open>Shamir{shares = n, threshold = k}\<close> only with 2 \<le> k \<le> n \<le> 255 and has the
  split produce the shares for such parameters; outside that range the split is
  refused. The share bytes depend on random coefficients and stay a parameter
  (\<open>shamir_Split\<close>), as does the wording of the refusal.
\<close>

definition SplitShares :: "env_wb \<Rightarrow> bytes \<Rightarrow> int \<Rightarrow> int \<Rightarrow> error + bytes list" where
  "SplitShares env secret n k =
     (if 2 \<le> k \<and> k \<le> n \<and> n \<le> 255 then shamir_Split env secret n k
      else Inl (Err ''invalid Shamir parameters''))"

subsection \<open>wrapShares, whole-buffer revision\<close>

text \<open>
  \<open>kekMetadatas\<close> is nil until the first share with a KEK URI fills it for all KekInfos
  at once; \<open>None\<close> is the nil slice. \<open>kekMetadatas[i]\<close> panics out of range.
\<close>

definition index_out_of_range :: error where
  "index_out_of_range = Panic ''runtime error: index out of range''"

definition slice_of :: "'a list \<Rightarrow> 'a list option" where
  "slice_of xs = (if xs = [] then None else Some xs)"

fun wrapShares_wb_loop ::
  "env_wb \<Rightarrow> AsymmetricKeys \<Rightarrow> KekInfo list \<Rightarrow> nat \<Rightarrow> (bytes \<times> KekInfo) list
     \<Rightarrow> kekMetadata list option \<Rightarrow> WrappedShare list \<Rightarrow> state
     \<Rightarrow> (error + WrappedShare list) \<times> state" where
  "wrapShares_wb_loop env keys kekInfos i [] kekMetadatas wrappedShares s =
     (Inr wrappedShares, s)"
| "wrapShares_wb_loop env keys kekInfos i ((share, kek) # rest) kekMetadatas wrappedShares s =
     (let hash = HashShare env share in
      case kek of
        KekInfo_RsaFingerprint fp \<Rightarrow>
          (case PublicKeyForRSAFingerprint env kek keys of
             Inl err \<Rightarrow>
               (Inl (Errorf ''failed to find public key for RSA fingerprint: '' err), s)
           | Inr key \<Rightarrow>
               (case EncryptOAEP env key share of
                  Inl err \<Rightarrow> (Inl (Errorf ''error wrapping key share: '' err), s)
                | Inr w \<Rightarrow>
                    wrapShares_wb_loop env keys kekInfos (i + 1) rest kekMetadatas
                      (wrappedShares @ [\<lparr>wrapped_Share = w, wrapped_Hash = hash\<rparr>]) s))
      | KekInfo_KekUri kekUri \<Rightarrow>
          (case initializeKMSClient_wb env s of
             (Some err, s1) \<Rightarrow> (Inl (Errorf ''error initializing KMS Client: '' err), s1)
           | (None, s1) \<Rightarrow>
               (case kmsClient (c s1) of
                  None \<Rightarrow> (Inl nil_dereference, s1)
                | Some kms \<Rightarrow>
                    let s2 = s1\<lparr>deferred := kms # deferred s1\<rparr>;
                        populated =
                          (case kekMetadatas of
                             Some m \<Rightarrow> (Inr m, s2)
                           | None \<Rightarrow> protectionLevelsAndUris kms kekInfos s2)
                    in (case populated of
                          (Inl err, s3) \<Rightarrow>
                            (Inl (Errorf ''Error retrieving KEK Metadata: '' err), s3)
                        | (Inr m, s3) \<Rightarrow>
                            if \<not> i < length m then (Inl index_out_of_range, s3)
                            else if protectionLevel (m ! i) = SOFTWARE
                                    \<or> protectionLevel (m ! i) = HSM
                            then (case wrapKMSShare_wb kms share (resourceName (m ! i)) s3 of
                                    (Inl err, s4) \<Rightarrow>
                                      (Inl (Errorf ''error wrapping key share: '' err), s4)
                                  | (Inr w, s4) \<Rightarrow>
                                      wrapShares_wb_loop env keys kekInfos (i + 1) rest
                                        (slice_of m)
                                        (wrappedShares
                                           @ [\<lparr>wrapped_Share = w, wrapped_Hash = hash\<rparr>]) s4)
                            else if protectionLevel (m ! i) = EXTERNAL
                            then (case ekmSecureSessionWrap_wb env share (m ! i) s3 of
                                    (Inl err, s4) \<Rightarrow>
                                      (Inl (Errorf ''error wrapping with secure session: '' err), s4)
                                  | (Inr ekmWrappedShare, s4) \<Rightarrow>
                                      wrapShares_wb_loop env keys kekInfos (i + 1) rest
                                        (slice_of m)
                                        (wrappedShares
                                           @ [\<lparr>wrapped_Share = ekmWrappedShare,
                                                wrapped_Hash = hash\<rparr>]) s4)
                            else (Inl (Err (''unsupported protection level ''
                                    @ ProtectionLevel_String (protectionLevel (m ! i)))), s3))))
      | KekInfo_unset \<Rightarrow> (Inl (Err ''unsupported KekInfo type: <nil>''), s))"

definition wrapShares_wb ::
  "env_wb \<Rightarrow> bytes list \<Rightarrow> KekInfo list \<Rightarrow> AsymmetricKeys \<Rightarrow> state
     \<Rightarrow> (error + WrappedShare list) \<times> state" where
  "wrapShares_wb env unwrappedShares kekInfos keys s =
     (if length unwrappedShares \<noteq> length kekInfos
      then (Inl (Err (''number of shares to wrap ('' @ decimal (length unwrappedShares)
                       @ '') does not match number of KEKs ('' @ decimal (length kekInfos)
                       @ '')'')), s)
      else with_defers
             (wrapShares_wb_loop env keys kekInfos 0 (zip unwrappedShares kekInfos) None []) s)"

subsection \<open>unwrapAndValidateShares, whole-buffer revision\<close>

fun unwrapAndValidateShares_wb_loop ::
  "env_wb \<Rightarrow> AsymmetricKeys \<Rightarrow> KekInfo list \<Rightarrow> nat \<Rightarrow> (WrappedShare \<times> KekInfo) list
     \<Rightarrow> kekMetadata list option \<Rightarrow> bytes list \<Rightarrow> state
     \<Rightarrow> (error + bytes list) \<times> state" where
  "unwrapAndValidateShares_wb_loop env keys kekInfos i [] kekMetadatas unwrappedShares s =
     (Inr unwrappedShares, s)"
| "unwrapAndValidateShares_wb_loop env keys kekInfos i ((wrapped, kek) # rest) kekMetadatas
       unwrappedShares s =
     (let switch =
        (case kek of
           KekInfo_RsaFingerprint fp \<Rightarrow>
             (case PrivateKeyForRSAFingerprint env kek keys of
                Inl err \<Rightarrow>
                  (Inl (Errorf ''failed to find public key for RSA fingerprint: '' err), s)
              | Inr key \<Rightarrow>
                  (case DecryptOAEP env key (wrapped_Share wrapped) of
                     Inl err \<Rightarrow> (Inl (Errorf ''error unwrapping key share: '' err), s)
                   | Inr unwrapped \<Rightarrow> (Inr (unwrapped, kekMetadatas), s)))
         | KekInfo_KekUri kekUri \<Rightarrow>
             (case initializeKMSClient_wb env s of
                (Some err, s1) \<Rightarrow> (Inl (Errorf ''error initializing KMS Client: '' err), s1)
              | (None, s1) \<Rightarrow>
                  (case kmsClient (c s1) of
                     None \<Rightarrow> (Inl nil_dereference, s1)
                   | Some kms \<Rightarrow>
                       let s2 = s1\<lparr>deferred := kms # deferred s1\<rparr>;
                           populated =
                             (case kekMetadatas of
                                Some m \<Rightarrow> (Inr m, s2)
                              | None \<Rightarrow> protectionLevelsAndUris kms kekInfos s2)
                       in (case populated of
                             (Inl err, s3) \<Rightarrow>
                               (Inl (Errorf ''Error retrieving KEK Metadata: '' err), s3)
                           | (Inr m, s3) \<Rightarrow>
                               if \<not> i < length m then (Inl index_out_of_range, s3)
                               else if protectionLevel (m ! i) = SOFTWARE
                                       \<or> protectionLevel (m ! i) = HSM
                               then (case unwrapKMSShare_wb kms (wrapped_Share wrapped)
                                            (resourceName (m ! i)) s3 of
                                       (Inl err, s4) \<Rightarrow>
                                         (Inl (Errorf ''error unwrapping key share: '' err), s4)
                                     | (Inr unwrapped, s4) \<Rightarrow>
                                         (Inr (unwrapped, slice_of m), s4))
                               else if protectionLevel (m ! i) = EXTERNAL
                               then (case ekmSecureSessionUnwrap_wb env (wrapped_Share wrapped)
                                            (m ! i) s3 of
                                       (Inl err, s4) \<Rightarrow>
                                         (Inl (Errorf (''error unwrapping with external EKM for ''
                                                        @ uri (m ! i) @ '': '') err), s4)
                                     | (Inr unwrapped, s4) \<Rightarrow>
                                         (Inr (unwrapped, slice_of m), s4))
                               else (Inl (Err (''unsupported protection level ''
                                       @ ProtectionLevel_String (protectionLevel (m ! i)))), s3))))
         | KekInfo_unset \<Rightarrow> (Inl (Err ''unsupported KekInfo type: <nil>''), s))
      in case switch of
           (Inl err, s') \<Rightarrow> (Inl err, s')
         | (Inr (unwrapped, kekMetadatas'), s') \<Rightarrow>
             if \<not> ValidateShare env unwrapped (wrapped_Hash wrapped)
             then (Inl (Err (''unwrapped share '' @ decimal i
                              @ '' does not have the expected hash'')), s')
             else unwrapAndValidateShares_wb_loop env keys kekInfos (i + 1) rest kekMetadatas'
                    (unwrappedShares @ [unwrapped]) s')"

definition unwrapAndValidateShares_wb ::
  "env_wb \<Rightarrow> WrappedShare list \<Rightarrow> KekInfo list \<Rightarrow> AsymmetricKeys \<Rightarrow> state
     \<Rightarrow> (error + bytes list) \<times> state" where
  "unwrapAndValidateShares_wb env wrappedShares kekInfos keys s =
     (if length wrappedShares \<noteq> length kekInfos
      then (Inl (Err (''number of shares to unwrap ('' @ decimal (length wrappedShares)
                       @ '') does not match number of KEKs ('' @ decimal (length kekInfos)
                       @ '')'')), s)
      else with_defers
             (unwrapAndValidateShares_wb_loop env keys kekInfos 0
                (zip wrappedShares kekInfos) None []) s)"

subsection \<open>Encrypt, whole-buffer revision\<close>

text \<open>
  \<open>keyCfg.KeySplittingAlgorithm\<close> is a field read: with a nil \<open>keyCfg\<close> (no config, or a
  config without a KeyConfig) it panics. The \<open>switch\<close> yields the shares or the error.
\<close>

definition Encrypt_wb ::
  "env_wb \<Rightarrow> bytes \<Rightarrow> EncryptConfig option \<Rightarrow> AsymmetricKeys \<Rightarrow> string \<Rightarrow> state
     \<Rightarrow> (error + EncryptedData) \<times> state" where
  "Encrypt_wb env plaintext config keys blobID s =
     (let blobID = (if blobID = [] then NewString env else blobID);
          dataEncryptionKey = NewDEK env
      in case (case config of None \<Rightarrow> None | Some cfg \<Rightarrow> enc_KeyConfig cfg) of
           None \<Rightarrow> (Inl nil_dereference, s)
         | Some keyCfg \<Rightarrow>
             (case (case KeySplittingAlgorithm keyCfg of
                      KeyConfig_NoSplit \<Rightarrow>
                        if length (KekInfos keyCfg) \<noteq> 1
                        then Inl (Err (''invalid Encrypt configuration, number of KekInfos is ''
                                        @ decimal (length (KekInfos keyCfg))
                                        @ '' but expected 1 for '' @ [CHR 0x27] @ ''no split''
                                        @ [CHR 0x27] @ '' option''))
                        else Inr [dataEncryptionKey]
                    | KeyConfig_Shamir shamirShares shamirThreshold \<Rightarrow>
                        if int (length (KekInfos keyCfg)) \<noteq> shamirShares
                        then Inl (Err (''invalid Encrypt configuration, number of KEK Infos does not match the number of shares to generate: found ''
                                        @ decimal (length (KekInfos keyCfg)) @ '' KEK Infos, ''
                                        @ show_int shamirShares @ '' shares''))
                        else (case SplitShares env dataEncryptionKey shamirShares
                                     shamirThreshold of
                                Inl err \<Rightarrow> Inl (Errorf ''error splitting encryption key: '' err)
                              | Inr shares \<Rightarrow> Inr shares)
                    | KeySplitting_unset \<Rightarrow> Inl (Err ''Unknown key splitting algorithm'')) of
                Inl err \<Rightarrow> (Inl err, s)
              | Inr shares \<Rightarrow>
                  (case wrapShares_wb env shares (KekInfos keyCfg) keys s of
                     (Inl err, s1) \<Rightarrow> (Inl (Errorf ''Error wrapping shares: '' err), s1)
                   | (Inr wrappedShares, s1) \<Rightarrow>
                       let metadata = \<lparr>md_BlobId = blobID, md_KeyConfig = Some keyCfg,
                                        md_Shares = wrappedShares\<rparr>
                       in (case MetadataToAAD env metadata of
                             Inl err \<Rightarrow> (Inl (Errorf ''Error serializing metadata: '' err), s1)
                           | Inr aad \<Rightarrow>
                               (case aeadEncrypt env dataEncryptionKey plaintext aad of
                                  Inl err \<Rightarrow> (Inl (Errorf ''error encrypting data: '' err), s1)
                                | Inr ciphertext \<Rightarrow>
                                    (Inr \<lparr>ed_Ciphertext = ciphertext, ed_Metadata = metadata\<rparr>,
                                     s1))))))"

subsection \<open>Decrypt, whole-buffer revision\<close>

text \<open>The closing loops over every KeyConfig of the config and every KekInfo in it.\<close>

fun kekUris_of :: "KekInfo list \<Rightarrow> string list" where
  "kekUris_of [] = []"
| "kekUris_of (KekInfo_KekUri kekUri # rest) = kekUri # kekUris_of rest"
| "kekUris_of (_ # rest) = kekUris_of rest"

fun keyURIs_of_config :: "KeyConfig list \<Rightarrow> string list" where
  "keyURIs_of_config [] = []"
| "keyURIs_of_config (kcfg # rest) = kekUris_of (KekInfos kcfg) @ keyURIs_of_config rest"

definition Decrypt_wb ::
  "env_wb \<Rightarrow> EncryptedData \<Rightarrow> DecryptConfig option \<Rightarrow> AsymmetricKeys \<Rightarrow> state
     \<Rightarrow> (error + DecryptedData) \<times> state" where
  "Decrypt_wb env data config keys s =
     (let keyConfigs = (case config of None \<Rightarrow> [] | Some cfg \<Rightarrow> KeyConfigs cfg) in
      case matchingKeyConfig keyConfigs (md_KeyConfig (ed_Metadata data)) of
        None \<Rightarrow> (Inl (Err ''no known KeyConfig matches given data''), s)
      | Some matching \<Rightarrow>
          (case unwrapAndValidateShares_wb env (md_Shares (ed_Metadata data))
                  (KekInfos matching) keys s of
             (Inl err, s1) \<Rightarrow>
               (Inl (Errorf ''error unwrapping and validating shares: '' err), s1)
           | (Inr unwrappedShares, s1) \<Rightarrow>
               (case (case KeySplittingAlgorithm matching of
                        KeyConfig_NoSplit \<Rightarrow>
                          (case unwrappedShares of
                             [share] \<Rightarrow> Inr share
                           | _ \<Rightarrow>
                               Inl (Err (''number of unwrapped shares is ''
                                          @ decimal (length unwrappedShares)
                                          @ '' but expected 1 for '' @ [CHR 0x27] @ ''no split''
                                          @ [CHR 0x27] @ '' option'')))
                      | KeyConfig_Shamir shamirShares shamirThreshold \<Rightarrow>
                          (case CombineShares env unwrappedShares of
                             Inl err \<Rightarrow> Inl (Errorf ''Error combining DEK shares: '' err)
                           | Inr combined \<Rightarrow> Inr combined)
                      | KeySplitting_unset \<Rightarrow> Inl (Err ''Unknown key splitting algorithm'')) of
                  Inl err \<Rightarrow> (Inl err, s1)
                | Inr combinedShares \<Rightarrow>
                    if length combinedShares \<noteq> DEKBytes
                    then (Inl (Err ''Reconstituted DEK has the wrong length''), s1)
                    else
                      (case MetadataToAAD env (ed_Metadata data) of
                         Inl err \<Rightarrow> (Inl (Errorf ''error serializing metadata: '' err), s1)
                       | Inr aad \<Rightarrow>
                           (case aeadDecrypt env (copy_DEK combinedShares)
                                   (ed_Ciphertext data) aad of
                              Inl err \<Rightarrow> (Inl (Errorf ''error decrypting data: '' err), s1)
                            | Inr plaintext \<Rightarrow>
                                (Inr \<lparr>dd_Plaintext = plaintext,
                                      dd_KeyUris = keyURIs_of_config keyConfigs,
                                      dd_BlobID = md_BlobId (ed_Metadata data)\<rparr>, s1))))))"


section \<open>Vocabulary of the properties\<close>

subsection \<open>Reading the call trace\<close>

text \<open>The events a call appended to the trace it started from.\<close>

definition new_events :: "state \<Rightarrow> state \<Rightarrow> event list" where
  "new_events s s' = drop (length (trace s)) (trace s')"

fun is_EndSession :: "event \<Rightarrow> bool" where
  "is_EndSession (EndSession_call e) = True"
| "is_EndSession _ = False"

text \<open>A \<open>ConfidentialWrap\<close> or \<open>ConfidentialUnwrap\<close> call, and one that returned a blob.\<close>

fun is_confidential_op :: "event \<Rightarrow> bool" where
  "is_confidential_op (ConfidentialWrap_call keyPath name payload r) = True"
| "is_confidential_op (ConfidentialUnwrap_call keyPath name payload r) = True"
| "is_confidential_op _ = False"

fun is_successful_op :: "event \<Rightarrow> bool" where
  "is_successful_op (ConfidentialWrap_call keyPath name payload (Inr blob)) = True"
| "is_successful_op (ConfidentialUnwrap_call keyPath name payload (Inr blob)) = True"
| "is_successful_op _ = False"

definition EndSession_calls :: "event list \<Rightarrow> nat" where
  "EndSession_calls evs = length (filter is_EndSession evs)"

definition confidential_ops :: "event list \<Rightarrow> nat" where
  "confidential_ops evs = length (filter is_confidential_op evs)"

definition successful_ops :: "event list \<Rightarrow> nat" where
  "successful_ops evs = length (filter is_successful_op evs)"

text \<open>Calls that read the input stream or write the output stream.\<close>

fun is_stream_call :: "event \<Rightarrow> bool" where
  "is_stream_call ReadMetadata_call = True"
| "is_stream_call (WriteSTETHeader_call n) = True"
| "is_stream_call (Write_call b) = True"
| "is_stream_call AeadEncrypt_call = True"
| "is_stream_call AeadDecrypt_call = True"
| "is_stream_call _ = False"

text \<open>
  What a state tells about the streams: what the reader still holds, what the writer
  has accepted, and the stream calls made so far.
\<close>

definition streams :: "state \<Rightarrow> bytes \<times> bytes \<times> event list" where
  "streams s = (in_stream s, out_stream s, filter is_stream_call (trace s))"

subsection \<open>The KEK resolver in the words of the spec\<close>

text \<open>
  A KEK URI resolves to a metadata entry when it names a Cloud KMS key whose primary
  version is ENABLED with a specified protection level; an EXTERNAL key must carry its
  external protection level options, and the entry holds the external key URI found in
  them, whatever it is; any other key's entry holds the KEK URI.
\<close>

definition resolves_to :: "cloudKMSClient \<Rightarrow> string \<Rightarrow> kekMetadata \<Rightarrow> bool" where
  "resolves_to kms kekUri kmd =
     (prefix gcpKeyPrefix kekUri \<and>
      (case GetCryptoKey kms (TrimPrefix kekUri gcpKeyPrefix) of
         Inl err \<Rightarrow> False
       | Inr cryptoKey \<Rightarrow>
           (case Primary cryptoKey of
              None \<Rightarrow> False
            | Some ver \<Rightarrow>
                State ver = ENABLED
              \<and> ProtectionLevel ver \<noteq> PROTECTION_LEVEL_UNSPECIFIED
              \<and> protectionLevel kmd = ProtectionLevel ver
              \<and> resourceName kmd = TrimPrefix kekUri gcpKeyPrefix
              \<and> (if ProtectionLevel ver = EXTERNAL
                  then (case ExternalProtectionLevelOptions ver of
                          None \<Rightarrow> False
                        | Some opts \<Rightarrow> uri kmd = ExternalKeyUri opts)
                  else uri kmd = kekUri))))"


subsection \<open>The reported key URIs in the words of the spec\<close>

text \<open>
  The URI a consumed share reports: the Cloud KMS URI under a SOFTWARE or HSM key, the
  external key URI under an EXTERNAL key, none for an RSA share.
\<close>

fun reported_uri :: "cloudKMSClient \<Rightarrow> KekInfo \<Rightarrow> string option" where
  "reported_uri kms (KekInfo_RsaFingerprint fp) = None"
| "reported_uri kms (KekInfo_KekUri kekUri) =
     (case GetCryptoKey kms (TrimPrefix kekUri gcpKeyPrefix) of
        Inl err \<Rightarrow> None
      | Inr cryptoKey \<Rightarrow>
          (case Primary cryptoKey of
             None \<Rightarrow> None
           | Some ver \<Rightarrow>
               if ProtectionLevel ver = SOFTWARE \<or> ProtectionLevel ver = HSM then Some kekUri
               else if ProtectionLevel ver = EXTERNAL
               then map_option ExternalKeyUri (ExternalProtectionLevelOptions ver)
               else None))"
| "reported_uri kms KekInfo_unset = None"

text \<open>A URI is a non-empty string: an empty external key URI is no URI to report.\<close>

definition reported_uris :: "cloudKMSClient \<Rightarrow> KekInfo list \<Rightarrow> string list" where
  "reported_uris kms keks = filter (\<lambda>u. u \<noteq> []) (List.map_filter (reported_uri kms) keks)"

text \<open>The KMS client a call works with: the one already set, or the one it will create.\<close>

definition kms_in_use :: "env \<Rightarrow> state \<Rightarrow> cloudKMSClient" where
  "kms_in_use env s =
     (case kmsClient (c s) of
        Some kms \<Rightarrow> kms
      | None \<Rightarrow>
          fst (NewKeyManagementClient env
                 (''STET/'' @ (if Version (c s) \<noteq> [] then Version (c s) else ''dev''))))"

text \<open>
  An unwrapped share comes from a position of the metadata: its hash was verified
  against that position's, and its URI is what that position's KEK reports.
\<close>

definition consumed_from ::
  "env \<Rightarrow> cloudKMSClient \<Rightarrow> WrappedShare \<times> KekInfo \<Rightarrow> UnwrappedShare \<Rightarrow> bool" where
  "consumed_from env kms position unwrapped =
     (ValidateShare env (Share unwrapped) (wrapped_Hash (fst position))
      \<and> (case reported_uri kms (snd position) of
            None \<Rightarrow> URI unwrapped = []
          | Some u \<Rightarrow> URI unwrapped = u))"

subsection \<open>Wrapping one share\<close>

text \<open>
  What resolving the KEK of one share and wrapping the share under it yields for a
  client in state \<open>s\<close>, by the client's own functions: the RSA key lookup and
  encryption, or the KMS client, the KEK metadata and then the Cloud KMS wrap or the
  secure-session wrap. The error is the underlying one, without the prefix that
  \<open>wrapShares\<close> puts in front of it.
\<close>

definition wrap_outcome ::
  "env \<Rightarrow> AsymmetricKeys \<Rightarrow> state \<Rightarrow> bytes \<Rightarrow> KekInfo \<Rightarrow> error + bytes" where
  "wrap_outcome env keys s share kek =
     (case kek of
        KekInfo_RsaFingerprint fp \<Rightarrow>
          (case PublicKeyForRSAFingerprint env kek keys of
             Inl err \<Rightarrow> Inl err
           | Inr key \<Rightarrow> EncryptOAEP env key share)
      | KekInfo_KekUri kekUri \<Rightarrow>
          (case initializeKMSClient env s of
             (Some err, ready) \<Rightarrow> Inl err
           | (None, ready) \<Rightarrow>
               (case kmsClient (c ready) of
                  None \<Rightarrow> Inl nil_dereference
                | Some kms \<Rightarrow>
                    (case fst (getKekURIMetadata kms kek ready) of
                       Inl err \<Rightarrow> Inl err
                     | Inr kmd \<Rightarrow>
                         if protectionLevel kmd = SOFTWARE \<or> protectionLevel kmd = HSM
                         then fst (wrapKMSShare share (resourceName kmd) ready)
                         else if protectionLevel kmd = EXTERNAL
                         then fst (ekmSecureSessionWrap env share kmd ready)
                         else Inl (Err (''unsupported protection level ''
                                @ ProtectionLevel_String (protectionLevel kmd))))))
      | KekInfo_unset \<Rightarrow> Inl (Err ''unsupported KekInfo type: <nil>''))"

text \<open>A wrapped share holds the outcome of wrapping the share at its position.\<close>

definition wrapped_from ::
  "env \<Rightarrow> AsymmetricKeys \<Rightarrow> state \<Rightarrow> bytes \<times> KekInfo \<Rightarrow> WrappedShare \<Rightarrow> bool" where
  "wrapped_from env keys s position wrapped =
     (wrap_outcome env keys s (fst position) (snd position) = Inr (wrapped_Share wrapped))"


section \<open>Fakes for the concrete runs\<close>

text \<open>
  A fake Cloud KMS with four keys, named by what they are, and a toy cipher (byte
  reversal) that sets checksums and the verification flag as the service does.
\<close>

definition enabled_key :: "ProtectionLevel \<Rightarrow> ExternalProtectionLevelOptions option \<Rightarrow> CryptoKey" where
  "enabled_key level opts =
     \<lparr>Primary = Some \<lparr>State = ENABLED, ProtectionLevel = level,
                       ExternalProtectionLevelOptions = opts\<rparr>\<rparr>"

definition kms_fake :: cloudKMSClient where
  "kms_fake =
     \<lparr>GetCryptoKey = (\<lambda>name.
          if name = ''soft'' then Inr (enabled_key SOFTWARE None)
          else if name = ''hsm'' then Inr (enabled_key HSM None)
          else if name = ''ext'' then
            Inr (enabled_key EXTERNAL (Some \<lparr>ExternalKeyUri = ''https://ekm.test/k1''\<rparr>))
          else if name = ''off'' then
            Inr \<lparr>Primary = Some \<lparr>State = DISABLED, ProtectionLevel = SOFTWARE,
                                  ExternalProtectionLevelOptions = None\<rparr>\<rparr>
          else Inl (Err ''key not found'')),
      kms_Encrypt = (\<lambda>req.
          Inr \<lparr>enc_Ciphertext = rev (enc_Plaintext req),
               enc_CiphertextCrc32C = Some (ucast (crc32c (rev (enc_Plaintext req)))),
               enc_VerifiedPlaintextCrc32C =
                 (enc_PlaintextCrc32C req = Some (ucast (crc32c (enc_Plaintext req))))\<rparr>),
      kms_Decrypt = (\<lambda>req.
          Inr \<lparr>dec_Plaintext = rev (dec_Ciphertext req),
               dec_PlaintextCrc32C = Some (ucast (crc32c (rev (dec_Ciphertext req))))\<rparr>),
      kms_Close = None\<rparr>"

text \<open>
  A transport that alters the checksum of a Decrypt request on its way to a server
  that answers without looking at it.
\<close>

definition bump_checksum :: "DecryptRequest \<Rightarrow> DecryptRequest" where
  "bump_checksum req =
     req\<lparr>dec_CiphertextCrc32C := map_option (\<lambda>v. v + 1) (dec_CiphertextCrc32C req)\<rparr>"

definition kms_lenient :: cloudKMSClient where
  "kms_lenient = kms_fake\<lparr>kms_Decrypt := (\<lambda>req. kms_Decrypt kms_fake (bump_checksum req))\<rparr>"

text \<open>Fake external key managers: one that works, one that refuses every operation,
  one whose teardown fails.\<close>

definition ekm_fake :: secureSessionClient where
  "ekm_fake =
     \<lparr>ConfidentialWrap = (\<lambda>keyPath name payload. Inr (rev payload)),
      ConfidentialUnwrap = (\<lambda>keyPath name payload. Inr (rev payload)),
      EndSession = None\<rparr>"

definition ekm_refusing :: secureSessionClient where
  "ekm_refusing =
     \<lparr>ConfidentialWrap = (\<lambda>keyPath name payload. Inl (Err ''permission denied'')),
      ConfidentialUnwrap = (\<lambda>keyPath name payload. Inl (Err ''permission denied'')),
      EndSession = None\<rparr>"

definition ekm_stuck :: secureSessionClient where
  "ekm_stuck = ekm_fake\<lparr>EndSession := Some (Err ''session lost'')\<rparr>"

text \<open>
  The other collaborators: shares are validated against a hash that is the share
  itself, RSA wrapping is byte reversal under any key, one share reconstructs the DEK
  under NoSplit and the threshold number under Shamir, and the streams are appended
  to. \<open>ReadMetadata\<close> is set per run.
\<close>

definition combine_fake :: "KeyConfig \<Rightarrow> UnwrappedShare list \<Rightarrow> error + bytes" where
  "combine_fake keyCfg unwrapped =
     (case KeySplittingAlgorithm keyCfg of
        KeyConfig_NoSplit \<Rightarrow>
          (case unwrapped of [u] \<Rightarrow> Inr (Share u) | _ \<Rightarrow> Inl (Err ''expected one share''))
      | KeyConfig_Shamir n k \<Rightarrow>
          (if int (length unwrapped) < k then Inl (Err ''below threshold'')
           else Inr (concat (map Share unwrapped)))
      | KeySplitting_unset \<Rightarrow> Inl (Err ''unknown algorithm''))"

definition env_fake :: env where
  "env_fake =
     \<lparr>NewKeyManagementClient = (\<lambda>ua. (kms_fake, None)),
      url_Parse = (\<lambda>u. Inr \<lparr>Scheme = ''https'', Hostname = ''ekm.test'', Host = ''ekm.test''\<rparr>),
      path_Base = (\<lambda>u. ''k1''),
      GenerateTokenWithAudience = (\<lambda>audience. Inr ''token''),
      EstablishSecureSession = (\<lambda>u token skip. Inr ekm_fake),
      PublicKeyForRSAFingerprint = (\<lambda>kek keys. Inr (rsa_PublicKey 33 3)),
      PrivateKeyForRSAFingerprint = (\<lambda>kek keys. Inr (rsa_PrivateKey (rsa_PublicKey 33 3) 7)),
      EncryptOAEP = (\<lambda>key share. Inr (rev share)),
      DecryptOAEP = (\<lambda>key wrapped. Inr (rev wrapped)),
      HashShare = (\<lambda>share. share),
      ValidateShare = (\<lambda>share hash. share = hash),
      NewDEK = [1, 2],
      CreateDEKShares = (\<lambda>dek keyCfg.
         case keyCfg of
           None \<Rightarrow> Inl (Err ''no key config'')
         | Some k \<Rightarrow> Inr (replicate (length (KekInfos k)) dek)),
      CombineUnwrappedShares = combine_fake,
      NewString = ''blob-1'',
      MetadataToAAD = (\<lambda>metadata. Inr []),
      Marshal = (\<lambda>metadata. Inr [9]),
      WriteSTETHeader = (\<lambda>out n. (None, out @ [0x53, 0x54, 0x45, 0x54, 1])),
      Write = (\<lambda>out b. (None, out @ b)),
      AeadEncrypt = (\<lambda>dek inp out aad. (None, [], out @ inp)),
      ReadMetadata = (\<lambda>inp. (Inl (Err ''not set''), inp)),
      AeadDecrypt = (\<lambda>dek inp out aad. (None, [], out @ inp))\<rparr>"

definition no_keys :: AsymmetricKeys where
  "no_keys = \<lparr>PublicKeyFiles = [], PrivateKeyFiles = []\<rparr>"

text \<open>A client whose KMS and secure-session clients are the given fakes; nothing has
  happened yet.\<close>

definition start_with :: "cloudKMSClient \<Rightarrow> secureSessionClient \<Rightarrow> state" where
  "start_with kms ekm =
     \<lparr>c = \<lparr>kmsClient = Some kms, fakeKeyManagementClient = None,
            fakeSecureSessionClient = Some ekm, InsecureSkipVerify = False, Version = []\<rparr>,
      deferred = [], trace = [], in_stream = [], out_stream = []\<rparr>"

definition start :: state where
  "start = start_with kms_fake ekm_fake"

text \<open>The metadata entry of the fake's EXTERNAL key.\<close>

definition ext_kmd :: kekMetadata where
  "ext_kmd = \<lparr>protectionLevel = EXTERNAL, uri = ''https://ekm.test/k1'', resourceName = ''ext''\<rparr>"

text \<open>
  Blobs for the decrypt runs. The DEK of the fake is \<open>[1, 2]\<close>, every share equals it,
  and a share wraps to \<open>[2, 1]\<close>. In \<open>blob_mixed\<close> the RSA share is corrupted; in
  \<open>blob_disabled_first\<close> every share is intact and the first KEK is a disabled key.
\<close>

definition intact :: WrappedShare where
  "intact = \<lparr>wrapped_Share = [2, 1], wrapped_Hash = [1, 2]\<rparr>"

definition corrupted :: WrappedShare where
  "corrupted = \<lparr>wrapped_Share = [9, 9], wrapped_Hash = [1, 2]\<rparr>"

definition cfg_mixed :: KeyConfig where
  "cfg_mixed =
     \<lparr>KekInfos = [KekInfo_RsaFingerprint ''fpA'', KekInfo_KekUri ''gcp-kms://hsm'',
                  KekInfo_KekUri ''gcp-kms://ext''],
      KeySplittingAlgorithm = KeyConfig_Shamir 3 2\<rparr>"

definition blob_mixed :: Metadata where
  "blob_mixed =
     \<lparr>md_BlobId = ''blob-1'', md_KeyConfig = Some cfg_mixed,
      md_Shares = [corrupted, intact, intact]\<rparr>"

definition cfg_disabled_first :: KeyConfig where
  "cfg_disabled_first =
     \<lparr>KekInfos = [KekInfo_KekUri ''gcp-kms://off'', KekInfo_RsaFingerprint ''fpA'',
                  KekInfo_RsaFingerprint ''fpB''],
      KeySplittingAlgorithm = KeyConfig_Shamir 3 2\<rparr>"

definition blob_disabled_first :: Metadata where
  "blob_disabled_first =
     \<lparr>md_BlobId = ''blob-2'', md_KeyConfig = Some cfg_disabled_first,
      md_Shares = [intact, intact, intact]\<rparr>"

definition env_reading :: "Metadata \<Rightarrow> env" where
  "env_reading metadata = env_fake\<lparr>ReadMetadata := (\<lambda>inp. (Inr metadata, inp))\<rparr>"

text \<open>The collaborators of the whole-buffer revision, on top of the same fakes.\<close>

definition env_wb_fake :: env_wb where
  "env_wb_fake =
     \<lparr>NewKeyManagementClient = (\<lambda>ua. (kms_fake, None)),
      url_Parse = (\<lambda>u. Inr \<lparr>Scheme = ''https'', Hostname = ''ekm.test'', Host = ''ekm.test''\<rparr>),
      path_Base = (\<lambda>u. ''k1''),
      GenerateTokenWithAudience = (\<lambda>audience. Inr ''token''),
      EstablishSecureSession = (\<lambda>u token skip. Inr ekm_fake),
      PublicKeyForRSAFingerprint = (\<lambda>kek keys. Inr (rsa_PublicKey 33 3)),
      PrivateKeyForRSAFingerprint = (\<lambda>kek keys. Inr (rsa_PrivateKey (rsa_PublicKey 33 3) 7)),
      EncryptOAEP = (\<lambda>key share. Inr (rev share)),
      DecryptOAEP = (\<lambda>key wrapped. Inr (rev wrapped)),
      HashShare = (\<lambda>share. share),
      ValidateShare = (\<lambda>share hash. share = hash),
      NewDEK = [1, 2],
      CreateDEKShares = (\<lambda>dek keyCfg. Inl (Err ''not used'')),
      CombineUnwrappedShares = combine_fake,
      NewString = ''blob-1'',
      MetadataToAAD = (\<lambda>metadata. Inr []),
      Marshal = (\<lambda>metadata. Inr [9]),
      WriteSTETHeader = (\<lambda>out n. (None, out)),
      Write = (\<lambda>out b. (None, out)),
      AeadEncrypt = (\<lambda>dek inp out aad. (None, inp, out)),
      ReadMetadata = (\<lambda>inp. (Inl (Err ''not used''), inp)),
      AeadDecrypt = (\<lambda>dek inp out aad. (None, inp, out)),
      NewKeyManagementClient_wb = (kms_fake, None),
      GenerateJWT = (\<lambda>audience. Inr ''token''),
      EstablishSecureSession_wb = (\<lambda>addr token. Inr ekm_fake),
      shamir_Split = (\<lambda>secret n k. Inr (replicate (nat n) secret)),
      CombineShares = (\<lambda>shares. case shares of [] \<Rightarrow> Inl (Err ''no shares'')
                                  | share # rest \<Rightarrow> Inr (replicate 16 1 @ replicate 16 2)),
      aeadEncrypt = (\<lambda>dek plaintext aad. Inr (rev plaintext)),
      aeadDecrypt = (\<lambda>dek ciphertext aad. Inr (rev ciphertext))\<rparr>"

definition cfg_other :: KeyConfig where
  "cfg_other =
     \<lparr>KekInfos = [KekInfo_KekUri ''gcp-kms://elsewhere''],
      KeySplittingAlgorithm = KeyConfig_NoSplit\<rparr>"

text \<open>A key config whose third KEK is the disabled key, after two that work.\<close>

definition cfg_late_failure :: KeyConfig where
  "cfg_late_failure =
     \<lparr>KekInfos = [KekInfo_RsaFingerprint ''fpA'', KekInfo_KekUri ''gcp-kms://soft'',
                  KekInfo_KekUri ''gcp-kms://off''],
      KeySplittingAlgorithm = KeyConfig_Shamir 3 2\<rparr>"



section \<open>The checksum\<close>

text \<open>The model of \<open>hash/crc32\<close> yields the CRC-32C of the empty input and of "a".\<close>

lemma funpow_8: "(f ^^ 8) x = f (f (f (f (f (f (f (f x)))))))"
  by (simp add: eval_nat_numeral)

lemma MakeTable_0x9e: "MakeTable 0x9e = 0x3ed04330"
  unfolding MakeTable_def funpow_8
  by (simp add: crc_step_def Castagnoli_def)

lemma all_ones: "(- 1 :: 32 word) = 0xFFFFFFFF"
  by simp

lemma low_byte: "(ucast (- 1 :: 32 word) :: 8 word) XOR 97 = 0x9e"
  unfolding all_ones by simp

lemma high_bytes: "drop_bit 8 (- 1 :: 32 word) = 0xFFFFFF"
  unfolding all_ones by simp

lemma crc_update_letter_a: "crc_update (- 1) 0x61 = 0x3e2fbccf"
  unfolding crc_update_def low_byte high_bytes MakeTable_0x9e by simp

lemma crc32c_empty: "crc32c [] = 0"
  by (simp add: crc32c_def)

lemma crc32c_letter_a: "crc32c [0x61] = 0xc1d04330"
  unfolding crc32c_def
  by (simp add: crc_update_letter_a)


section \<open>Basic facts\<close>

lemma emit_simps [simp]:
  "trace (emit e s) = trace s @ [e]"
  "c (emit e s) = c s"
  "deferred (emit e s) = deferred s"
  "in_stream (emit e s) = in_stream s"
  "out_stream (emit e s) = out_stream s"
  by (simp_all add: emit_def)

lemma new_events_self [simp]: "new_events s s = []"
  by (simp add: new_events_def)

lemma new_events_emit1 [simp]: "new_events s (emit e s) = [e]"
  by (simp add: new_events_def)

lemma new_events_emit2 [simp]: "new_events s (emit e2 (emit e1 s)) = [e1, e2]"
  by (simp add: new_events_def)

lemma new_events_emit3 [simp]: "new_events s (emit e3 (emit e2 (emit e1 s))) = [e1, e2, e3]"
  by (simp add: new_events_def)

lemma streams_emit [simp]: "\<not> is_stream_call e \<Longrightarrow> streams (emit e s) = streams s"
  by (simp add: streams_def)

lemma streams_deferred [simp]: "streams (s\<lparr>deferred := d\<rparr>) = streams s"
  by (simp add: streams_def)

lemma streams_c [simp]: "streams (s\<lparr>c := k\<rparr>) = streams s"
  by (simp add: streams_def)

lemma kms_in_use_emit [simp]: "kms_in_use env (emit e s) = kms_in_use env s"
  by (simp add: kms_in_use_def split: option.splits)

lemma kms_in_use_deferred [simp]: "kms_in_use env (s\<lparr>deferred := d\<rparr>) = kms_in_use env s"
  by (simp add: kms_in_use_def split: option.splits)

lemma kms_in_use_streams [simp]:
  "kms_in_use env (s\<lparr>in_stream := i\<rparr>) = kms_in_use env s"
  "kms_in_use env (s\<lparr>out_stream := out\<rparr>) = kms_in_use env s"
  by (simp_all add: kms_in_use_def split: option.splits)

lemma kms_in_use_same_c: "c s' = c s \<Longrightarrow> kms_in_use env s' = kms_in_use env s"
  by (simp add: kms_in_use_def split: option.splits)

lemmas run_fakes =
  env_fake_def kms_fake_def ekm_fake_def start_with_def start_def ext_kmd_def no_keys_def
  enabled_key_def parseEKMKeyURI_def


subsection \<open>What the leaf functions leave untouched\<close>

lemma initializeKMSClient_frame:
  "initializeKMSClient env s = (r, s') \<Longrightarrow>
   streams s' = streams s \<and> deferred s' = deferred s
   \<and> kmsClient (c s') = Some (kms_in_use env s)
   \<and> kms_in_use env s' = kms_in_use env s"
  by (auto simp: initializeKMSClient_def kms_in_use_def Let_def
           split: option.splits prod.splits)

lemma getKekURIMetadata_frame:
  "getKekURIMetadata kms kek s = (r, s') \<Longrightarrow>
   streams s' = streams s \<and> c s' = c s \<and> deferred s' = deferred s"
  by (auto simp: getKekURIMetadata_def Let_def
           split: KekInfo.splits sum.splits option.splits if_splits)

lemma wrapKMSShare_frame:
  "wrapKMSShare share keyName s = (r, s') \<Longrightarrow>
   streams s' = streams s \<and> c s' = c s \<and> deferred s' = deferred s"
  by (auto simp: wrapKMSShare_def Let_def split: sum.splits option.splits if_splits)

lemma unwrapKMSShare_frame:
  "unwrapKMSShare wrappedShare keyName s = (r, s') \<Longrightarrow>
   streams s' = streams s \<and> c s' = c s \<and> deferred s' = deferred s"
  by (auto simp: unwrapKMSShare_def Let_def split: sum.splits option.splits if_splits)

lemma ekmSecureSessionWrap_frame:
  "ekmSecureSessionWrap env share md s = (r, s') \<Longrightarrow>
   streams s' = streams s \<and> c s' = c s \<and> deferred s' = deferred s"
  by (auto simp: ekmSecureSessionWrap_def Let_def
           split: sum.splits option.splits prod.splits)

lemma ekmSecureSessionUnwrap_frame:
  "ekmSecureSessionUnwrap env share md s = (r, s') \<Longrightarrow>
   streams s' = streams s \<and> c s' = c s \<and> deferred s' = deferred s"
  by (auto simp: ekmSecureSessionUnwrap_def Let_def
           split: sum.splits option.splits prod.splits)


subsection \<open>Deferred calls and the loops\<close>

lemma run_deferred_frame:
  "run_deferred pending (r, s) = (r', s') \<Longrightarrow>
   streams s' = streams s \<and> c s' = c s \<and> deferred s' = deferred s
   \<and> (r' = r \<or> (\<exists>m. r' = Inl (Panic m)))"
proof (induction pending arbitrary: r s)
  case Nil
  then show ?case by simp
next
  case (Cons kms pending)
  show ?case
  proof (cases "\<exists>m. kms_Close kms = Some (Panic m)")
    case True
    then obtain m where m: "kms_Close kms = Some (Panic m)" by blast
    with Cons.prems have "run_deferred pending (Inl (Panic m), emit Close_call s) = (r', s')"
      by simp
    from Cons.IH [OF this] show ?thesis by auto
  next
    case False
    then have "(case kms_Close kms of
                  Some (Panic m) \<Rightarrow> (Inl (Panic m), emit Close_call s)
                | _ \<Rightarrow> (r, emit Close_call s)) = (r, emit Close_call s)"
      by (auto split: option.splits error.splits)
    with Cons.prems have "run_deferred pending (r, emit Close_call s) = (r', s')"
      by simp
    from Cons.IH [OF this] show ?thesis by auto
  qed
qed

lemma with_defers_frame:
  assumes "with_defers body s = (r', s')"
  shows "\<exists>r1 s1. body (s\<lparr>deferred := []\<rparr>) = (r1, s1)
           \<and> (r' = r1 \<or> (\<exists>m. r' = Inl (Panic m)))
           \<and> streams s' = streams s1 \<and> c s' = c s1 \<and> deferred s' = deferred s"
proof -
  obtain r1 s1 where b: "body (s\<lparr>deferred := []\<rparr>) = (r1, s1)"
    by (cases "body (s\<lparr>deferred := []\<rparr>)")
  obtain r2 s2 where d: "run_deferred (deferred s1) (r1, s1) = (r2, s2)"
    by (cases "run_deferred (deferred s1) (r1, s1)")
  from assms b d have e: "r' = r2" "s' = s2\<lparr>deferred := deferred s\<rparr>"
    by (simp_all add: with_defers_def)
  from run_deferred_frame [OF d] b e show ?thesis
    by auto
qed

lemma wrapShares_loop_frame:
  "wrapShares_loop env keys pairs ws uris s = (r, s') \<Longrightarrow> streams s' = streams s"
proof (induction pairs arbitrary: ws uris s)
  case Nil
  then show ?case by simp
next
  case (Cons p rest)
  obtain share kek where p: "p = (share, kek)" by (cases p)
  show ?case
  proof (cases kek)
    case (KekInfo_RsaFingerprint fp)
    with Cons.prems p show ?thesis
      by (auto simp: Let_def split: sum.splits dest: Cons.IH)
  next
    case KekInfo_unset
    with Cons.prems p show ?thesis by simp
  next
    case (KekInfo_KekUri kekUri)
    obtain e1 s1 where i: "initializeKMSClient env s = (e1, s1)"
      by (cases "initializeKMSClient env s")
    note f1 = initializeKMSClient_frame [OF i]
    show ?thesis
    proof (cases e1)
      case (Some err)
      with Cons.prems p KekInfo_KekUri i f1 show ?thesis by auto
    next
      case None
      from f1 obtain kms where k: "kmsClient (c s1) = Some kms" by blast
      obtain r2 s2 where
        g: "getKekURIMetadata kms kek (s1\<lparr>deferred := kms # deferred s1\<rparr>) = (r2, s2)"
        by (cases "getKekURIMetadata kms kek (s1\<lparr>deferred := kms # deferred s1\<rparr>)")
      from getKekURIMetadata_frame [OF g] f1 have f2: "streams s2 = streams s" by simp
      show ?thesis
      proof (cases r2)
        case (Inl err)
        with Cons.prems p KekInfo_KekUri i None k g f2 show ?thesis by auto
      next
        case (Inr kmd)
        obtain r3 s3 where w: "wrapKMSShare share (resourceName kmd) s2 = (r3, s3)"
          by (cases "wrapKMSShare share (resourceName kmd) s2")
        obtain r4 s4 where x: "ekmSecureSessionWrap env share kmd s2 = (r4, s4)"
          by (cases "ekmSecureSessionWrap env share kmd s2")
        from wrapKMSShare_frame [OF w] ekmSecureSessionWrap_frame [OF x] f2
        have f3: "streams s3 = streams s" "streams s4 = streams s" by simp_all
        from Cons.prems p KekInfo_KekUri i None k g Inr w x f2 f3 show ?thesis
          by (auto simp: Let_def split: sum.splits if_splits dest: Cons.IH)
      qed
    qed
  qed
qed

lemma wrapShares_loop_length:
  "wrapShares_loop env keys pairs ws uris s = (Inr (ws', uris'), s') \<Longrightarrow>
   length ws' = length ws + length pairs"
proof (induction pairs arbitrary: ws uris s)
  case Nil
  then show ?case by simp
next
  case (Cons p rest)
  obtain share kek where p: "p = (share, kek)" by (cases p)
  from Cons.prems p show ?case
    by (auto simp: Let_def
             split: KekInfo.splits sum.splits prod.splits option.splits if_splits
             dest!: Cons.IH)
qed

lemma wrapShares_frame:
  assumes "wrapShares env shares kekInfos keys s = (r, s')"
  shows "streams s' = streams s"
    and "r = Inr (ws, uris) \<Longrightarrow> length ws = length shares"
proof -
  show "streams s' = streams s"
  proof (cases "length shares \<noteq> length kekInfos")
    case True
    with assms show ?thesis by (simp add: wrapShares_def)
  next
    case False
    with assms have
      "with_defers (wrapShares_loop env keys (zip shares kekInfos) [] []) s = (r, s')"
      by (simp add: wrapShares_def)
    from with_defers_frame [OF this] wrapShares_loop_frame show ?thesis
      by fastforce
  qed
next
  assume ok: "r = Inr (ws, uris)"
  with assms have eq: "length shares = length kekInfos"
    by (auto simp: wrapShares_def split: if_splits)
  with assms have
    "with_defers (wrapShares_loop env keys (zip shares kekInfos) [] []) s = (r, s')"
    by (simp add: wrapShares_def)
  from with_defers_frame [OF this] ok obtain s1 where
    "wrapShares_loop env keys (zip shares kekInfos) [] [] (s\<lparr>deferred := []\<rparr>)
       = (Inr (ws, uris), s1)"
    by auto
  from wrapShares_loop_length [OF this] eq show "length ws = length shares"
    by simp
qed

section \<open>Secure sessions\<close>

lemmas count_defs = EndSession_calls_def confidential_ops_def successful_ops_def

lemma new_events_append: "trace s' = trace s @ evs \<Longrightarrow> new_events s s' = evs"
  by (simp add: new_events_def)

lemma successful_is_confidential: "is_successful_op ev \<Longrightarrow> is_confidential_op ev"
  by (cases ev rule: is_successful_op.cases) simp_all

lemma no_ops_no_success:
  "filter is_confidential_op pre = [] \<Longrightarrow> filter is_successful_op pre = []"
  by (auto simp: filter_empty_conv dest: successful_is_confidential)

lemma no_ops_no_call:
  "filter is_confidential_op pre = [] \<Longrightarrow>
     ConfidentialWrap_call keyPath name payload r \<notin> set pre
     \<and> ConfidentialUnwrap_call keyPath name payload r \<notin> set pre"
  by (auto simp: filter_empty_conv)

lemma no_teardown_no_call:
  "filter is_EndSession pre = [] \<Longrightarrow> EndSession_call e \<notin> set pre"
  by (auto simp: filter_empty_conv)

subsection \<open>The three ways a secure-session call can go\<close>

text \<open>
  Before the confidential operation nothing is called but \<open>EstablishSecureSession\<close>.
  Then either no session was established and the call fails; or the operation was
  refused and the call returns its error; or the operation returned a blob, EndSession
  was called, and the call returns the blob or the error of EndSession.
\<close>

lemma established_trace:
  "(case fakeSecureSessionClient (c s) of
      Some fake \<Rightarrow> (Inr fake, s)
    | None \<Rightarrow>
        (case GenerateTokenWithAudience env addr of
           Inl err \<Rightarrow> (Inl err, s)
         | Inr authToken \<Rightarrow>
             (case EstablishSecureSession env (uri md) authToken
                     (InsecureSkipVerify (c s)) of
                Inl err \<Rightarrow>
                  (Inl (Errorf ''error establishing secure session: '' err),
                   emit (EstablishSecureSession_call (uri md) authToken
                           (InsecureSkipVerify (c s))) s)
              | Inr session \<Rightarrow>
                  (Inr session,
                   emit (EstablishSecureSession_call (uri md) authToken
                           (InsecureSkipVerify (c s))) s)))) = (r0, s1)
   \<Longrightarrow> \<exists>pre. trace s1 = trace s @ pre
             \<and> filter is_confidential_op pre = [] \<and> filter is_EndSession pre = []"
  by (auto split: option.splits sum.splits)

lemma established_wb_trace:
  "(case fakeSecureSessionClient (c s) of
      Some fake \<Rightarrow> (Inr fake, s)
    | None \<Rightarrow>
        (case generateTokenFromEKMAddress env addr of
           Inl err \<Rightarrow> (Inl err, s)
         | Inr authToken \<Rightarrow>
             (case removeSchemeFromURL env addr of
                Inl err \<Rightarrow> (Inl err, s)
              | Inr rpcAddr \<Rightarrow>
                  (case EstablishSecureSession_wb env rpcAddr authToken of
                     Inl err \<Rightarrow>
                       (Inl (Errorf ''error establishing secure session: '' err),
                        emit (EstablishSecureSession_call rpcAddr authToken False) s)
                   | Inr session \<Rightarrow>
                       (Inr session,
                        emit (EstablishSecureSession_call rpcAddr authToken False) s))))) = (r0, s1)
   \<Longrightarrow> \<exists>pre. trace s1 = trace s @ pre
             \<and> filter is_confidential_op pre = [] \<and> filter is_EndSession pre = []"
  by (auto split: option.splits sum.splits)

lemma ekmSecureSessionWrap_shape:
  "\<exists>pre. filter is_confidential_op pre = [] \<and> filter is_EndSession pre = []
     \<and> ((new_events s (snd (ekmSecureSessionWrap env share md s)) = pre
          \<and> isl (fst (ekmSecureSessionWrap env share md s)))
        \<or> (\<exists>keyPath err.
              new_events s (snd (ekmSecureSessionWrap env share md s))
                = pre @ [ConfidentialWrap_call keyPath (resourceName md) share (Inl err)]
            \<and> fst (ekmSecureSessionWrap env share md s)
                = Inl (Errorf ''error wrapping with secure session: '' err))
        \<or> (\<exists>keyPath blob e.
              new_events s (snd (ekmSecureSessionWrap env share md s))
                = pre @ [ConfidentialWrap_call keyPath (resourceName md) share (Inr blob),
                         EndSession_call e]
            \<and> fst (ekmSecureSessionWrap env share md s)
                = (case e of
                     None \<Rightarrow> Inr blob
                   | Some err \<Rightarrow> Inl (Errorf ''error ending secure session: '' err))))"
proof (cases "parseEKMKeyURI env (uri md)")
  case (Inl err)
  then have "ekmSecureSessionWrap env share md s = (Inl err, s)"
    by (simp add: ekmSecureSessionWrap_def)
  then have "filter is_confidential_op [] = [] \<and> filter is_EndSession [] = []
     \<and> new_events s (snd (ekmSecureSessionWrap env share md s)) = []
     \<and> isl (fst (ekmSecureSessionWrap env share md s))"
    by (simp add: new_events_def)
  then show ?thesis by blast
next
  case (Inr p)
  obtain addr keyPath where p: "p = (addr, keyPath)" by (cases p)
  let ?est = "case fakeSecureSessionClient (c s) of
      Some fake \<Rightarrow> (Inr fake, s)
    | None \<Rightarrow>
        (case GenerateTokenWithAudience env addr of
           Inl err \<Rightarrow> (Inl err, s)
         | Inr authToken \<Rightarrow>
             (case EstablishSecureSession env (uri md) authToken
                     (InsecureSkipVerify (c s)) of
                Inl err \<Rightarrow>
                  (Inl (Errorf ''error establishing secure session: '' err),
                   emit (EstablishSecureSession_call (uri md) authToken
                           (InsecureSkipVerify (c s))) s)
              | Inr session \<Rightarrow>
                  (Inr session,
                   emit (EstablishSecureSession_call (uri md) authToken
                           (InsecureSkipVerify (c s))) s)))"
  obtain r0 s1 where est: "?est = (r0, s1)" by (cases ?est)
  from established_trace [OF est] obtain pre where
    pre: "trace s1 = trace s @ pre" "filter is_confidential_op pre = []"
         "filter is_EndSession pre = []"
    by blast
  have run: "ekmSecureSessionWrap env share md s =
     (case r0 of
        Inl err \<Rightarrow> (Inl err, s1)
      | Inr ekmClient \<Rightarrow>
          (case ConfidentialWrap ekmClient keyPath (resourceName md) share of
             Inl err \<Rightarrow>
               (Inl (Errorf ''error wrapping with secure session: '' err),
                emit (ConfidentialWrap_call keyPath (resourceName md) share (Inl err)) s1)
           | Inr blob \<Rightarrow>
               (case EndSession ekmClient of
                  None \<Rightarrow> Inr blob
                | Some err \<Rightarrow> Inl (Errorf ''error ending secure session: '' err),
                emit (EndSession_call (EndSession ekmClient))
                  (emit (ConfidentialWrap_call keyPath (resourceName md) share (Inr blob)) s1))))"
    unfolding ekmSecureSessionWrap_def Inr p sum.case prod.case Let_def est
    by (simp split: sum.splits option.splits)
  show ?thesis
  proof (cases r0)
    case (Inl err)
    with run pre have "new_events s (snd (ekmSecureSessionWrap env share md s)) = pre
          \<and> isl (fst (ekmSecureSessionWrap env share md s))"
      by (simp add: new_events_append)
    with pre(2,3) show ?thesis by blast
  next
    case client: (Inr ekmClient)
    show ?thesis
    proof (cases "ConfidentialWrap ekmClient keyPath (resourceName md) share")
      case (Inl err)
      with run client pre have
        "new_events s (snd (ekmSecureSessionWrap env share md s))
           = pre @ [ConfidentialWrap_call keyPath (resourceName md) share (Inl err)]
         \<and> fst (ekmSecureSessionWrap env share md s)
           = Inl (Errorf ''error wrapping with secure session: '' err)"
        by (simp add: new_events_append)
      with pre(2,3) show ?thesis by blast
    next
      case (Inr blob)
      with run client pre have
        "new_events s (snd (ekmSecureSessionWrap env share md s))
           = pre @ [ConfidentialWrap_call keyPath (resourceName md) share (Inr blob),
                    EndSession_call (EndSession ekmClient)]
         \<and> fst (ekmSecureSessionWrap env share md s)
           = (case EndSession ekmClient of
                None \<Rightarrow> Inr blob
              | Some err \<Rightarrow> Inl (Errorf ''error ending secure session: '' err))"
        by (simp add: new_events_append)
      with pre(2,3) show ?thesis by blast
    qed
  qed
qed

lemma ekmSecureSessionUnwrap_shape:
  "\<exists>pre. filter is_confidential_op pre = [] \<and> filter is_EndSession pre = []
     \<and> ((new_events s (snd (ekmSecureSessionUnwrap env share md s)) = pre
          \<and> isl (fst (ekmSecureSessionUnwrap env share md s)))
        \<or> (\<exists>keyPath err.
              new_events s (snd (ekmSecureSessionUnwrap env share md s))
                = pre @ [ConfidentialUnwrap_call keyPath (resourceName md) share (Inl err)]
            \<and> fst (ekmSecureSessionUnwrap env share md s)
                = Inl (Errorf ''error unwrapping with secure session: '' err))
        \<or> (\<exists>keyPath blob e.
              new_events s (snd (ekmSecureSessionUnwrap env share md s))
                = pre @ [ConfidentialUnwrap_call keyPath (resourceName md) share (Inr blob),
                         EndSession_call e]
            \<and> fst (ekmSecureSessionUnwrap env share md s)
                = (case e of
                     None \<Rightarrow> Inr blob
                   | Some err \<Rightarrow> Inl (Errorf ''error ending secure session: '' err))))"
proof (cases "parseEKMKeyURI env (uri md)")
  case (Inl err)
  then have "ekmSecureSessionUnwrap env share md s = (Inl err, s)"
    by (simp add: ekmSecureSessionUnwrap_def)
  then have "filter is_confidential_op [] = [] \<and> filter is_EndSession [] = []
     \<and> new_events s (snd (ekmSecureSessionUnwrap env share md s)) = []
     \<and> isl (fst (ekmSecureSessionUnwrap env share md s))"
    by (simp add: new_events_def)
  then show ?thesis by blast
next
  case (Inr p)
  obtain addr keyPath where p: "p = (addr, keyPath)" by (cases p)
  let ?est = "case fakeSecureSessionClient (c s) of
      Some fake \<Rightarrow> (Inr fake, s)
    | None \<Rightarrow>
        (case GenerateTokenWithAudience env addr of
           Inl err \<Rightarrow> (Inl err, s)
         | Inr authToken \<Rightarrow>
             (case EstablishSecureSession env (uri md) authToken
                     (InsecureSkipVerify (c s)) of
                Inl err \<Rightarrow>
                  (Inl (Errorf ''error establishing secure session: '' err),
                   emit (EstablishSecureSession_call (uri md) authToken
                           (InsecureSkipVerify (c s))) s)
              | Inr session \<Rightarrow>
                  (Inr session,
                   emit (EstablishSecureSession_call (uri md) authToken
                           (InsecureSkipVerify (c s))) s)))"
  obtain r0 s1 where est: "?est = (r0, s1)" by (cases ?est)
  from established_trace [OF est] obtain pre where
    pre: "trace s1 = trace s @ pre" "filter is_confidential_op pre = []"
         "filter is_EndSession pre = []"
    by blast
  have run: "ekmSecureSessionUnwrap env share md s =
     (case r0 of
        Inl err \<Rightarrow> (Inl err, s1)
      | Inr ekmClient \<Rightarrow>
          (case ConfidentialUnwrap ekmClient keyPath (resourceName md) share of
             Inl err \<Rightarrow>
               (Inl (Errorf ''error unwrapping with secure session: '' err),
                emit (ConfidentialUnwrap_call keyPath (resourceName md) share (Inl err)) s1)
           | Inr blob \<Rightarrow>
               (case EndSession ekmClient of
                  None \<Rightarrow> Inr blob
                | Some err \<Rightarrow> Inl (Errorf ''error ending secure session: '' err),
                emit (EndSession_call (EndSession ekmClient))
                  (emit (ConfidentialUnwrap_call keyPath (resourceName md) share (Inr blob)) s1))))"
    unfolding ekmSecureSessionUnwrap_def Inr p sum.case prod.case Let_def est
    by (simp split: sum.splits option.splits)
  show ?thesis
  proof (cases r0)
    case (Inl err)
    with run pre have "new_events s (snd (ekmSecureSessionUnwrap env share md s)) = pre
          \<and> isl (fst (ekmSecureSessionUnwrap env share md s))"
      by (simp add: new_events_append)
    with pre(2,3) show ?thesis by blast
  next
    case client: (Inr ekmClient)
    show ?thesis
    proof (cases "ConfidentialUnwrap ekmClient keyPath (resourceName md) share")
      case (Inl err)
      with run client pre have
        "new_events s (snd (ekmSecureSessionUnwrap env share md s))
           = pre @ [ConfidentialUnwrap_call keyPath (resourceName md) share (Inl err)]
         \<and> fst (ekmSecureSessionUnwrap env share md s)
           = Inl (Errorf ''error unwrapping with secure session: '' err)"
        by (simp add: new_events_append)
      with pre(2,3) show ?thesis by blast
    next
      case (Inr blob)
      with run client pre have
        "new_events s (snd (ekmSecureSessionUnwrap env share md s))
           = pre @ [ConfidentialUnwrap_call keyPath (resourceName md) share (Inr blob),
                    EndSession_call (EndSession ekmClient)]
         \<and> fst (ekmSecureSessionUnwrap env share md s)
           = (case EndSession ekmClient of
                None \<Rightarrow> Inr blob
              | Some err \<Rightarrow> Inl (Errorf ''error ending secure session: '' err))"
        by (simp add: new_events_append)
      with pre(2,3) show ?thesis by blast
    qed
  qed
qed

lemma ekmSecureSessionWrap_wb_shape:
  "\<exists>pre. filter is_confidential_op pre = [] \<and> filter is_EndSession pre = []
     \<and> ((new_events s (snd (ekmSecureSessionWrap_wb env share md s)) = pre
          \<and> isl (fst (ekmSecureSessionWrap_wb env share md s)))
        \<or> (\<exists>keyPath err.
              new_events s (snd (ekmSecureSessionWrap_wb env share md s))
                = pre @ [ConfidentialWrap_call keyPath (resourceName md) share (Inl err)]
            \<and> fst (ekmSecureSessionWrap_wb env share md s)
                = Inl (Errorf ''error wrapping with secure session: '' err))
        \<or> (\<exists>keyPath blob e.
              new_events s (snd (ekmSecureSessionWrap_wb env share md s))
                = pre @ [ConfidentialWrap_call keyPath (resourceName md) share (Inr blob),
                         EndSession_call e]
            \<and> fst (ekmSecureSessionWrap_wb env share md s)
                = (case e of
                     None \<Rightarrow> Inr blob
                   | Some err \<Rightarrow> Inl (Errorf ''error ending secure session: '' err))))"
proof (cases "parseEKMKeyURI_wb env (uri md)")
  case (Inl err)
  then have "ekmSecureSessionWrap_wb env share md s = (Inl err, s)"
    by (simp add: ekmSecureSessionWrap_wb_def)
  then have "filter is_confidential_op [] = [] \<and> filter is_EndSession [] = []
     \<and> new_events s (snd (ekmSecureSessionWrap_wb env share md s)) = []
     \<and> isl (fst (ekmSecureSessionWrap_wb env share md s))"
    by (simp add: new_events_def)
  then show ?thesis by blast
next
  case (Inr p)
  obtain addr keyPath where p: "p = (addr, keyPath)" by (cases p)
  let ?est = "case fakeSecureSessionClient (c s) of
      Some fake \<Rightarrow> (Inr fake, s)
    | None \<Rightarrow>
        (case generateTokenFromEKMAddress env addr of
           Inl err \<Rightarrow> (Inl err, s)
         | Inr authToken \<Rightarrow>
             (case removeSchemeFromURL env addr of
                Inl err \<Rightarrow> (Inl err, s)
              | Inr rpcAddr \<Rightarrow>
                  (case EstablishSecureSession_wb env rpcAddr authToken of
                     Inl err \<Rightarrow>
                       (Inl (Errorf ''error establishing secure session: '' err),
                        emit (EstablishSecureSession_call rpcAddr authToken False) s)
                   | Inr session \<Rightarrow>
                       (Inr session,
                        emit (EstablishSecureSession_call rpcAddr authToken False) s))))"
  obtain r0 s1 where est: "?est = (r0, s1)" by (cases ?est)
  from established_wb_trace [OF est] obtain pre where
    pre: "trace s1 = trace s @ pre" "filter is_confidential_op pre = []"
         "filter is_EndSession pre = []"
    by blast
  have run: "ekmSecureSessionWrap_wb env share md s =
     (case r0 of
        Inl err \<Rightarrow> (Inl err, s1)
      | Inr ekmClient \<Rightarrow>
          (case ConfidentialWrap ekmClient keyPath (resourceName md) share of
             Inl err \<Rightarrow>
               (Inl (Errorf ''error wrapping with secure session: '' err),
                emit (ConfidentialWrap_call keyPath (resourceName md) share (Inl err)) s1)
           | Inr blob \<Rightarrow>
               (case EndSession ekmClient of
                  None \<Rightarrow> Inr blob
                | Some err \<Rightarrow> Inl (Errorf ''error ending secure session: '' err),
                emit (EndSession_call (EndSession ekmClient))
                  (emit (ConfidentialWrap_call keyPath (resourceName md) share (Inr blob)) s1))))"
    unfolding ekmSecureSessionWrap_wb_def Inr p sum.case prod.case Let_def est
    by (simp split: sum.splits option.splits)
  show ?thesis
  proof (cases r0)
    case (Inl err)
    with run pre have "new_events s (snd (ekmSecureSessionWrap_wb env share md s)) = pre
          \<and> isl (fst (ekmSecureSessionWrap_wb env share md s))"
      by (simp add: new_events_append)
    with pre(2,3) show ?thesis by blast
  next
    case client: (Inr ekmClient)
    show ?thesis
    proof (cases "ConfidentialWrap ekmClient keyPath (resourceName md) share")
      case (Inl err)
      with run client pre have
        "new_events s (snd (ekmSecureSessionWrap_wb env share md s))
           = pre @ [ConfidentialWrap_call keyPath (resourceName md) share (Inl err)]
         \<and> fst (ekmSecureSessionWrap_wb env share md s)
           = Inl (Errorf ''error wrapping with secure session: '' err)"
        by (simp add: new_events_append)
      with pre(2,3) show ?thesis by blast
    next
      case (Inr blob)
      with run client pre have
        "new_events s (snd (ekmSecureSessionWrap_wb env share md s))
           = pre @ [ConfidentialWrap_call keyPath (resourceName md) share (Inr blob),
                    EndSession_call (EndSession ekmClient)]
         \<and> fst (ekmSecureSessionWrap_wb env share md s)
           = (case EndSession ekmClient of
                None \<Rightarrow> Inr blob
              | Some err \<Rightarrow> Inl (Errorf ''error ending secure session: '' err))"
        by (simp add: new_events_append)
      with pre(2,3) show ?thesis by blast
    qed
  qed
qed

lemma ekmSecureSessionUnwrap_wb_shape:
  "\<exists>pre. filter is_confidential_op pre = [] \<and> filter is_EndSession pre = []
     \<and> ((new_events s (snd (ekmSecureSessionUnwrap_wb env share md s)) = pre
          \<and> isl (fst (ekmSecureSessionUnwrap_wb env share md s)))
        \<or> (\<exists>keyPath err.
              new_events s (snd (ekmSecureSessionUnwrap_wb env share md s))
                = pre @ [ConfidentialUnwrap_call keyPath (resourceName md) share (Inl err)]
            \<and> fst (ekmSecureSessionUnwrap_wb env share md s)
                = Inl (Errorf ''error unwrapping with secure session: '' err))
        \<or> (\<exists>keyPath blob e.
              new_events s (snd (ekmSecureSessionUnwrap_wb env share md s))
                = pre @ [ConfidentialUnwrap_call keyPath (resourceName md) share (Inr blob),
                         EndSession_call e]
            \<and> fst (ekmSecureSessionUnwrap_wb env share md s)
                = (case e of
                     None \<Rightarrow> Inr blob
                   | Some err \<Rightarrow> Inl (Errorf ''error ending secure session: '' err))))"
proof (cases "parseEKMKeyURI_wb env (uri md)")
  case (Inl err)
  then have "ekmSecureSessionUnwrap_wb env share md s = (Inl err, s)"
    by (simp add: ekmSecureSessionUnwrap_wb_def)
  then have "filter is_confidential_op [] = [] \<and> filter is_EndSession [] = []
     \<and> new_events s (snd (ekmSecureSessionUnwrap_wb env share md s)) = []
     \<and> isl (fst (ekmSecureSessionUnwrap_wb env share md s))"
    by (simp add: new_events_def)
  then show ?thesis by blast
next
  case (Inr p)
  obtain addr keyPath where p: "p = (addr, keyPath)" by (cases p)
  let ?est = "case fakeSecureSessionClient (c s) of
      Some fake \<Rightarrow> (Inr fake, s)
    | None \<Rightarrow>
        (case generateTokenFromEKMAddress env addr of
           Inl err \<Rightarrow> (Inl err, s)
         | Inr authToken \<Rightarrow>
             (case removeSchemeFromURL env addr of
                Inl err \<Rightarrow> (Inl err, s)
              | Inr rpcAddr \<Rightarrow>
                  (case EstablishSecureSession_wb env rpcAddr authToken of
                     Inl err \<Rightarrow>
                       (Inl (Errorf ''error establishing secure session: '' err),
                        emit (EstablishSecureSession_call rpcAddr authToken False) s)
                   | Inr session \<Rightarrow>
                       (Inr session,
                        emit (EstablishSecureSession_call rpcAddr authToken False) s))))"
  obtain r0 s1 where est: "?est = (r0, s1)" by (cases ?est)
  from established_wb_trace [OF est] obtain pre where
    pre: "trace s1 = trace s @ pre" "filter is_confidential_op pre = []"
         "filter is_EndSession pre = []"
    by blast
  have run: "ekmSecureSessionUnwrap_wb env share md s =
     (case r0 of
        Inl err \<Rightarrow> (Inl err, s1)
      | Inr ekmClient \<Rightarrow>
          (case ConfidentialUnwrap ekmClient keyPath (resourceName md) share of
             Inl err \<Rightarrow>
               (Inl (Errorf ''error unwrapping with secure session: '' err),
                emit (ConfidentialUnwrap_call keyPath (resourceName md) share (Inl err)) s1)
           | Inr blob \<Rightarrow>
               (case EndSession ekmClient of
                  None \<Rightarrow> Inr blob
                | Some err \<Rightarrow> Inl (Errorf ''error ending secure session: '' err),
                emit (EndSession_call (EndSession ekmClient))
                  (emit (ConfidentialUnwrap_call keyPath (resourceName md) share (Inr blob)) s1))))"
    unfolding ekmSecureSessionUnwrap_wb_def Inr p sum.case prod.case Let_def est
    by (simp split: sum.splits option.splits)
  show ?thesis
  proof (cases r0)
    case (Inl err)
    with run pre have "new_events s (snd (ekmSecureSessionUnwrap_wb env share md s)) = pre
          \<and> isl (fst (ekmSecureSessionUnwrap_wb env share md s))"
      by (simp add: new_events_append)
    with pre(2,3) show ?thesis by blast
  next
    case client: (Inr ekmClient)
    show ?thesis
    proof (cases "ConfidentialUnwrap ekmClient keyPath (resourceName md) share")
      case (Inl err)
      with run client pre have
        "new_events s (snd (ekmSecureSessionUnwrap_wb env share md s))
           = pre @ [ConfidentialUnwrap_call keyPath (resourceName md) share (Inl err)]
         \<and> fst (ekmSecureSessionUnwrap_wb env share md s)
           = Inl (Errorf ''error unwrapping with secure session: '' err)"
        by (simp add: new_events_append)
      with pre(2,3) show ?thesis by blast
    next
      case (Inr blob)
      with run client pre have
        "new_events s (snd (ekmSecureSessionUnwrap_wb env share md s))
           = pre @ [ConfidentialUnwrap_call keyPath (resourceName md) share (Inr blob),
                    EndSession_call (EndSession ekmClient)]
         \<and> fst (ekmSecureSessionUnwrap_wb env share md s)
           = (case EndSession ekmClient of
                None \<Rightarrow> Inr blob
              | Some err \<Rightarrow> Inl (Errorf ''error ending secure session: '' err))"
        by (simp add: new_events_append)
      with pre(2,3) show ?thesis by blast
    qed
  qed
qed

subsection \<open>What follows for the teardown\<close>

lemma ekmSecureSessionWrap_teardown:
  "EndSession_calls (new_events s (snd (ekmSecureSessionWrap env share md s)))
     = successful_ops (new_events s (snd (ekmSecureSessionWrap env share md s)))
   \<and> confidential_ops (new_events s (snd (ekmSecureSessionWrap env share md s))) \<le> 1"
  using ekmSecureSessionWrap_shape [of s env share md]
  by (auto simp: count_defs no_ops_no_success)

lemma ekmSecureSessionWrap_refused:
  "ConfidentialWrap_call keyPath name payload (Inl err)
     \<in> set (new_events s (snd (ekmSecureSessionWrap env share md s)))
   \<Longrightarrow> fst (ekmSecureSessionWrap env share md s)
         = Inl (Errorf ''error wrapping with secure session: '' err)
       \<and> EndSession_calls (new_events s (snd (ekmSecureSessionWrap env share md s))) = 0"
  using ekmSecureSessionWrap_shape [of s env share md]
  by (auto simp: count_defs no_ops_no_call no_teardown_no_call)

lemma ekmSecureSessionWrap_served:
  "ConfidentialWrap_call keyPath name payload (Inr blob)
     \<in> set (new_events s (snd (ekmSecureSessionWrap env share md s)))
   \<Longrightarrow> EndSession_calls (new_events s (snd (ekmSecureSessionWrap env share md s))) = 1
       \<and> (fst (ekmSecureSessionWrap env share md s) = Inr blob
            \<or> (\<exists>e. fst (ekmSecureSessionWrap env share md s)
                      = Inl (Errorf ''error ending secure session: '' e)))"
  using ekmSecureSessionWrap_shape [of s env share md]
  by (auto simp: count_defs no_ops_no_call no_teardown_no_call split: option.splits)

lemma ekmSecureSessionWrap_failed_teardown:
  "EndSession_call (Some e) \<in> set (new_events s (snd (ekmSecureSessionWrap env share md s)))
   \<Longrightarrow> fst (ekmSecureSessionWrap env share md s)
         = Inl (Errorf ''error ending secure session: '' e)"
  using ekmSecureSessionWrap_shape [of s env share md]
  by (auto simp: no_ops_no_call no_teardown_no_call)

lemma ekmSecureSessionUnwrap_teardown:
  "EndSession_calls (new_events s (snd (ekmSecureSessionUnwrap env share md s)))
     = successful_ops (new_events s (snd (ekmSecureSessionUnwrap env share md s)))
   \<and> confidential_ops (new_events s (snd (ekmSecureSessionUnwrap env share md s))) \<le> 1"
  using ekmSecureSessionUnwrap_shape [of s env share md]
  by (auto simp: count_defs no_ops_no_success)

lemma ekmSecureSessionUnwrap_refused:
  "ConfidentialUnwrap_call keyPath name payload (Inl err)
     \<in> set (new_events s (snd (ekmSecureSessionUnwrap env share md s)))
   \<Longrightarrow> fst (ekmSecureSessionUnwrap env share md s)
         = Inl (Errorf ''error unwrapping with secure session: '' err)
       \<and> EndSession_calls (new_events s (snd (ekmSecureSessionUnwrap env share md s))) = 0"
  using ekmSecureSessionUnwrap_shape [of s env share md]
  by (auto simp: count_defs no_ops_no_call no_teardown_no_call)

lemma ekmSecureSessionUnwrap_served:
  "ConfidentialUnwrap_call keyPath name payload (Inr blob)
     \<in> set (new_events s (snd (ekmSecureSessionUnwrap env share md s)))
   \<Longrightarrow> EndSession_calls (new_events s (snd (ekmSecureSessionUnwrap env share md s))) = 1
       \<and> (fst (ekmSecureSessionUnwrap env share md s) = Inr blob
            \<or> (\<exists>e. fst (ekmSecureSessionUnwrap env share md s)
                      = Inl (Errorf ''error ending secure session: '' e)))"
  using ekmSecureSessionUnwrap_shape [of s env share md]
  by (auto simp: count_defs no_ops_no_call no_teardown_no_call split: option.splits)

lemma ekmSecureSessionUnwrap_failed_teardown:
  "EndSession_call (Some e) \<in> set (new_events s (snd (ekmSecureSessionUnwrap env share md s)))
   \<Longrightarrow> fst (ekmSecureSessionUnwrap env share md s)
         = Inl (Errorf ''error ending secure session: '' e)"
  using ekmSecureSessionUnwrap_shape [of s env share md]
  by (auto simp: no_ops_no_call no_teardown_no_call)

lemma ekmSecureSessionWrap_wb_teardown:
  "EndSession_calls (new_events s (snd (ekmSecureSessionWrap_wb env share md s)))
     = successful_ops (new_events s (snd (ekmSecureSessionWrap_wb env share md s)))
   \<and> confidential_ops (new_events s (snd (ekmSecureSessionWrap_wb env share md s))) \<le> 1"
  using ekmSecureSessionWrap_wb_shape [of s env share md]
  by (auto simp: count_defs no_ops_no_success)

lemma ekmSecureSessionWrap_wb_refused:
  "ConfidentialWrap_call keyPath name payload (Inl err)
     \<in> set (new_events s (snd (ekmSecureSessionWrap_wb env share md s)))
   \<Longrightarrow> fst (ekmSecureSessionWrap_wb env share md s)
         = Inl (Errorf ''error wrapping with secure session: '' err)
       \<and> EndSession_calls (new_events s (snd (ekmSecureSessionWrap_wb env share md s))) = 0"
  using ekmSecureSessionWrap_wb_shape [of s env share md]
  by (auto simp: count_defs no_ops_no_call no_teardown_no_call)

lemma ekmSecureSessionWrap_wb_served:
  "ConfidentialWrap_call keyPath name payload (Inr blob)
     \<in> set (new_events s (snd (ekmSecureSessionWrap_wb env share md s)))
   \<Longrightarrow> EndSession_calls (new_events s (snd (ekmSecureSessionWrap_wb env share md s))) = 1
       \<and> (fst (ekmSecureSessionWrap_wb env share md s) = Inr blob
            \<or> (\<exists>e. fst (ekmSecureSessionWrap_wb env share md s)
                      = Inl (Errorf ''error ending secure session: '' e)))"
  using ekmSecureSessionWrap_wb_shape [of s env share md]
  by (auto simp: count_defs no_ops_no_call no_teardown_no_call split: option.splits)

lemma ekmSecureSessionWrap_wb_failed_teardown:
  "EndSession_call (Some e) \<in> set (new_events s (snd (ekmSecureSessionWrap_wb env share md s)))
   \<Longrightarrow> fst (ekmSecureSessionWrap_wb env share md s)
         = Inl (Errorf ''error ending secure session: '' e)"
  using ekmSecureSessionWrap_wb_shape [of s env share md]
  by (auto simp: no_ops_no_call no_teardown_no_call)

lemma ekmSecureSessionUnwrap_wb_teardown:
  "EndSession_calls (new_events s (snd (ekmSecureSessionUnwrap_wb env share md s)))
     = successful_ops (new_events s (snd (ekmSecureSessionUnwrap_wb env share md s)))
   \<and> confidential_ops (new_events s (snd (ekmSecureSessionUnwrap_wb env share md s))) \<le> 1"
  using ekmSecureSessionUnwrap_wb_shape [of s env share md]
  by (auto simp: count_defs no_ops_no_success)

lemma ekmSecureSessionUnwrap_wb_refused:
  "ConfidentialUnwrap_call keyPath name payload (Inl err)
     \<in> set (new_events s (snd (ekmSecureSessionUnwrap_wb env share md s)))
   \<Longrightarrow> fst (ekmSecureSessionUnwrap_wb env share md s)
         = Inl (Errorf ''error unwrapping with secure session: '' err)
       \<and> EndSession_calls (new_events s (snd (ekmSecureSessionUnwrap_wb env share md s))) = 0"
  using ekmSecureSessionUnwrap_wb_shape [of s env share md]
  by (auto simp: count_defs no_ops_no_call no_teardown_no_call)

lemma ekmSecureSessionUnwrap_wb_served:
  "ConfidentialUnwrap_call keyPath name payload (Inr blob)
     \<in> set (new_events s (snd (ekmSecureSessionUnwrap_wb env share md s)))
   \<Longrightarrow> EndSession_calls (new_events s (snd (ekmSecureSessionUnwrap_wb env share md s))) = 1
       \<and> (fst (ekmSecureSessionUnwrap_wb env share md s) = Inr blob
            \<or> (\<exists>e. fst (ekmSecureSessionUnwrap_wb env share md s)
                      = Inl (Errorf ''error ending secure session: '' e)))"
  using ekmSecureSessionUnwrap_wb_shape [of s env share md]
  by (auto simp: count_defs no_ops_no_call no_teardown_no_call split: option.splits)

lemma ekmSecureSessionUnwrap_wb_failed_teardown:
  "EndSession_call (Some e) \<in> set (new_events s (snd (ekmSecureSessionUnwrap_wb env share md s)))
   \<Longrightarrow> fst (ekmSecureSessionUnwrap_wb env share md s)
         = Inl (Errorf ''error ending secure session: '' e)"
  using ekmSecureSessionUnwrap_wb_shape [of s env share md]
  by (auto simp: no_ops_no_call no_teardown_no_call)

text \<open>
  C4, as the code has it, in both revisions of the client. A secure-session wrap or
  unwrap makes at most one ConfidentialWrap or ConfidentialUnwrap call, and the number
  of EndSession calls it makes equals the number of those calls that succeeded. When
  the operation failed, the function returns that error, under the prefix "error
  wrapping with secure session: " or "error unwrapping with secure session: ", and has
  made no EndSession call. When the operation succeeded, the function has made exactly
  one EndSession call, and returns the blob or the error of that EndSession call.
\<close>

theorem session_teardown_follows_success:
  "EndSession_calls (new_events s (snd (ekmSecureSessionWrap env share md s)))
     = successful_ops (new_events s (snd (ekmSecureSessionWrap env share md s)))
   \<and> confidential_ops (new_events s (snd (ekmSecureSessionWrap env share md s))) \<le> 1
   \<and> EndSession_calls (new_events s (snd (ekmSecureSessionUnwrap env wrapped md s)))
     = successful_ops (new_events s (snd (ekmSecureSessionUnwrap env wrapped md s)))
   \<and> confidential_ops (new_events s (snd (ekmSecureSessionUnwrap env wrapped md s))) \<le> 1
   \<and> (ConfidentialWrap_call keyPath name payload (Inl err)
        \<in> set (new_events s (snd (ekmSecureSessionWrap env share md s)))
      \<longrightarrow> fst (ekmSecureSessionWrap env share md s)
            = Inl (Errorf ''error wrapping with secure session: '' err)
          \<and> EndSession_calls (new_events s (snd (ekmSecureSessionWrap env share md s))) = 0)
   \<and> (ConfidentialWrap_call keyPath name payload (Inr blob)
        \<in> set (new_events s (snd (ekmSecureSessionWrap env share md s)))
      \<longrightarrow> EndSession_calls (new_events s (snd (ekmSecureSessionWrap env share md s))) = 1
          \<and> (fst (ekmSecureSessionWrap env share md s) = Inr blob
               \<or> (\<exists>e. fst (ekmSecureSessionWrap env share md s)
                         = Inl (Errorf ''error ending secure session: '' e))))
   \<and> (ConfidentialUnwrap_call keyPath name payload (Inl err)
        \<in> set (new_events s (snd (ekmSecureSessionUnwrap env wrapped md s)))
      \<longrightarrow> fst (ekmSecureSessionUnwrap env wrapped md s)
            = Inl (Errorf ''error unwrapping with secure session: '' err)
          \<and> EndSession_calls (new_events s (snd (ekmSecureSessionUnwrap env wrapped md s))) = 0)
   \<and> (ConfidentialUnwrap_call keyPath name payload (Inr blob)
        \<in> set (new_events s (snd (ekmSecureSessionUnwrap env wrapped md s)))
      \<longrightarrow> EndSession_calls (new_events s (snd (ekmSecureSessionUnwrap env wrapped md s))) = 1
          \<and> (fst (ekmSecureSessionUnwrap env wrapped md s) = Inr blob
               \<or> (\<exists>e. fst (ekmSecureSessionUnwrap env wrapped md s)
                         = Inl (Errorf ''error ending secure session: '' e))))
   \<and> EndSession_calls (new_events s (snd (ekmSecureSessionWrap_wb env_wb share md s)))
     = successful_ops (new_events s (snd (ekmSecureSessionWrap_wb env_wb share md s)))
   \<and> confidential_ops (new_events s (snd (ekmSecureSessionWrap_wb env_wb share md s))) \<le> 1
   \<and> (ConfidentialWrap_call keyPath name payload (Inl err)
        \<in> set (new_events s (snd (ekmSecureSessionWrap_wb env_wb share md s)))
      \<longrightarrow> fst (ekmSecureSessionWrap_wb env_wb share md s)
            = Inl (Errorf ''error wrapping with secure session: '' err)
          \<and> EndSession_calls (new_events s (snd (ekmSecureSessionWrap_wb env_wb share md s))) = 0)
   \<and> (ConfidentialWrap_call keyPath name payload (Inr blob)
        \<in> set (new_events s (snd (ekmSecureSessionWrap_wb env_wb share md s)))
      \<longrightarrow> EndSession_calls (new_events s (snd (ekmSecureSessionWrap_wb env_wb share md s))) = 1
          \<and> (fst (ekmSecureSessionWrap_wb env_wb share md s) = Inr blob
               \<or> (\<exists>e. fst (ekmSecureSessionWrap_wb env_wb share md s)
                         = Inl (Errorf ''error ending secure session: '' e))))
   \<and> EndSession_calls (new_events s (snd (ekmSecureSessionUnwrap_wb env_wb wrapped md s)))
     = successful_ops (new_events s (snd (ekmSecureSessionUnwrap_wb env_wb wrapped md s)))
   \<and> confidential_ops (new_events s (snd (ekmSecureSessionUnwrap_wb env_wb wrapped md s))) \<le> 1
   \<and> (ConfidentialUnwrap_call keyPath name payload (Inl err)
        \<in> set (new_events s (snd (ekmSecureSessionUnwrap_wb env_wb wrapped md s)))
      \<longrightarrow> fst (ekmSecureSessionUnwrap_wb env_wb wrapped md s)
            = Inl (Errorf ''error unwrapping with secure session: '' err)
          \<and> EndSession_calls (new_events s (snd (ekmSecureSessionUnwrap_wb env_wb wrapped md s))) = 0)
   \<and> (ConfidentialUnwrap_call keyPath name payload (Inr blob)
        \<in> set (new_events s (snd (ekmSecureSessionUnwrap_wb env_wb wrapped md s)))
      \<longrightarrow> EndSession_calls (new_events s (snd (ekmSecureSessionUnwrap_wb env_wb wrapped md s))) = 1
          \<and> (fst (ekmSecureSessionUnwrap_wb env_wb wrapped md s) = Inr blob
               \<or> (\<exists>e. fst (ekmSecureSessionUnwrap_wb env_wb wrapped md s)
                         = Inl (Errorf ''error ending secure session: '' e))))"
  using ekmSecureSessionWrap_teardown [of s env share md]
        ekmSecureSessionWrap_refused [of keyPath name payload err s env share md]
        ekmSecureSessionWrap_served [of keyPath name payload blob s env share md]
        ekmSecureSessionUnwrap_teardown [of s env wrapped md]
        ekmSecureSessionUnwrap_refused [of keyPath name payload err s env wrapped md]
        ekmSecureSessionUnwrap_served [of keyPath name payload blob s env wrapped md]
        ekmSecureSessionWrap_wb_teardown [of s env_wb share md]
        ekmSecureSessionWrap_wb_refused [of keyPath name payload err s env_wb share md]
        ekmSecureSessionWrap_wb_served [of keyPath name payload blob s env_wb share md]
        ekmSecureSessionUnwrap_wb_teardown [of s env_wb wrapped md]
        ekmSecureSessionUnwrap_wb_refused [of keyPath name payload err s env_wb wrapped md]
        ekmSecureSessionUnwrap_wb_served [of keyPath name payload blob s env_wb wrapped md]
  by blast

theorem session_teardown_follows_success_witness:
  "new_events start (snd (ekmSecureSessionWrap env_fake [1, 2] ext_kmd start))
     = [ConfidentialWrap_call ''k1'' ''ext'' [1, 2] (Inr [2, 1]), EndSession_call None]
   \<and> EndSession_calls (new_events start (snd (ekmSecureSessionWrap env_fake [1, 2] ext_kmd start))) = 1
   \<and> new_events (start_with kms_fake ekm_refusing)
        (snd (ekmSecureSessionUnwrap env_fake [1, 2] ext_kmd (start_with kms_fake ekm_refusing)))
     = [ConfidentialUnwrap_call ''k1'' ''ext'' [1, 2] (Inl (Err ''permission denied''))]
   \<and> fst (ekmSecureSessionUnwrap env_fake [1, 2] ext_kmd (start_with kms_fake ekm_refusing))
     = Inl (Err ''error unwrapping with secure session: permission denied'')
   \<and> EndSession_calls
        (new_events (start_with kms_fake ekm_refusing)
           (snd (ekmSecureSessionUnwrap env_fake [1, 2] ext_kmd (start_with kms_fake ekm_refusing)))) = 0
   \<and> fst (ekmSecureSessionWrap_wb env_wb_fake [1, 2] ext_kmd (start_with kms_fake ekm_refusing))
     = Inl (Err ''error wrapping with secure session: permission denied'')
   \<and> EndSession_calls
        (new_events (start_with kms_fake ekm_refusing)
           (snd (ekmSecureSessionWrap_wb env_wb_fake [1, 2] ext_kmd
                   (start_with kms_fake ekm_refusing)))) = 0
   \<and> fst (ekmSecureSessionUnwrap_wb env_wb_fake [2, 1] ext_kmd start) = Inr [1, 2]
   \<and> EndSession_calls
        (new_events start (snd (ekmSecureSessionUnwrap_wb env_wb_fake [2, 1] ext_kmd start))) = 1"
proof -
  let ?refusing = "start_with kms_fake ekm_refusing"
  have a: "new_events start (snd (ekmSecureSessionWrap env_fake [1, 2] ext_kmd start))
     = [ConfidentialWrap_call ''k1'' ''ext'' [1, 2] (Inr [2, 1]), EndSession_call None]"
    by (simp add: ekmSecureSessionWrap_def run_fakes Let_def)
  have b: "new_events ?refusing (snd (ekmSecureSessionUnwrap env_fake [1, 2] ext_kmd ?refusing))
     = [ConfidentialUnwrap_call ''k1'' ''ext'' [1, 2] (Inl (Err ''permission denied''))]"
    by (simp add: ekmSecureSessionUnwrap_def run_fakes ekm_refusing_def Let_def)
  have e: "new_events ?refusing (snd (ekmSecureSessionWrap_wb env_wb_fake [1, 2] ext_kmd ?refusing))
     = [ConfidentialWrap_call ''k1'' ''ext'' [1, 2] (Inl (Err ''permission denied''))]"
    by (simp add: ekmSecureSessionWrap_wb_def parseEKMKeyURI_wb_def env_wb_fake_def
                  start_with_def ext_kmd_def ekm_refusing_def Let_def)
  have f: "new_events start (snd (ekmSecureSessionUnwrap_wb env_wb_fake [2, 1] ext_kmd start))
     = [ConfidentialUnwrap_call ''k1'' ''ext'' [2, 1] (Inr [1, 2]), EndSession_call None]"
    by (simp add: ekmSecureSessionUnwrap_wb_def parseEKMKeyURI_wb_def env_wb_fake_def
                  start_def start_with_def ext_kmd_def ekm_fake_def Let_def)
  have g: "fst (ekmSecureSessionUnwrap_wb env_wb_fake [2, 1] ext_kmd start) = Inr [1, 2]"
    by (simp add: ekmSecureSessionUnwrap_wb_def parseEKMKeyURI_wb_def env_wb_fake_def
                  start_def start_with_def ext_kmd_def ekm_fake_def Let_def)
  from session_teardown_follows_success
         [of start env_fake "[1, 2]" ext_kmd _ "''k1''" "''ext''" "[1, 2]" _ "[2, 1]"] a
  have c: "EndSession_calls
             (new_events start (snd (ekmSecureSessionWrap env_fake [1, 2] ext_kmd start))) = 1"
    by (simp add: count_defs)
  from session_teardown_follows_success
         [of ?refusing env_fake _ ext_kmd "[1, 2]"
             "''k1''" "''ext''" "[1, 2]" "Err ''permission denied''"] b
  have d: "fst (ekmSecureSessionUnwrap env_fake [1, 2] ext_kmd ?refusing)
             = Inl (Err ''error unwrapping with secure session: permission denied'')
           \<and> EndSession_calls
                (new_events ?refusing
                   (snd (ekmSecureSessionUnwrap env_fake [1, 2] ext_kmd ?refusing))) = 0"
    by (simp add: count_defs)
  from session_teardown_follows_success
         [of ?refusing _ "[1, 2]" ext_kmd _
             "''k1''" "''ext''" "[1, 2]" "Err ''permission denied''" _ env_wb_fake] e
  have h: "fst (ekmSecureSessionWrap_wb env_wb_fake [1, 2] ext_kmd ?refusing)
             = Inl (Err ''error wrapping with secure session: permission denied'')
           \<and> EndSession_calls
                (new_events ?refusing
                   (snd (ekmSecureSessionWrap_wb env_wb_fake [1, 2] ext_kmd ?refusing))) = 0"
    by (simp add: count_defs)
  from session_teardown_follows_success
         [of start _ _ ext_kmd "[2, 1]" "''k1''" "''ext''" "[2, 1]" _ "[1, 2]" env_wb_fake] f
  have i: "EndSession_calls
             (new_events start
                (snd (ekmSecureSessionUnwrap_wb env_wb_fake [2, 1] ext_kmd start))) = 1"
    by (simp add: count_defs)
  from a b c d g h i show ?thesis by simp
qed

text \<open>
  C4 as stated fails: when the external key manager refuses the wrap, the session is
  left without any EndSession call.
\<close>

theorem session_not_torn_down_after_failure:
  "confidential_ops
     (new_events (start_with kms_fake ekm_refusing)
        (snd (ekmSecureSessionWrap env_fake [1, 2] ext_kmd (start_with kms_fake ekm_refusing)))) = 1
   \<and> EndSession_calls
     (new_events (start_with kms_fake ekm_refusing)
        (snd (ekmSecureSessionWrap env_fake [1, 2] ext_kmd (start_with kms_fake ekm_refusing)))) \<noteq> 1"
  by (simp add: ekmSecureSessionWrap_def run_fakes ekm_refusing_def Let_def count_defs)

text \<open>
  C5, as the code has it. When EndSession fails after the confidential operation has
  succeeded, the wrap or unwrap returns the error "error ending secure session: ..."
  and no blob.
\<close>

theorem failed_teardown_is_an_error:
  "(EndSession_call (Some e) \<in> set (new_events s (snd (ekmSecureSessionWrap env share md s)))
      \<longrightarrow> fst (ekmSecureSessionWrap env share md s)
           = Inl (Errorf ''error ending secure session: '' e))
   \<and> (EndSession_call (Some e) \<in> set (new_events s (snd (ekmSecureSessionUnwrap env wrapped md s)))
      \<longrightarrow> fst (ekmSecureSessionUnwrap env wrapped md s)
           = Inl (Errorf ''error ending secure session: '' e))"
  using ekmSecureSessionWrap_failed_teardown [of e s env share md]
        ekmSecureSessionUnwrap_failed_teardown [of e s env wrapped md]
  by blast

theorem failed_teardown_is_an_error_witness:
  "EndSession_call (Some (Err ''session lost''))
     \<in> set (new_events (start_with kms_fake ekm_stuck)
               (snd (ekmSecureSessionUnwrap env_fake [1, 2] ext_kmd (start_with kms_fake ekm_stuck))))
   \<and> fst (ekmSecureSessionUnwrap env_fake [1, 2] ext_kmd (start_with kms_fake ekm_stuck))
       = Inl (Err ''error ending secure session: session lost'')"
proof -
  have a: "EndSession_call (Some (Err ''session lost''))
     \<in> set (new_events (start_with kms_fake ekm_stuck)
               (snd (ekmSecureSessionUnwrap env_fake [1, 2] ext_kmd (start_with kms_fake ekm_stuck))))"
    by (simp add: ekmSecureSessionUnwrap_def run_fakes ekm_stuck_def Let_def)
  from failed_teardown_is_an_error
         [of "Err ''session lost''" "start_with kms_fake ekm_stuck" env_fake _ ext_kmd "[1, 2]"] a
  show ?thesis by simp
qed

text \<open>
  C5 as stated fails: the key manager wrapped the share, EndSession failed, and the
  caller gets an error instead of the wrapped share.
\<close>

theorem wrapped_share_lost_on_failed_teardown:
  "ConfidentialWrap ekm_stuck ''k1'' ''ext'' [1, 2] = Inr [2, 1]
   \<and> fst (ekmSecureSessionWrap env_fake [1, 2] ext_kmd (start_with kms_fake ekm_stuck))
       = Inl (Err ''error ending secure session: session lost'')
   \<and> fst (ekmSecureSessionWrap env_fake [1, 2] ext_kmd (start_with kms_fake ekm_stuck))
       \<noteq> Inr [2, 1]"
  by (simp add: ekmSecureSessionWrap_def run_fakes ekm_stuck_def Let_def)


section \<open>Checksums on the Cloud KMS path\<close>

lemma wrapKMSShare_request:
  "kmsClient (c s) = Some kms \<Longrightarrow>
   new_events s (snd (wrapKMSShare share keyName s))
     = [Encrypt_call \<lparr>enc_Name = keyName, enc_Plaintext = share,
                      enc_PlaintextCrc32C = Some (ucast (crc32c share))\<rparr>]"
  by (simp add: wrapKMSShare_def Let_def split: sum.splits option.splits)

lemma unwrapKMSShare_request:
  "kmsClient (c s) = Some kms \<Longrightarrow>
   new_events s (snd (unwrapKMSShare wrapped keyName s))
     = [Decrypt_call \<lparr>dec_Name = keyName, dec_Ciphertext = wrapped,
                      dec_CiphertextCrc32C = Some (ucast (crc32c wrapped))\<rparr>]"
  by (simp add: unwrapKMSShare_def Let_def split: sum.splits option.splits)

lemma wrapKMSShare_unverified:
  "kmsClient (c s) = Some kms \<Longrightarrow>
   kms_Encrypt kms \<lparr>enc_Name = keyName, enc_Plaintext = share,
                    enc_PlaintextCrc32C = Some (ucast (crc32c share))\<rparr> = Inr result \<Longrightarrow>
   \<not> enc_VerifiedPlaintextCrc32C result \<Longrightarrow>
   fst (wrapKMSShare share keyName s) = Inl (Err ''Encrypt: request corrupted in-transit'')"
  by (simp add: wrapKMSShare_def Let_def)

lemma wrapKMSShare_mismatch:
  "kmsClient (c s) = Some kms \<Longrightarrow>
   kms_Encrypt kms \<lparr>enc_Name = keyName, enc_Plaintext = share,
                    enc_PlaintextCrc32C = Some (ucast (crc32c share))\<rparr> = Inr result \<Longrightarrow>
   enc_VerifiedPlaintextCrc32C result \<Longrightarrow>
   enc_CiphertextCrc32C result = Some v \<Longrightarrow>
   ucast (crc32c (enc_Ciphertext result)) \<noteq> v \<Longrightarrow>
   fst (wrapKMSShare share keyName s) = Inl (Err ''Encrypt: response corrupted in-transit'')"
  by (simp add: wrapKMSShare_def Let_def)

lemma wrapKMSShare_Inr:
  "kmsClient (c s) = Some kms \<Longrightarrow>
   fst (wrapKMSShare share keyName s) = Inr w \<longleftrightarrow>
     (case kms_Encrypt kms \<lparr>enc_Name = keyName, enc_Plaintext = share,
                            enc_PlaintextCrc32C = Some (ucast (crc32c share))\<rparr> of
        Inl err \<Rightarrow> False
      | Inr result \<Rightarrow>
          enc_VerifiedPlaintextCrc32C result
        \<and> enc_CiphertextCrc32C result = Some (ucast (crc32c w))
        \<and> enc_Ciphertext result = w)"
  by (auto simp: wrapKMSShare_def Let_def split: sum.splits option.splits)

lemma unwrapKMSShare_mismatch:
  "kmsClient (c s) = Some kms \<Longrightarrow>
   kms_Decrypt kms \<lparr>dec_Name = keyName, dec_Ciphertext = wrapped,
                    dec_CiphertextCrc32C = Some (ucast (crc32c wrapped))\<rparr> = Inr result \<Longrightarrow>
   dec_PlaintextCrc32C result = Some v \<Longrightarrow>
   ucast (crc32c (dec_Plaintext result)) \<noteq> v \<Longrightarrow>
   fst (unwrapKMSShare wrapped keyName s) = Inl (Err ''Decrypt: response corrupted in-transit'')"
  by (simp add: unwrapKMSShare_def Let_def)

lemma unwrapKMSShare_Inr:
  "kmsClient (c s) = Some kms \<Longrightarrow>
   fst (unwrapKMSShare wrapped keyName s) = Inr p \<longleftrightarrow>
     (case kms_Decrypt kms \<lparr>dec_Name = keyName, dec_Ciphertext = wrapped,
                            dec_CiphertextCrc32C = Some (ucast (crc32c wrapped))\<rparr> of
        Inl err \<Rightarrow> False
      | Inr result \<Rightarrow>
          dec_PlaintextCrc32C result = Some (ucast (crc32c p))
        \<and> dec_Plaintext result = p)"
  by (auto simp: unwrapKMSShare_def Let_def split: sum.splits option.splits)

text \<open>
  C6, as the code has it. Both requests carry the CRC32C of their payload. A wrap
  fails with "Encrypt: request corrupted in-transit" when the response does not flag
  the request checksum as verified, and with "Encrypt: response corrupted in-transit"
  when the CRC32C of the returned ciphertext differs from the declared one. An unwrap
  fails with "Decrypt: response corrupted in-transit" when the CRC32C of the returned
  plaintext differs from the declared one; that test is the only one it makes, so it
  returns the plaintext exactly when the call answered with a matching checksum.
\<close>

theorem kms_checksums:
  "kmsClient (c s) = Some kms \<Longrightarrow>
   (let ereq = \<lparr>enc_Name = keyName, enc_Plaintext = share,
                 enc_PlaintextCrc32C = Some (ucast (crc32c share))\<rparr>;
        dreq = \<lparr>dec_Name = keyName, dec_Ciphertext = wrapped,
                 dec_CiphertextCrc32C = Some (ucast (crc32c wrapped))\<rparr>
    in new_events s (snd (wrapKMSShare share keyName s)) = [Encrypt_call ereq]
     \<and> new_events s (snd (unwrapKMSShare wrapped keyName s)) = [Decrypt_call dreq]
     \<and> (kms_Encrypt kms ereq = Inr eresp \<and> \<not> enc_VerifiedPlaintextCrc32C eresp
         \<longrightarrow> fst (wrapKMSShare share keyName s)
               = Inl (Err ''Encrypt: request corrupted in-transit''))
     \<and> (kms_Encrypt kms ereq = Inr eresp \<and> enc_VerifiedPlaintextCrc32C eresp
           \<and> enc_CiphertextCrc32C eresp = Some v
           \<and> ucast (crc32c (enc_Ciphertext eresp)) \<noteq> v
         \<longrightarrow> fst (wrapKMSShare share keyName s)
               = Inl (Err ''Encrypt: response corrupted in-transit''))
     \<and> (kms_Decrypt kms dreq = Inr dresp \<and> dec_PlaintextCrc32C dresp = Some v
           \<and> ucast (crc32c (dec_Plaintext dresp)) \<noteq> v
         \<longrightarrow> fst (unwrapKMSShare wrapped keyName s)
               = Inl (Err ''Decrypt: response corrupted in-transit''))
     \<and> (fst (unwrapKMSShare wrapped keyName s) = Inr p \<longleftrightarrow>
           (case kms_Decrypt kms dreq of
              Inl err \<Rightarrow> False
            | Inr result \<Rightarrow>
                dec_PlaintextCrc32C result = Some (ucast (crc32c p))
              \<and> dec_Plaintext result = p)))"
  using wrapKMSShare_request [of s kms share keyName]
        unwrapKMSShare_request [of s kms wrapped keyName]
        wrapKMSShare_unverified [of s kms keyName share eresp]
        wrapKMSShare_mismatch [of s kms keyName share eresp v]
        unwrapKMSShare_mismatch [of s kms keyName wrapped dresp v]
        unwrapKMSShare_Inr [of s kms wrapped keyName p]
  unfolding Let_def by blast

theorem kms_checksums_witness:
  "fst (wrapKMSShare [1, 2]
          ''soft'' (start_with (kms_fake\<lparr>kms_Encrypt := (\<lambda>req.
              Inr \<lparr>enc_Ciphertext = [2, 1], enc_CiphertextCrc32C = Some 0,
                   enc_VerifiedPlaintextCrc32C = False\<rparr>)\<rparr>) ekm_fake))
     = Inl (Err ''Encrypt: request corrupted in-transit'')
   \<and> fst (unwrapKMSShare [1, 2] ''soft'' start) = Inr [2, 1]"
  using kms_checksums
    [of "start_with (kms_fake\<lparr>kms_Encrypt := (\<lambda>req.
              Inr \<lparr>enc_Ciphertext = [2, 1], enc_CiphertextCrc32C = Some 0,
                   enc_VerifiedPlaintextCrc32C = False\<rparr>)\<rparr>) ekm_fake"
        "kms_fake\<lparr>kms_Encrypt := (\<lambda>req.
              Inr \<lparr>enc_Ciphertext = [2, 1], enc_CiphertextCrc32C = Some 0,
                   enc_VerifiedPlaintextCrc32C = False\<rparr>)\<rparr>"
        "''soft''" "[1, 2]" _
        "\<lparr>enc_Ciphertext = [2, 1], enc_CiphertextCrc32C = Some 0,
          enc_VerifiedPlaintextCrc32C = False\<rparr>"]
     kms_checksums [of start kms_fake "''soft''" _ "[1, 2]" _ _ _ "[2, 1]"]
  by (simp add: start_with_def start_def kms_fake_def Let_def)

text \<open>
  C6 as stated fails on the unwrap path: the checksum of the request reaches the
  server altered, so it disagrees with the ciphertext there, and the client still
  returns the plaintext.
\<close>

theorem unwrap_accepts_unverified_request:
  "dec_CiphertextCrc32C
       (bump_checksum \<lparr>dec_Name = ''soft'', dec_Ciphertext = [1, 2],
                       dec_CiphertextCrc32C = Some (ucast (crc32c [1, 2]))\<rparr>)
     \<noteq> Some (ucast (crc32c (dec_Ciphertext
           (bump_checksum \<lparr>dec_Name = ''soft'', dec_Ciphertext = [1, 2],
                           dec_CiphertextCrc32C = Some (ucast (crc32c [1, 2]))\<rparr>))))
   \<and> new_events (start_with kms_lenient ekm_fake)
        (snd (unwrapKMSShare [1, 2] ''soft'' (start_with kms_lenient ekm_fake)))
       = [Decrypt_call \<lparr>dec_Name = ''soft'', dec_Ciphertext = [1, 2],
                        dec_CiphertextCrc32C = Some (ucast (crc32c [1, 2]))\<rparr>]
   \<and> fst (unwrapKMSShare [1, 2] ''soft'' (start_with kms_lenient ekm_fake)) = Inr [2, 1]"
  by (simp add: unwrapKMSShare_def bump_checksum_def kms_lenient_def run_fakes Let_def)

subsection \<open>The same in the whole-buffer revision\<close>

lemma unwrapKMSShare_wb_Inr:
  "fst (unwrapKMSShare_wb kms wrapped keyName s) = Inr p \<longleftrightarrow>
     (case kms_Decrypt kms \<lparr>dec_Name = keyName, dec_Ciphertext = wrapped,
                            dec_CiphertextCrc32C = Some (ucast (crc32c wrapped))\<rparr> of
        Inl err \<Rightarrow> False
      | Inr result \<Rightarrow>
          dec_PlaintextCrc32C result = Some (ucast (crc32c p))
        \<and> dec_Plaintext result = p)"
  by (auto simp: unwrapKMSShare_wb_def Let_def split: sum.splits option.splits)

lemma wrapKMSShare_wb_Inr:
  "fst (wrapKMSShare_wb kms share keyName s) = Inr w \<longleftrightarrow>
     (case kms_Encrypt kms \<lparr>enc_Name = keyName, enc_Plaintext = share,
                            enc_PlaintextCrc32C = Some (ucast (crc32c share))\<rparr> of
        Inl err \<Rightarrow> False
      | Inr result \<Rightarrow>
          enc_VerifiedPlaintextCrc32C result
        \<and> enc_CiphertextCrc32C result = Some (ucast (crc32c w))
        \<and> enc_Ciphertext result = w)"
  by (auto simp: wrapKMSShare_wb_def Let_def split: sum.splits option.splits)


section \<open>Resolving a KEK URI\<close>


lemma getKekURIMetadata_sound:
  assumes ok: "fst (getKekURIMetadata kms (KekInfo_KekUri kekUri) s) = Inr kmd"
  shows "resolves_to kms kekUri kmd"
proof -
  have p: "prefix gcpKeyPrefix kekUri"
    using ok by (simp add: getKekURIMetadata_def split: if_splits)
  obtain cryptoKey where g: "GetCryptoKey kms (TrimPrefix kekUri gcpKeyPrefix) = Inr cryptoKey"
    using ok p
    by (cases "GetCryptoKey kms (TrimPrefix kekUri gcpKeyPrefix)")
       (simp_all add: getKekURIMetadata_def Let_def)
  obtain ver where v: "Primary cryptoKey = Some ver"
    using ok p g by (cases "Primary cryptoKey") (simp_all add: getKekURIMetadata_def Let_def)
  have st: "State ver = ENABLED"
    using ok p g v by (simp add: getKekURIMetadata_def Let_def split: if_splits)
  have pl: "ProtectionLevel ver \<noteq> PROTECTION_LEVEL_UNSPECIFIED"
    using ok p g v st by (simp add: getKekURIMetadata_def Let_def split: if_splits)
  show ?thesis
    using ok p g v st pl
    by (cases "ExternalProtectionLevelOptions ver")
       (auto simp: getKekURIMetadata_def resolves_to_def Let_def split: if_splits)
qed








section \<open>Missing configuration\<close>

text \<open>
  C10. With a nil EncryptConfig, Encrypt returns its error at once, and so does
  Decrypt with a nil DecryptConfig: the state comes back as it was, so nothing was
  read from the input stream, nothing written to the output stream, and no call made.
\<close>

theorem nil_config_returns_at_once:
  "Encrypt env None keys blobID s = (Inl (Err ''nil EncryptConfig passed to Encrypt()''), s)
   \<and> Decrypt env None keys s = (Inl (Err ''nil DecryptConfig passed to Decrypt()''), s)"
  by (simp add: Encrypt_def Decrypt_def)


section \<open>Wrapping the shares\<close>

subsection \<open>What the outcome of a wrap depends on\<close>

lemma initializeKMSClient_same_c:
  "c s = c s0 \<Longrightarrow>
   fst (initializeKMSClient env s) = fst (initializeKMSClient env s0)
   \<and> c (snd (initializeKMSClient env s)) = c (snd (initializeKMSClient env s0))"
  by (simp add: initializeKMSClient_def Let_def split: option.splits prod.splits)

lemma initializeKMSClient_ready:
  "kmsClient (c s) = Some kms \<Longrightarrow> initializeKMSClient env s = (None, s)"
  by (simp add: initializeKMSClient_def)

lemma getKekURIMetadata_any_state:
  "fst (getKekURIMetadata kms kek s1) = fst (getKekURIMetadata kms kek s2)"
  by (simp add: getKekURIMetadata_def Let_def
           split: KekInfo.splits sum.splits option.splits)

lemma wrapKMSShare_same_c:
  "c s1 = c s2 \<Longrightarrow>
   fst (wrapKMSShare share keyName s1) = fst (wrapKMSShare share keyName s2)"
  by (simp add: wrapKMSShare_def Let_def split: sum.splits option.splits)

lemma ekmSecureSessionWrap_same_c:
  "c s1 = c s2 \<Longrightarrow>
   fst (ekmSecureSessionWrap env share md s1) = fst (ekmSecureSessionWrap env share md s2)"
  by (simp add: ekmSecureSessionWrap_def Let_def
           split: sum.splits option.splits prod.splits)

text \<open>
  While \<open>wrapShares\<close> runs, the client is as it was at the start, or as the first
  successful \<open>initializeKMSClient\<close> left it.
\<close>

lemma initializeKMSClient_in_loop:
  assumes inv: "c s = c s0 \<or> (c s = c (snd (initializeKMSClient env s0))
                               \<and> fst (initializeKMSClient env s0) = None)"
      and i: "initializeKMSClient env s = (e1, s1)"
  shows "fst (initializeKMSClient env s0) = e1
         \<and> c s1 = c (snd (initializeKMSClient env s0))"
proof (cases "c s = c s0")
  case True
  from initializeKMSClient_same_c [OF True, of env] i show ?thesis by simp
next
  case False
  with inv have a: "c s = c (snd (initializeKMSClient env s0))"
    and b: "fst (initializeKMSClient env s0) = None"
    by simp_all
  obtain e0 r0 where i0: "initializeKMSClient env s0 = (e0, r0)"
    by (cases "initializeKMSClient env s0")
  from initializeKMSClient_frame [OF i0] a i0
  have "kmsClient (c s) = Some (kms_in_use env s0)" by simp
  from initializeKMSClient_ready [OF this, of env] i have "e1 = None" "s1 = s" by simp_all
  with a b show ?thesis by simp
qed

lemma wrap_outcome_kek_uri:
  assumes i0: "initializeKMSClient env s0 = (e0, ready)"
  shows "wrap_outcome env keys s0 share (KekInfo_KekUri kekUri) =
     (case e0 of
        Some err \<Rightarrow> Inl err
      | None \<Rightarrow>
          (case fst (getKekURIMetadata (kms_in_use env s0) (KekInfo_KekUri kekUri) ready) of
             Inl err \<Rightarrow> Inl err
           | Inr kmd \<Rightarrow>
               if protectionLevel kmd = SOFTWARE \<or> protectionLevel kmd = HSM
               then fst (wrapKMSShare share (resourceName kmd) ready)
               else if protectionLevel kmd = EXTERNAL
               then fst (ekmSecureSessionWrap env share kmd ready)
               else Inl (Err (''unsupported protection level ''
                      @ ProtectionLevel_String (protectionLevel kmd)))))"
  using initializeKMSClient_frame [OF i0] i0
  by (simp add: wrap_outcome_def split: option.splits)

subsection \<open>The loop stops at the first share whose wrap fails\<close>

lemma Errorf_empty: "Errorf [] e = e"
  by (cases e) simp_all

lemma outcome_step:
  assumes rest: "case r of
                   Inr (ws', uris') \<Rightarrow>
                     \<exists>new. ws' = (ws @ [w]) @ new \<and> list_all2 P rest new
                 | Inl err \<Rightarrow>
                     \<exists>position e p. position \<in> set rest \<and> Q position e \<and> err = Errorf p e"
      and here: "P pos w"
  shows "case r of
           Inr (ws', uris') \<Rightarrow>
             \<exists>new. ws' = ws @ new \<and> list_all2 P (pos # rest) new
         | Inl err \<Rightarrow>
             \<exists>position e p. position \<in> set (pos # rest) \<and> Q position e \<and> err = Errorf p e"
proof (cases r)
  case (Inl err)
  with rest show ?thesis by auto
next
  case (Inr pr)
  obtain ws' uris' where pr: "pr = (ws', uris')" by (cases pr)
  from rest Inr pr obtain new where "ws' = (ws @ [w]) @ new" "list_all2 P rest new"
    by auto
  with here have "ws' = ws @ (w # new) \<and> list_all2 P (pos # rest) (w # new)"
    by simp
  with Inr pr show ?thesis by auto
qed

lemma outcome_failure:
  assumes "Q pos e"
  shows "case Inl (Errorf p e) of
           Inr (ws', uris') \<Rightarrow>
             \<exists>new. ws' = ws @ new \<and> list_all2 P (pos # rest) new
         | Inl err \<Rightarrow>
             \<exists>position e p. position \<in> set (pos # rest) \<and> Q position e \<and> err = Errorf p e"
  using assms by auto

lemma wrapShares_loop_outcomes:
  assumes "wrapShares_loop env keys pairs ws uris s = (r, s')"
      and "c s = c s0 \<or> (c s = c (snd (initializeKMSClient env s0))
                         \<and> fst (initializeKMSClient env s0) = None)"
  shows "case r of
           Inr (ws', uris') \<Rightarrow>
             \<exists>new. ws' = ws @ new \<and> list_all2 (wrapped_from env keys s0) pairs new
         | Inl err \<Rightarrow>
             \<exists>position e p. position \<in> set pairs
                \<and> wrap_outcome env keys s0 (fst position) (snd position) = Inl e
                \<and> err = Errorf p e"
  using assms
proof (induction pairs arbitrary: ws uris s)
  case Nil
  then show ?case by auto
next
  case (Cons pos rest)
  obtain share kek where pos: "pos = (share, kek)" by (cases pos)
  let ?Q = "\<lambda>position e. wrap_outcome env keys s0 (fst position) (snd position) = Inl e"
  note run = Cons.prems(1)
  note inv = Cons.prems(2)
  show ?case
  proof (cases kek)
    case KekInfo_unset
    with pos have q: "?Q pos (Err ''unsupported KekInfo type: <nil>'')"
      by (simp add: wrap_outcome_def)
    from run pos KekInfo_unset
    have r: "r = Inl (Errorf [] (Err ''unsupported KekInfo type: <nil>''))"
      by simp
    show ?thesis unfolding r by (rule outcome_failure [of ?Q, OF q])
  next
    case (KekInfo_RsaFingerprint fp)
    show ?thesis
    proof (cases "PublicKeyForRSAFingerprint env kek keys")
      case (Inl err)
      with pos KekInfo_RsaFingerprint have q: "?Q pos err"
        by (simp add: wrap_outcome_def)
      from run pos KekInfo_RsaFingerprint Inl
      have r: "r = Inl (Errorf ''failed to find public key for RSA fingerprint: '' err)"
        by simp
      show ?thesis unfolding r by (rule outcome_failure [of ?Q, OF q])
    next
      case (Inr key)
      show ?thesis
      proof (cases "EncryptOAEP env key share")
        case (Inl err)
        with pos KekInfo_RsaFingerprint Inr have q: "?Q pos err"
          by (simp add: wrap_outcome_def)
        from run pos KekInfo_RsaFingerprint Inr Inl
        have r: "r = Inl (Errorf ''error wrapping key share: '' err)"
          by simp
        show ?thesis unfolding r by (rule outcome_failure [of ?Q, OF q])
      next
        case enc: (Inr w)
        let ?w = "\<lparr>wrapped_Share = w, wrapped_Hash = HashShare env share\<rparr>"
        from run pos KekInfo_RsaFingerprint Inr enc
        have go: "wrapShares_loop env keys rest (ws @ [?w]) uris s = (r, s')"
          by simp
        from pos KekInfo_RsaFingerprint Inr enc have here: "wrapped_from env keys s0 pos ?w"
          by (simp add: wrapped_from_def wrap_outcome_def)
        from outcome_step [OF Cons.IH [OF go inv] here] show ?thesis .
      qed
    qed
  next
    case (KekInfo_KekUri kekUri)
    obtain e1 s1 where i: "initializeKMSClient env s = (e1, s1)"
      by (cases "initializeKMSClient env s")
    obtain e0 ready where i0: "initializeKMSClient env s0 = (e0, ready)"
      by (cases "initializeKMSClient env s0")
    from initializeKMSClient_in_loop [OF inv i] i0
    have e: "e0 = e1" and c1: "c s1 = c ready" by simp_all
    note wo = wrap_outcome_kek_uri [OF i0, of keys share kekUri]
    show ?thesis
    proof (cases e1)
      case (Some err)
      with wo e pos KekInfo_KekUri have q: "?Q pos err" by simp
      from run pos KekInfo_KekUri i Some
      have r: "r = Inl (Errorf ''error initializing KMS Client: '' err)"
        by simp
      show ?thesis unfolding r by (rule outcome_failure [of ?Q, OF q])
    next
      case None
      let ?kms = "kms_in_use env s0"
      from initializeKMSClient_frame [OF i0] c1 have k: "kmsClient (c s1) = Some ?kms"
        by simp
      from None e c1 i0 have inv1:
        "\<And>t. c t = c s1 \<Longrightarrow>
              c t = c s0 \<or> (c t = c (snd (initializeKMSClient env s0))
                              \<and> fst (initializeKMSClient env s0) = None)"
        by simp
      obtain r2 s2 where
        g: "getKekURIMetadata ?kms kek (s1\<lparr>deferred := ?kms # deferred s1\<rparr>) = (r2, s2)"
        by (cases "getKekURIMetadata ?kms kek (s1\<lparr>deferred := ?kms # deferred s1\<rparr>)")
      from getKekURIMetadata_frame [OF g] have c2: "c s2 = c s1" by simp
      from g getKekURIMetadata_any_state
             [of ?kms kek "s1\<lparr>deferred := ?kms # deferred s1\<rparr>" ready] KekInfo_KekUri
      have md: "fst (getKekURIMetadata ?kms (KekInfo_KekUri kekUri) ready) = r2"
        by simp
      show ?thesis
      proof (cases r2)
        case (Inl err)
        with wo e None md pos KekInfo_KekUri have q: "?Q pos err" by simp
        from run pos KekInfo_KekUri i None k g Inl
        have r: "r = Inl (Errorf ''Error retrieving KEK Metadata: '' err)"
          by simp
        show ?thesis unfolding r by (rule outcome_failure [of ?Q, OF q])
      next
        case (Inr kmd)
        obtain r3 s3 where w: "wrapKMSShare share (resourceName kmd) s2 = (r3, s3)"
          by (cases "wrapKMSShare share (resourceName kmd) s2")
        obtain r4 s4 where x: "ekmSecureSessionWrap env share kmd s2 = (r4, s4)"
          by (cases "ekmSecureSessionWrap env share kmd s2")
        from wrapKMSShare_frame [OF w] ekmSecureSessionWrap_frame [OF x] c2
        have c3: "c s3 = c s1" "c s4 = c s1" by simp_all
        from w wrapKMSShare_same_c [of s2 ready share "resourceName kmd"] c2 c1
        have o3: "fst (wrapKMSShare share (resourceName kmd) ready) = r3" by simp
        from x ekmSecureSessionWrap_same_c [of s2 ready env share kmd] c2 c1
        have o4: "fst (ekmSecureSessionWrap env share kmd ready) = r4" by simp
        show ?thesis
        proof (cases "protectionLevel kmd = SOFTWARE \<or> protectionLevel kmd = HSM")
          case True
          with wo e None md Inr o3
          have out: "wrap_outcome env keys s0 share (KekInfo_KekUri kekUri) = r3"
            by simp
          show ?thesis
          proof (cases r3)
            case (Inl err)
            with out pos KekInfo_KekUri have q: "?Q pos err" by simp
            from run pos KekInfo_KekUri i None k g Inr True w Inl
            have r: "r = Inl (Errorf ''error wrapping key share: '' err)"
              by simp
            show ?thesis unfolding r by (rule outcome_failure [of ?Q, OF q])
          next
            case wrapped: (Inr wr)
            let ?w = "\<lparr>wrapped_Share = wr, wrapped_Hash = HashShare env share\<rparr>"
            from run pos KekInfo_KekUri i None k g Inr True w wrapped
            have go: "wrapShares_loop env keys rest (ws @ [?w]) (uris @ [uri kmd]) s3 = (r, s')"
              by simp
            from out wrapped pos KekInfo_KekUri have here: "wrapped_from env keys s0 pos ?w"
              by (simp add: wrapped_from_def)
            from outcome_step [OF Cons.IH [OF go inv1 [OF c3(1)]] here] show ?thesis .
          qed
        next
          case False
          show ?thesis
          proof (cases "protectionLevel kmd = EXTERNAL")
            case True
            with wo e None md Inr o4 False
            have out: "wrap_outcome env keys s0 share (KekInfo_KekUri kekUri) = r4"
              by simp
            show ?thesis
            proof (cases r4)
              case (Inl err)
              with out pos KekInfo_KekUri have q: "?Q pos err" by simp
              from run pos KekInfo_KekUri i None k g Inr False True x Inl
              have r: "r = Inl (Errorf ''error wrapping with secure session: '' err)"
                by simp
              show ?thesis unfolding r by (rule outcome_failure [of ?Q, OF q])
            next
              case wrapped: (Inr wr)
              let ?w = "\<lparr>wrapped_Share = wr, wrapped_Hash = HashShare env share\<rparr>"
              from run pos KekInfo_KekUri i None k g Inr False True x wrapped
              have go: "wrapShares_loop env keys rest (ws @ [?w]) (uris @ [uri kmd]) s4 = (r, s')"
                by simp
              from out wrapped pos KekInfo_KekUri have here: "wrapped_from env keys s0 pos ?w"
                by (simp add: wrapped_from_def)
              from outcome_step [OF Cons.IH [OF go inv1 [OF c3(2)]] here] show ?thesis .
            qed
          next
            case other: False
            with wo e None md Inr False pos KekInfo_KekUri
            have q: "?Q pos (Err (''unsupported protection level ''
                               @ ProtectionLevel_String (protectionLevel kmd)))"
              by simp
            from run pos KekInfo_KekUri i None k g Inr False other
            have r: "r = Inl (Errorf [] (Err (''unsupported protection level ''
                               @ ProtectionLevel_String (protectionLevel kmd))))"
              by simp
            show ?thesis unfolding r by (rule outcome_failure [of ?Q, OF q])
          qed
        qed
      qed
    qed
  qed
qed


section \<open>Encrypt and the container header\<close>

lemma Encrypt_wrap_failure:
  assumes sh: "CreateDEKShares env (NewDEK env) (enc_KeyConfig cfg) = Inr shares"
      and wf: "fst (wrapShares env shares
                      (case enc_KeyConfig cfg of None \<Rightarrow> [] | Some k \<Rightarrow> KekInfos k) keys s)
               = Inl err"
  shows "fst (Encrypt env (Some cfg) keys blobID s) = Inl (Errorf ''error wrapping shares: '' err)"
    and "streams (snd (Encrypt env (Some cfg) keys blobID s)) = streams s"
proof -
  obtain s1 where w: "wrapShares env shares
      (case enc_KeyConfig cfg of None \<Rightarrow> [] | Some k \<Rightarrow> KekInfos k) keys s = (Inl err, s1)"
    using wf by (cases "wrapShares env shares
      (case enc_KeyConfig cfg of None \<Rightarrow> [] | Some k \<Rightarrow> KekInfos k) keys s") simp
  from sh w have e: "Encrypt env (Some cfg) keys blobID s
                     = (Inl (Errorf ''error wrapping shares: '' err), s1)"
    by (simp add: Encrypt_def Let_def)
  from e show "fst (Encrypt env (Some cfg) keys blobID s)
               = Inl (Errorf ''error wrapping shares: '' err)"
    by simp
  from e wrapShares_frame(1) [OF w] show "streams (snd (Encrypt env (Some cfg) keys blobID s))
               = streams s"
    by simp
qed

lemma Encrypt_stream_activity:
  assumes act: "streams (snd (Encrypt env config keys blobID s)) \<noteq> streams s"
  shows "\<exists>cfg shares ws uris.
           config = Some cfg
         \<and> CreateDEKShares env (NewDEK env) (enc_KeyConfig cfg) = Inr shares
         \<and> fst (wrapShares env shares
                  (case enc_KeyConfig cfg of None \<Rightarrow> [] | Some k \<Rightarrow> KekInfos k) keys s)
             = Inr (ws, uris)
         \<and> length ws = length shares"
proof -
  obtain cfg where c: "config = Some cfg"
    using act by (cases config) (simp_all add: Encrypt_def)
  obtain shares where sh: "CreateDEKShares env (NewDEK env) (enc_KeyConfig cfg) = Inr shares"
    using act c by (cases "CreateDEKShares env (NewDEK env) (enc_KeyConfig cfg)")
                   (simp_all add: Encrypt_def Let_def)
  let ?w = "wrapShares env shares
              (case enc_KeyConfig cfg of None \<Rightarrow> [] | Some k \<Rightarrow> KekInfos k) keys s"
  obtain r s1 where w: "?w = (r, s1)" by (cases ?w)
  show ?thesis
  proof (cases r)
    case (Inl err)
    with w have "fst ?w = Inl err" by simp
    from Encrypt_wrap_failure(2) [OF sh this] act c show ?thesis by simp
  next
    case (Inr p)
    obtain ws uris where p: "p = (ws, uris)" by (cases p)
    from wrapShares_frame(2) [OF w] Inr p have "length ws = length shares" by simp
    with c sh w Inr p show ?thesis by simp
  qed
qed

lemma wrapShares_outcomes:
  assumes w: "wrapShares env shares kekInfos keys s = (r, s')"
  shows "r = Inr (ws, uris) \<Longrightarrow>
           list_all2 (wrapped_from env keys s) (zip shares kekInfos) ws"
    and "r = Inl err \<Longrightarrow> length shares = length kekInfos \<Longrightarrow>
           (\<exists>m. err = Panic m)
           \<or> (\<exists>position e p. position \<in> set (zip shares kekInfos)
                 \<and> wrap_outcome env keys s (fst position) (snd position) = Inl e
                 \<and> err = Errorf p e)"
proof -
  assume ok: "r = Inr (ws, uris)"
  with w have "length shares = length kekInfos"
    by (auto simp: wrapShares_def split: if_splits)
  with w have
    "with_defers (wrapShares_loop env keys (zip shares kekInfos) [] []) s = (r, s')"
    by (simp add: wrapShares_def)
  from with_defers_frame [OF this] ok obtain s1 where
    l: "wrapShares_loop env keys (zip shares kekInfos) [] [] (s\<lparr>deferred := []\<rparr>)
        = (Inr (ws, uris), s1)"
    by auto
  have "c (s\<lparr>deferred := []\<rparr>) = c s
        \<or> (c (s\<lparr>deferred := []\<rparr>) = c (snd (initializeKMSClient env s))
              \<and> fst (initializeKMSClient env s) = None)"
    by simp
  from wrapShares_loop_outcomes [OF l this]
  show "list_all2 (wrapped_from env keys s) (zip shares kekInfos) ws"
    by simp
next
  assume bad: "r = Inl err" and len: "length shares = length kekInfos"
  from w len have
    "with_defers (wrapShares_loop env keys (zip shares kekInfos) [] []) s = (r, s')"
    by (simp add: wrapShares_def)
  from with_defers_frame [OF this] obtain r1 s1 where
    l: "wrapShares_loop env keys (zip shares kekInfos) [] [] (s\<lparr>deferred := []\<rparr>) = (r1, s1)"
    and r: "r = r1 \<or> (\<exists>m. r = Inl (Panic m))"
    by blast
  have inv: "c (s\<lparr>deferred := []\<rparr>) = c s
        \<or> (c (s\<lparr>deferred := []\<rparr>) = c (snd (initializeKMSClient env s))
              \<and> fst (initializeKMSClient env s) = None)"
    by simp
  show "(\<exists>m. err = Panic m)
        \<or> (\<exists>position e p. position \<in> set (zip shares kekInfos)
              \<and> wrap_outcome env keys s (fst position) (snd position) = Inl e
              \<and> err = Errorf p e)"
  proof (cases "r = r1")
    case True
    with bad wrapShares_loop_outcomes [OF l inv] show ?thesis by simp
  next
    case False
    with r bad show ?thesis by auto
  qed
qed

lemma wrapShares_fails:
  assumes i: "i < length shares" "i < length kekInfos"
      and bad: "wrap_outcome env keys s (shares ! i) (kekInfos ! i) = Inl e"
  shows "\<exists>err. fst (wrapShares env shares kekInfos keys s) = Inl err"
proof -
  obtain r s' where w: "wrapShares env shares kekInfos keys s = (r, s')"
    by (cases "wrapShares env shares kekInfos keys s")
  show ?thesis
  proof (cases r)
    case (Inl err)
    with w show ?thesis by simp
  next
    case (Inr pr)
    obtain ws uris where pr: "pr = (ws, uris)" by (cases pr)
    from wrapShares_outcomes(1) [OF w] Inr pr
    have all: "list_all2 (wrapped_from env keys s) (zip shares kekInfos) ws" by simp
    from i have "i < length (zip shares kekInfos)" by simp
    from list_all2_nthD [OF all this] i
    have "wrapped_from env keys s (shares ! i, kekInfos ! i) (ws ! i)" by simp
    with bad show ?thesis by (simp add: wrapped_from_def)
  qed
qed

lemma Encrypt_share_failure:
  assumes sh: "CreateDEKShares env (NewDEK env) (enc_KeyConfig cfg) = Inr shares"
      and k: "kekInfos = (case enc_KeyConfig cfg of None \<Rightarrow> [] | Some k \<Rightarrow> KekInfos k)"
      and i: "i < length shares" "i < length kekInfos"
      and bad: "wrap_outcome env keys s (shares ! i) (kekInfos ! i) = Inl e"
  shows "\<exists>err. fst (wrapShares env shares kekInfos keys s) = Inl err
           \<and> fst (Encrypt env (Some cfg) keys blobID s)
               = Inl (Errorf ''error wrapping shares: '' err)
           \<and> streams (snd (Encrypt env (Some cfg) keys blobID s)) = streams s
           \<and> (length shares = length kekInfos \<longrightarrow>
                (\<exists>m. err = Panic m)
                \<or> (\<exists>j e' p. j < length shares
                      \<and> wrap_outcome env keys s (shares ! j) (kekInfos ! j) = Inl e'
                      \<and> err = Errorf p e'))"
proof -
  from wrapShares_fails [OF i bad] obtain err where
    f: "fst (wrapShares env shares kekInfos keys s) = Inl err"
    by blast
  obtain s' where w: "wrapShares env shares kekInfos keys s = (Inl err, s')"
    using f by (cases "wrapShares env shares kekInfos keys s") simp
  have u: "length shares = length kekInfos \<longrightarrow>
             (\<exists>m. err = Panic m)
             \<or> (\<exists>j e' p. j < length shares
                   \<and> wrap_outcome env keys s (shares ! j) (kekInfos ! j) = Inl e'
                   \<and> err = Errorf p e')"
  proof
    assume len: "length shares = length kekInfos"
    from wrapShares_outcomes(2) [OF w refl len]
    show "(\<exists>m. err = Panic m)
          \<or> (\<exists>j e' p. j < length shares
                \<and> wrap_outcome env keys s (shares ! j) (kekInfos ! j) = Inl e'
                \<and> err = Errorf p e')"
    proof
      assume "\<exists>m. err = Panic m"
      then show ?thesis by simp
    next
      assume "\<exists>position e p. position \<in> set (zip shares kekInfos)
                \<and> wrap_outcome env keys s (fst position) (snd position) = Inl e
                \<and> err = Errorf p e"
      then obtain position e' p where
        m: "position \<in> set (zip shares kekInfos)"
        and o: "wrap_outcome env keys s (fst position) (snd position) = Inl e'"
        and e: "err = Errorf p e'"
        by blast
      from m obtain j where "j < length (zip shares kekInfos)"
        and "zip shares kekInfos ! j = position"
        by (auto simp: in_set_conv_nth)
      with o len have "j < length shares
                       \<and> wrap_outcome env keys s (shares ! j) (kekInfos ! j) = Inl e'"
        by auto
      with e show ?thesis by blast
    qed
  qed
  from f k Encrypt_wrap_failure [OF sh, of keys s err blobID] u
  show ?thesis by simp
qed

lemma Encrypt_stream_activity_wrapped:
  assumes act: "streams (snd (Encrypt env config keys blobID s)) \<noteq> streams s"
  shows "\<exists>cfg shares ws uris.
           config = Some cfg
         \<and> CreateDEKShares env (NewDEK env) (enc_KeyConfig cfg) = Inr shares
         \<and> fst (wrapShares env shares
                  (case enc_KeyConfig cfg of None \<Rightarrow> [] | Some k \<Rightarrow> KekInfos k) keys s)
             = Inr (ws, uris)
         \<and> length ws = length shares
         \<and> list_all2 (wrapped_from env keys s)
              (zip shares (case enc_KeyConfig cfg of None \<Rightarrow> [] | Some k \<Rightarrow> KekInfos k)) ws"
proof -
  from Encrypt_stream_activity [OF act] obtain cfg shares ws uris where
    a: "config = Some cfg"
       "CreateDEKShares env (NewDEK env) (enc_KeyConfig cfg) = Inr shares"
       "fst (wrapShares env shares
               (case enc_KeyConfig cfg of None \<Rightarrow> [] | Some k \<Rightarrow> KekInfos k) keys s)
        = Inr (ws, uris)"
       "length ws = length shares"
    by blast
  let ?w = "wrapShares env shares
              (case enc_KeyConfig cfg of None \<Rightarrow> [] | Some k \<Rightarrow> KekInfos k) keys s"
  obtain s' where "?w = (Inr (ws, uris), s')"
    using a(3) by (cases ?w) simp
  from wrapShares_outcomes(1) [OF this refl] a show ?thesis by blast
qed

text \<open>
  C3. If the wrap of any share fails (position \<open>i\<close> of the shares and their KEKs),
  \<open>wrapShares\<close> fails and \<open>Encrypt\<close> returns its error under the prefix "error wrapping
  shares: "; when the shares and KEKs are equally many, that error is the error of a
  share whose wrap fails, under the prefix of the failing step (or a panic of a deferred
  \<open>Close\<close>). The streams are then as before the call: nothing was written to the output,
  nothing read from the input, and no header, metadata or AEAD call was made. The same
  holds whenever \<open>wrapShares\<close> fails. Conversely, any activity on the streams means that
  \<open>wrapShares\<close> succeeded, with one wrapped share for every share, each the successful
  wrap of the share at its position.
\<close>

theorem wrap_failure_leaves_output_untouched:
  "(CreateDEKShares env (NewDEK env) (enc_KeyConfig cfg) = Inr shares
    \<and> kekInfos = (case enc_KeyConfig cfg of None \<Rightarrow> [] | Some k \<Rightarrow> KekInfos k)
    \<and> i < length shares \<and> i < length kekInfos
    \<and> wrap_outcome env keys s (shares ! i) (kekInfos ! i) = Inl e
    \<longrightarrow> (\<exists>err. fst (wrapShares env shares kekInfos keys s) = Inl err
           \<and> fst (Encrypt env (Some cfg) keys blobID s)
               = Inl (Errorf ''error wrapping shares: '' err)
           \<and> streams (snd (Encrypt env (Some cfg) keys blobID s)) = streams s
           \<and> (length shares = length kekInfos \<longrightarrow>
                (\<exists>m. err = Panic m)
                \<or> (\<exists>j e' p. j < length shares
                      \<and> wrap_outcome env keys s (shares ! j) (kekInfos ! j) = Inl e'
                      \<and> err = Errorf p e'))))
   \<and> (CreateDEKShares env (NewDEK env) (enc_KeyConfig cfg) = Inr shares
    \<and> fst (wrapShares env shares
             (case enc_KeyConfig cfg of None \<Rightarrow> [] | Some k \<Rightarrow> KekInfos k) keys s) = Inl err
    \<longrightarrow> fst (Encrypt env (Some cfg) keys blobID s)
          = Inl (Errorf ''error wrapping shares: '' err)
      \<and> streams (snd (Encrypt env (Some cfg) keys blobID s)) = streams s)
   \<and> (streams (snd (Encrypt env config keys blobID s)) \<noteq> streams s
    \<longrightarrow> (\<exists>cfg' shares' ws uris.
           config = Some cfg'
         \<and> CreateDEKShares env (NewDEK env) (enc_KeyConfig cfg') = Inr shares'
         \<and> fst (wrapShares env shares'
                  (case enc_KeyConfig cfg' of None \<Rightarrow> [] | Some k \<Rightarrow> KekInfos k) keys s)
             = Inr (ws, uris)
         \<and> length ws = length shares'
         \<and> list_all2 (wrapped_from env keys s)
              (zip shares'
                 (case enc_KeyConfig cfg' of None \<Rightarrow> [] | Some k \<Rightarrow> KekInfos k)) ws))"
proof (intro conjI impI)
  assume "CreateDEKShares env (NewDEK env) (enc_KeyConfig cfg) = Inr shares
    \<and> kekInfos = (case enc_KeyConfig cfg of None \<Rightarrow> [] | Some k \<Rightarrow> KekInfos k)
    \<and> i < length shares \<and> i < length kekInfos
    \<and> wrap_outcome env keys s (shares ! i) (kekInfos ! i) = Inl e"
  then show "\<exists>err. fst (wrapShares env shares kekInfos keys s) = Inl err
           \<and> fst (Encrypt env (Some cfg) keys blobID s)
               = Inl (Errorf ''error wrapping shares: '' err)
           \<and> streams (snd (Encrypt env (Some cfg) keys blobID s)) = streams s
           \<and> (length shares = length kekInfos \<longrightarrow>
                (\<exists>m. err = Panic m)
                \<or> (\<exists>j e' p. j < length shares
                      \<and> wrap_outcome env keys s (shares ! j) (kekInfos ! j) = Inl e'
                      \<and> err = Errorf p e'))"
    using Encrypt_share_failure [of env cfg shares kekInfos i keys s e blobID] by blast
next
  assume a: "CreateDEKShares env (NewDEK env) (enc_KeyConfig cfg) = Inr shares
    \<and> fst (wrapShares env shares
             (case enc_KeyConfig cfg of None \<Rightarrow> [] | Some k \<Rightarrow> KekInfos k) keys s) = Inl err"
  then show "fst (Encrypt env (Some cfg) keys blobID s)
          = Inl (Errorf ''error wrapping shares: '' err)"
    using Encrypt_wrap_failure(1) [of env cfg shares keys s err blobID] by blast
  from a show "streams (snd (Encrypt env (Some cfg) keys blobID s)) = streams s"
    using Encrypt_wrap_failure(2) [of env cfg shares keys s err blobID] by blast
next
  assume "streams (snd (Encrypt env config keys blobID s)) \<noteq> streams s"
  from Encrypt_stream_activity_wrapped [OF this]
  show "\<exists>cfg' shares' ws uris.
           config = Some cfg'
         \<and> CreateDEKShares env (NewDEK env) (enc_KeyConfig cfg') = Inr shares'
         \<and> fst (wrapShares env shares'
                  (case enc_KeyConfig cfg' of None \<Rightarrow> [] | Some k \<Rightarrow> KekInfos k) keys s)
             = Inr (ws, uris)
         \<and> length ws = length shares'
         \<and> list_all2 (wrapped_from env keys s)
              (zip shares'
                 (case enc_KeyConfig cfg' of None \<Rightarrow> [] | Some k \<Rightarrow> KekInfos k)) ws" .
qed


lemmas run_defers = with_defers_def emit_def

lemmas run_client =
  Encrypt_def Decrypt_def wrapShares_def unwrapAndValidateShares_def unwrap_switch_def
  initializeKMSClient_def getKekURIMetadata_def wrapKMSShare_def unwrapKMSShare_def
  ekmSecureSessionWrap_def ekmSecureSessionUnwrap_def gcpKeyPrefix_def TrimPrefix_def
  proto_Equal_def combine_fake_def copy_DEK_def DEKBytes_def streams_def Let_def

theorem wrap_failure_leaves_output_untouched_witness:
  "wrap_outcome env_fake no_keys start [1, 2] (KekInfo_RsaFingerprint ''fpA'') = Inr [2, 1]
   \<and> wrap_outcome env_fake no_keys start [1, 2] (KekInfo_KekUri ''gcp-kms://soft'') = Inr [2, 1]
   \<and> wrap_outcome env_fake no_keys start [1, 2] (KekInfo_KekUri ''gcp-kms://off'')
       = Inl (Err ''CryptoKeyVersion for gcp-kms://off is not enabled'')
   \<and> fst (Encrypt env_fake (Some \<lparr>enc_KeyConfig = Some cfg_late_failure\<rparr>) no_keys [] start)
       = Inl (Err ''error wrapping shares: Error retrieving KEK Metadata: CryptoKeyVersion for gcp-kms://off is not enabled'')
   \<and> streams (snd (Encrypt env_fake (Some \<lparr>enc_KeyConfig = Some cfg_late_failure\<rparr>)
                      no_keys [] start)) = ([], [], [])"
proof -
  let ?cfg = "\<lparr>enc_KeyConfig = Some cfg_late_failure\<rparr>"
  let ?keks = "[KekInfo_RsaFingerprint ''fpA'', KekInfo_KekUri ''gcp-kms://soft'',
                KekInfo_KekUri ''gcp-kms://off'']"
  have sh: "CreateDEKShares env_fake (NewDEK env_fake) (enc_KeyConfig ?cfg)
            = Inr [[1, 2], [1, 2], [1, 2]]"
    by (simp add: env_fake_def cfg_late_failure_def)
  have k: "?keks = (case enc_KeyConfig ?cfg of None \<Rightarrow> [] | Some k \<Rightarrow> KekInfos k)"
    by (simp add: cfg_late_failure_def)
  have o1: "wrap_outcome env_fake no_keys start [1, 2] (KekInfo_RsaFingerprint ''fpA'')
            = Inr [2, 1]"
    by (simp add: wrap_outcome_def run_fakes)
  have o2: "wrap_outcome env_fake no_keys start [1, 2] (KekInfo_KekUri ''gcp-kms://soft'')
            = Inr [2, 1]"
    by (simp add: wrap_outcome_def run_client run_fakes)
  have o3: "wrap_outcome env_fake no_keys start [1, 2] (KekInfo_KekUri ''gcp-kms://off'')
            = Inl (Err ''CryptoKeyVersion for gcp-kms://off is not enabled'')"
    by (simp add: wrap_outcome_def run_client run_fakes)
  have wf: "fst (wrapShares env_fake [[1, 2], [1, 2], [1, 2]] ?keks no_keys start)
            = Inl (Err ''Error retrieving KEK Metadata: CryptoKeyVersion for gcp-kms://off is not enabled'')"
    by (simp add: run_client run_fakes run_defers)
  have st: "streams start = ([], [], [])"
    by (simp add: streams_def run_fakes)
  from wrap_failure_leaves_output_untouched
         [of env_fake ?cfg "[[1, 2], [1, 2], [1, 2]]" ?keks 2 no_keys start _ "[]" _ "None"]
       sh k o3 wf st
  have "fst (Encrypt env_fake (Some ?cfg) no_keys [] start)
          = Inl (Err ''error wrapping shares: Error retrieving KEK Metadata: CryptoKeyVersion for gcp-kms://off is not enabled'')
        \<and> streams (snd (Encrypt env_fake (Some ?cfg) no_keys [] start)) = ([], [], [])"
    by auto
  with o1 o2 o3 show ?thesis by simp
qed


section \<open>Selecting the KeyConfig\<close>


lemma matchingKeyConfig_Some:
  "matchingKeyConfig cfgs mk = Some k \<longleftrightarrow> mk = Some k \<and> k \<in> set cfgs"
  by (induction cfgs) (auto simp: proto_Equal_def)







section \<open>Unwrapping and the reported key URIs\<close>

lemma resolves_to_reported:
  assumes r: "resolves_to kms kekUri kmd"
      and l: "protectionLevel kmd = SOFTWARE \<or> protectionLevel kmd = HSM
              \<or> protectionLevel kmd = EXTERNAL"
  shows "reported_uri kms (KekInfo_KekUri kekUri) = Some (uri kmd)"
proof -
  obtain cryptoKey where g: "GetCryptoKey kms (TrimPrefix kekUri gcpKeyPrefix) = Inr cryptoKey"
    using r by (cases "GetCryptoKey kms (TrimPrefix kekUri gcpKeyPrefix)")
               (simp_all add: resolves_to_def)
  obtain ver where v: "Primary cryptoKey = Some ver"
    using r g by (cases "Primary cryptoKey") (simp_all add: resolves_to_def)
  from r g v have pl: "protectionLevel kmd = ProtectionLevel ver"
    by (simp add: resolves_to_def)
  show ?thesis
    using r g v pl l
    by (cases "ExternalProtectionLevelOptions ver")
       (auto simp: resolves_to_def split: if_splits)
qed

lemma warn_continue_frame:
  "warn_continue msg err s = (step, s') \<Longrightarrow>
   streams s' = streams s \<and> kms_in_use env s' = kms_in_use env s
   \<and> (\<forall>u. step \<noteq> Unwrapped u)"
  by (cases err) auto

lemma unwrap_switch_frame:
  assumes "unwrap_switch env keys wrapped kek s = (step, s')"
  shows "streams s' = streams s \<and> kms_in_use env s' = kms_in_use env s
         \<and> (\<forall>u. step = Unwrapped u \<longrightarrow>
               (case reported_uri (kms_in_use env s) kek of
                  None \<Rightarrow> URI u = []
                | Some x \<Rightarrow> URI u = x))"
proof (cases kek)
  case (KekInfo_RsaFingerprint fp)
  with assms show ?thesis
    by (auto simp: unwrap_switch_def
             split: sum.splits dest!: warn_continue_frame [where env = env])
next
  case KekInfo_unset
  with assms show ?thesis
    by (auto simp: unwrap_switch_def)
next
  case (KekInfo_KekUri kekUri)
  obtain e1 s1 where i: "initializeKMSClient env s = (e1, s1)"
    by (cases "initializeKMSClient env s")
  note f1 = initializeKMSClient_frame [OF i]
  show ?thesis
  proof (cases e1)
    case (Some err)
    with assms KekInfo_KekUri i have w: "warn_continue ''Error initializing Cloud KMS Client: '' err s1
                                         = (step, s')"
      by (simp add: unwrap_switch_def)
    from warn_continue_frame [OF w, of env] f1 show ?thesis
      by auto
  next
    case None
    from f1 have k: "kmsClient (c s1) = Some (kms_in_use env s)" by blast
    let ?kms = "kms_in_use env s"
    obtain r2 s2 where
      g: "getKekURIMetadata ?kms kek (s1\<lparr>deferred := ?kms # deferred s1\<rparr>) = (r2, s2)"
      by (cases "getKekURIMetadata ?kms kek (s1\<lparr>deferred := ?kms # deferred s1\<rparr>)")
    from getKekURIMetadata_frame [OF g] f1
    have f2: "streams s2 = streams s" by simp
    from getKekURIMetadata_frame [OF g]
         kms_in_use_same_c [of s2 "s1\<lparr>deferred := ?kms # deferred s1\<rparr>" env] f1
    have k2: "kms_in_use env s2 = kms_in_use env s" by simp
    show ?thesis
    proof (cases r2)
      case (Inl err)
      with assms KekInfo_KekUri i None k g f2 k2 show ?thesis
        by (auto simp: unwrap_switch_def)
    next
      case (Inr kmd)
      from g Inr KekInfo_KekUri
      have "fst (getKekURIMetadata ?kms (KekInfo_KekUri kekUri)
                   (s1\<lparr>deferred := ?kms # deferred s1\<rparr>)) = Inr kmd"
        by simp
      from getKekURIMetadata_sound [OF this] have res: "resolves_to ?kms kekUri kmd" .
      obtain r3 s3 where w: "unwrapKMSShare (wrapped_Share wrapped) (resourceName kmd) s2 = (r3, s3)"
        by (cases "unwrapKMSShare (wrapped_Share wrapped) (resourceName kmd) s2")
      obtain r4 s4 where x: "ekmSecureSessionUnwrap env (wrapped_Share wrapped) kmd s2 = (r4, s4)"
        by (cases "ekmSecureSessionUnwrap env (wrapped_Share wrapped) kmd s2")
      from unwrapKMSShare_frame [OF w] ekmSecureSessionUnwrap_frame [OF x] f2
      have f3: "streams s3 = streams s" "streams s4 = streams s"
        by simp_all
      from unwrapKMSShare_frame [OF w] ekmSecureSessionUnwrap_frame [OF x] k2
           kms_in_use_same_c [of s3 s2 env] kms_in_use_same_c [of s4 s2 env]
      have k3: "kms_in_use env s3 = kms_in_use env s" "kms_in_use env s4 = kms_in_use env s"
        by simp_all
      show ?thesis
      proof (cases "protectionLevel kmd = SOFTWARE \<or> protectionLevel kmd = HSM")
        case True
        then have "protectionLevel kmd = SOFTWARE \<or> protectionLevel kmd = HSM
                   \<or> protectionLevel kmd = EXTERNAL"
          by blast
        from resolves_to_reported [OF res this] KekInfo_KekUri
        have rep: "reported_uri ?kms kek = Some (uri kmd)" by simp
        from assms KekInfo_KekUri i None k g Inr w True
        have "(case r3 of Inl err \<Rightarrow> warn_continue ''Error unwrapping key share: '' err s3
                | Inr share \<Rightarrow> (Unwrapped \<lparr>Share = share, URI = uri kmd\<rparr>, s3)) = (step, s')"
          by (simp add: unwrap_switch_def)
        with f3 k3 rep show ?thesis
          by (auto split: sum.splits dest!: warn_continue_frame [where env = env])
      next
        case False
        show ?thesis
        proof (cases "protectionLevel kmd = EXTERNAL")
          case True
          then have "protectionLevel kmd = SOFTWARE \<or> protectionLevel kmd = HSM
                     \<or> protectionLevel kmd = EXTERNAL"
            by blast
          from resolves_to_reported [OF res this] KekInfo_KekUri
          have rep: "reported_uri ?kms kek = Some (uri kmd)" by simp
          from assms KekInfo_KekUri i None k g Inr x True
          have "(case r4 of
                   Inl err \<Rightarrow> warn_continue (''Error unwrapping with external EKM for ''
                                                @ uri kmd @ '': '') err s4
                 | Inr share \<Rightarrow> (Unwrapped \<lparr>Share = share, URI = uri kmd\<rparr>, s4)) = (step, s')"
            by (simp add: unwrap_switch_def)
          with f3 k3 rep show ?thesis
            by (auto split: sum.splits dest!: warn_continue_frame [where env = env])
        next
          case notext: False
          from assms KekInfo_KekUri i None k g Inr False notext f2 k2 show ?thesis
            by (auto simp: unwrap_switch_def)
        qed
      qed
    qed
  qed
qed

lemma unwrapAndValidateShares_loop_consumed:
  "unwrapAndValidateShares_loop env keys i pairs acc s = (Inr out, s') \<Longrightarrow>
   \<exists>positions consumed.
      subseq positions pairs \<and> out = acc @ consumed
    \<and> list_all2 (consumed_from env (kms_in_use env s)) positions consumed"
proof (induction pairs arbitrary: i acc s)
  case Nil
  then show ?case by simp
next
  case (Cons p rest)
  obtain wrapped kek where p: "p = (wrapped, kek)" by (cases p)
  let ?s0 = "emit (Infof (''Attempting to unwrap share #'' @ decimal (i + 1))) s"
  obtain step s1 where sw: "unwrap_switch env keys wrapped kek ?s0 = (step, s1)"
    by (cases "unwrap_switch env keys wrapped kek ?s0")
  from unwrap_switch_frame [OF sw]
  have k1: "kms_in_use env s1 = kms_in_use env s"
    and rep: "\<And>u. step = Unwrapped u \<Longrightarrow>
               (case reported_uri (kms_in_use env s) kek of
                  None \<Rightarrow> URI u = []
                | Some x \<Rightarrow> URI u = x)"
    by simp_all
  show ?case
  proof (cases step)
    case (Return err)
    with Cons.prems p sw show ?thesis by simp
  next
    case Continue
    with Cons.prems p sw
    have "unwrapAndValidateShares_loop env keys (i + 1) rest acc s1 = (Inr out, s')"
      by simp
    from Cons.IH [OF this] k1 obtain positions consumed where
      "subseq positions rest" "out = acc @ consumed"
      "list_all2 (consumed_from env (kms_in_use env s)) positions consumed"
      by auto
    then have "subseq positions (p # rest) \<and> out = acc @ consumed
               \<and> list_all2 (consumed_from env (kms_in_use env s)) positions consumed"
      by (simp add: list_emb_Cons)
    then show ?thesis by blast
  next
    case (Unwrapped u)
    show ?thesis
    proof (cases "ValidateShare env (Share u) (wrapped_Hash wrapped)")
      case False
      with Cons.prems p sw Unwrapped
      have "unwrapAndValidateShares_loop env keys (i + 1) rest acc
              (emit (Warningf (''Unwrapped share '' @ decimal i
                       @ '' does not have the expected hash'')) s1) = (Inr out, s')"
        by simp
      from Cons.IH [OF this] k1 obtain positions consumed where
        "subseq positions rest" "out = acc @ consumed"
        "list_all2 (consumed_from env (kms_in_use env s)) positions consumed"
        by auto
      then have "subseq positions (p # rest) \<and> out = acc @ consumed
                 \<and> list_all2 (consumed_from env (kms_in_use env s)) positions consumed"
        by (simp add: list_emb_Cons)
      then show ?thesis by blast
    next
      case True
      with Cons.prems p sw Unwrapped
      have "unwrapAndValidateShares_loop env keys (i + 1) rest (acc @ [u])
              (emit (Infof (''Successfully unwrapped share #'' @ decimal (i + 1))) s1)
            = (Inr out, s')"
        by simp
      from Cons.IH [OF this] k1 obtain positions consumed where
        a: "subseq positions rest" "out = (acc @ [u]) @ consumed"
        "list_all2 (consumed_from env (kms_in_use env s)) positions consumed"
        by auto
      from True rep [OF Unwrapped] p
      have "consumed_from env (kms_in_use env s) p u"
        by (simp add: consumed_from_def)
      with a have "subseq (p # positions) (p # rest) \<and> out = acc @ (u # consumed)
                 \<and> list_all2 (consumed_from env (kms_in_use env s)) (p # positions) (u # consumed)"
        by simp
      then show ?thesis by blast
    qed
  qed
qed

lemma unwrapAndValidateShares_consumed:
  assumes "unwrapAndValidateShares env wrappedShares kekInfos keys s = (Inr out, s')"
  shows "\<exists>positions.
      subseq positions (zip wrappedShares kekInfos)
    \<and> list_all2 (consumed_from env (kms_in_use env s)) positions out"
proof -
  from assms have
    "with_defers (unwrapAndValidateShares_loop env keys 0 (zip wrappedShares kekInfos) []) s
     = (Inr out, s')"
    by (auto simp: unwrapAndValidateShares_def split: if_splits)
  from with_defers_frame [OF this] obtain s1 where
    "unwrapAndValidateShares_loop env keys 0 (zip wrappedShares kekInfos) []
       (s\<lparr>deferred := []\<rparr>) = (Inr out, s1)"
    by auto
  from unwrapAndValidateShares_loop_consumed [OF this] show ?thesis
    by auto
qed

lemma keyURIs_of_reported:
  "list_all2 (consumed_from env kms) positions consumed \<Longrightarrow>
   keyURIs_of consumed = reported_uris kms (map snd positions)"
proof (induction positions consumed rule: list_all2_induct)
  case Nil
  show ?case by (simp add: reported_uris_def List.map_filter_simps)
next
  case (Cons p ps u us)
  then show ?case
    by (cases "reported_uri kms (snd p)")
       (auto simp: reported_uris_def consumed_from_def List.map_filter_simps)
qed

lemma Decrypt_result:
  assumes ok: "fst (Decrypt env (Some cfg) keys s) = Inr result"
  shows "\<exists>metadata rest matching consumed s2 dek.
           ReadMetadata env (in_stream s) = (Inr metadata, rest)
         \<and> matchingKeyConfig (KeyConfigs cfg) (md_KeyConfig metadata) = Some matching
         \<and> unwrapAndValidateShares env (md_Shares metadata) (KekInfos matching) keys
              (emit ReadMetadata_call (s\<lparr>in_stream := rest\<rparr>)) = (Inr consumed, s2)
         \<and> CombineUnwrappedShares env matching consumed = Inr dek
         \<and> KeyUris result = keyURIs_of consumed"
proof -
  obtain rm rest where rd: "ReadMetadata env (in_stream s) = (rm, rest)"
    by (cases "ReadMetadata env (in_stream s)")
  obtain metadata where m: "rm = Inr metadata"
    using ok rd by (cases rm) (simp_all add: Decrypt_def)
  obtain matching where
    k: "matchingKeyConfig (KeyConfigs cfg) (md_KeyConfig metadata) = Some matching"
    using ok rd m by (cases "matchingKeyConfig (KeyConfigs cfg) (md_KeyConfig metadata)")
                     (simp_all add: Decrypt_def)
  let ?s1 = "emit ReadMetadata_call (s\<lparr>in_stream := rest\<rparr>)"
  obtain ru s2 where
    u: "unwrapAndValidateShares env (md_Shares metadata) (KekInfos matching) keys ?s1 = (ru, s2)"
    by (cases "unwrapAndValidateShares env (md_Shares metadata) (KekInfos matching) keys ?s1")
  obtain consumed where cu: "ru = Inr consumed"
    using ok rd m k u by (cases ru) (simp_all add: Decrypt_def)
  obtain dek where d: "CombineUnwrappedShares env matching consumed = Inr dek"
    using ok rd m k u cu by (cases "CombineUnwrappedShares env matching consumed")
                            (simp_all add: Decrypt_def)
  have "KeyUris result = keyURIs_of consumed"
    using ok rd m k u cu d
    by (auto simp: Decrypt_def Let_def split: sum.splits prod.splits option.splits)
  with rd m k u cu d show ?thesis by blast
qed

text \<open>
  The streaming \<open>Decrypt\<close> does report the shares it consumed. A successful call read a
  metadata block, selected the KeyConfig equal to its own, and handed to
  \<open>CombineUnwrappedShares\<close>, which reconstructed the DEK from them, shares that come
  from positions of the metadata, in order, each with its hash verified. The returned
  \<open>KeyUris\<close> are the URIs those positions report: the KEK URI under a SOFTWARE or HSM
  key, the external key URI under an EXTERNAL key, nothing for an RSA share.
\<close>

lemma decrypt_reports_consumed_uris:
  assumes ok: "fst (Decrypt env (Some cfg) keys s) = Inr result"
  shows "\<exists>metadata matching positions consumed dek.
           fst (ReadMetadata env (in_stream s)) = Inr metadata
         \<and> md_KeyConfig metadata = Some matching
         \<and> subseq positions (zip (md_Shares metadata) (KekInfos matching))
         \<and> list_all2 (consumed_from env (kms_in_use env s)) positions consumed
         \<and> CombineUnwrappedShares env matching consumed = Inr dek
         \<and> KeyUris result = reported_uris (kms_in_use env s) (map snd positions)"
proof -
  from Decrypt_result [OF ok] obtain metadata rest matching consumed s2 dek where
    rd: "ReadMetadata env (in_stream s) = (Inr metadata, rest)"
    and k: "matchingKeyConfig (KeyConfigs cfg) (md_KeyConfig metadata) = Some matching"
    and u: "unwrapAndValidateShares env (md_Shares metadata) (KekInfos matching) keys
              (emit ReadMetadata_call (s\<lparr>in_stream := rest\<rparr>)) = (Inr consumed, s2)"
    and d: "CombineUnwrappedShares env matching consumed = Inr dek"
    and r: "KeyUris result = keyURIs_of consumed"
    by blast
  from unwrapAndValidateShares_consumed [OF u] obtain positions where
    p: "subseq positions (zip (md_Shares metadata) (KekInfos matching))"
       "list_all2 (consumed_from env (kms_in_use env s)) positions consumed"
    by auto
  from keyURIs_of_reported [OF p(2)] r
  have "KeyUris result = reported_uris (kms_in_use env s) (map snd positions)"
    by simp
  moreover from k have "md_KeyConfig metadata = Some matching"
    by (simp add: matchingKeyConfig_Some)
  moreover from rd have "fst (ReadMetadata env (in_stream s)) = Inr metadata"
    by simp
  ultimately show ?thesis
    using p d by blast
qed


section \<open>Concrete decrypt runs\<close>

lemmas run_decimal = decimal.simps [of 0] decimal.simps [of 1] decimal.simps [of 2]
  decimal.simps [of 3]

lemmas run_blobs =
  env_reading_def blob_mixed_def cfg_mixed_def cfg_other_def intact_def corrupted_def

lemma run_mixed:
  "fst (Decrypt (env_reading blob_mixed) (Some \<lparr>KeyConfigs = [cfg_other, cfg_mixed]\<rparr>)
          no_keys start)
   = Inr \<lparr>KeyUris = [''gcp-kms://hsm'', ''https://ekm.test/k1''], BlobID = ''blob-1''\<rparr>"
  by (simp add: run_client run_fakes run_defers run_blobs run_decimal)

lemma decrypt_reports_consumed_uris_run:
  "fst (Decrypt (env_reading blob_mixed) (Some \<lparr>KeyConfigs = [cfg_other, cfg_mixed]\<rparr>)
          no_keys start)
     = Inr \<lparr>KeyUris = [''gcp-kms://hsm'', ''https://ekm.test/k1''], BlobID = ''blob-1''\<rparr>
   \<and> (\<exists>metadata matching positions consumed dek.
           fst (ReadMetadata (env_reading blob_mixed) (in_stream start)) = Inr metadata
         \<and> md_KeyConfig metadata = Some matching
         \<and> subseq positions (zip (md_Shares metadata) (KekInfos matching))
         \<and> list_all2 (consumed_from (env_reading blob_mixed)
                         (kms_in_use (env_reading blob_mixed) start)) positions consumed
         \<and> CombineUnwrappedShares (env_reading blob_mixed) matching consumed = Inr dek
         \<and> KeyUris \<lparr>KeyUris = [''gcp-kms://hsm'', ''https://ekm.test/k1''],
                     BlobID = ''blob-1''\<rparr>
             = reported_uris (kms_in_use (env_reading blob_mixed) start) (map snd positions))"
  using decrypt_reports_consumed_uris [OF run_mixed] run_mixed
  by blast


text \<open>
  C2 on a blob split 2-of-3 whose first KEK is a disabled Cloud KMS key and whose
  other two shares are intact RSA shares. The two RSA shares unwrap and verify on
  their own, which meets the threshold, but with the disabled key in front
  \<open>unwrapAndValidateShares\<close> returns at the first position and \<open>Decrypt\<close> fails.
\<close>

theorem disabled_kek_aborts_decrypt:
  "fst (unwrapAndValidateShares env_fake [intact, intact]
          [KekInfo_RsaFingerprint ''fpA'', KekInfo_RsaFingerprint ''fpB''] no_keys start)
     = Inr [\<lparr>Share = [1, 2], URI = []\<rparr>, \<lparr>Share = [1, 2], URI = []\<rparr>]
   \<and> fst (unwrapAndValidateShares env_fake (md_Shares blob_disabled_first)
            (KekInfos cfg_disabled_first) no_keys start)
     = Inl (Err ''Error retrieving KEK Metadata: CryptoKeyVersion for gcp-kms://off is not enabled'')
   \<and> fst (Decrypt (env_reading blob_disabled_first)
            (Some \<lparr>KeyConfigs = [cfg_disabled_first]\<rparr>) no_keys start)
     = Inl (Err ''error unwrapping and validating shares: Error retrieving KEK Metadata: CryptoKeyVersion for gcp-kms://off is not enabled'')"
  by (simp add: run_client run_fakes run_defers run_blobs run_decimal
           blob_disabled_first_def cfg_disabled_first_def)

text \<open>
  What the loop does tolerate: a corrupted share is dropped with a warning and the
  shares after it are still unwrapped, in order.
\<close>

lemma corrupted_share_is_skipped:
  "fst (unwrapAndValidateShares env_fake (md_Shares blob_mixed) (KekInfos cfg_mixed)
          no_keys start)
     = Inr [\<lparr>Share = [1, 2], URI = ''gcp-kms://hsm''\<rparr>,
            \<lparr>Share = [1, 2], URI = ''https://ekm.test/k1''\<rparr>]
   \<and> Warningf ''Unwrapped share 0 does not have the expected hash''
       \<in> set (trace (snd (unwrapAndValidateShares env_fake (md_Shares blob_mixed)
                             (KekInfos cfg_mixed) no_keys start)))"
  by (simp add: run_client run_fakes run_defers run_blobs run_decimal)


section \<open>The whole-buffer revision\<close>

subsection \<open>Validation of the key config in Encrypt\<close>

lemma Encrypt_wb_nosplit:
  assumes "enc_KeyConfig cfg = Some keyCfg"
      and "KeySplittingAlgorithm keyCfg = KeyConfig_NoSplit"
      and "length (KekInfos keyCfg) \<noteq> 1"
  shows "Encrypt_wb env plaintext (Some cfg) keys blobID s
         = (Inl (Err (''invalid Encrypt configuration, number of KekInfos is ''
                      @ decimal (length (KekInfos keyCfg))
                      @ '' but expected 1 for '' @ [CHR 0x27] @ ''no split''
                      @ [CHR 0x27] @ '' option'')), s)"
  using assms by (simp add: Encrypt_wb_def Let_def)

lemma Encrypt_wb_shamir_count:
  assumes "enc_KeyConfig cfg = Some keyCfg"
      and "KeySplittingAlgorithm keyCfg = KeyConfig_Shamir n k"
      and "int (length (KekInfos keyCfg)) \<noteq> n"
  shows "Encrypt_wb env plaintext (Some cfg) keys blobID s
         = (Inl (Err (''invalid Encrypt configuration, number of KEK Infos does not match the number of shares to generate: found ''
                      @ decimal (length (KekInfos keyCfg)) @ '' KEK Infos, ''
                      @ show_int n @ '' shares'')), s)"
  using assms by (simp add: Encrypt_wb_def Let_def)

lemma Encrypt_wb_shamir_range:
  assumes "enc_KeyConfig cfg = Some keyCfg"
      and "KeySplittingAlgorithm keyCfg = KeyConfig_Shamir n k"
      and "int (length (KekInfos keyCfg)) = n"
      and "\<not> (2 \<le> k \<and> k \<le> n \<and> n \<le> 255)"
  shows "Encrypt_wb env plaintext (Some cfg) keys blobID s
         = (Inl (Err ''error splitting encryption key: invalid Shamir parameters''), s)"
proof -
  have "SplitShares env (NewDEK env) n k = Inl (Err ''invalid Shamir parameters'')"
    by (simp only: SplitShares_def if_not_P [OF assms(4)])
  with assms(1-3) show ?thesis
    by (simp add: Encrypt_wb_def Let_def)
qed

lemma Encrypt_wb_accepts:
  assumes c: "enc_KeyConfig cfg = Some keyCfg"
      and ok: "fst (Encrypt_wb env plaintext (Some cfg) keys blobID s) = Inr ed"
  shows "(KeySplittingAlgorithm keyCfg = KeyConfig_NoSplit \<and> length (KekInfos keyCfg) = 1)
         \<or> (\<exists>n k. KeySplittingAlgorithm keyCfg = KeyConfig_Shamir n k
                  \<and> int (length (KekInfos keyCfg)) = n \<and> 2 \<le> k \<and> k \<le> n \<and> n \<le> 255)"
proof (cases "KeySplittingAlgorithm keyCfg")
  case KeyConfig_NoSplit
  have "length (KekInfos keyCfg) = 1"
  proof (rule ccontr)
    assume "length (KekInfos keyCfg) \<noteq> 1"
    from Encrypt_wb_nosplit [OF c KeyConfig_NoSplit this, of env plaintext keys blobID s] ok
    show False by simp
  qed
  with KeyConfig_NoSplit show ?thesis by simp
next
  case (KeyConfig_Shamir n k)
  have len: "int (length (KekInfos keyCfg)) = n"
  proof (rule ccontr)
    assume "int (length (KekInfos keyCfg)) \<noteq> n"
    from Encrypt_wb_shamir_count [OF c KeyConfig_Shamir this, of env plaintext keys blobID s] ok
    show False by simp
  qed
  have "2 \<le> k \<and> k \<le> n \<and> n \<le> 255"
  proof (rule ccontr)
    assume "\<not> (2 \<le> k \<and> k \<le> n \<and> n \<le> 255)"
    from Encrypt_wb_shamir_range [OF c KeyConfig_Shamir len this, of env plaintext keys blobID s]
         ok
    show False by simp
  qed
  with KeyConfig_Shamir len show ?thesis by simp
next
  case KeySplitting_unset
  with c ok show ?thesis by (simp add: Encrypt_wb_def Let_def)
qed

text \<open>
  C9, on \<open>Encrypt\<close> of the whole-buffer revision, where the validation is written out.
  With NoSplit and a KekInfo list whose length is not 1, and with Shamir and a list
  whose length is not the number of shares, \<open>Encrypt\<close> returns its configuration error
  before anything is split or wrapped; with the right length and parameters outside
  2 \<le> k \<le> n \<le> 255 the split refuses them and \<open>Encrypt\<close> returns that error. So
  \<open>Encrypt\<close> succeeds only on a key config that meets the invariants.
\<close>

theorem encrypt_validates_key_config:
  "enc_KeyConfig cfg = Some keyCfg \<Longrightarrow>
   (KeySplittingAlgorithm keyCfg = KeyConfig_NoSplit \<and> length (KekInfos keyCfg) \<noteq> 1
      \<longrightarrow> Encrypt_wb env plaintext (Some cfg) keys blobID s
          = (Inl (Err (''invalid Encrypt configuration, number of KekInfos is ''
                       @ decimal (length (KekInfos keyCfg))
                       @ '' but expected 1 for '' @ [CHR 0x27] @ ''no split''
                       @ [CHR 0x27] @ '' option'')), s))
   \<and> (KeySplittingAlgorithm keyCfg = KeyConfig_Shamir n k
        \<and> int (length (KekInfos keyCfg)) \<noteq> n
      \<longrightarrow> Encrypt_wb env plaintext (Some cfg) keys blobID s
          = (Inl (Err (''invalid Encrypt configuration, number of KEK Infos does not match the number of shares to generate: found ''
                       @ decimal (length (KekInfos keyCfg)) @ '' KEK Infos, ''
                       @ show_int n @ '' shares'')), s))
   \<and> (KeySplittingAlgorithm keyCfg = KeyConfig_Shamir n k
        \<and> int (length (KekInfos keyCfg)) = n \<and> \<not> (2 \<le> k \<and> k \<le> n \<and> n \<le> 255)
      \<longrightarrow> Encrypt_wb env plaintext (Some cfg) keys blobID s
          = (Inl (Err ''error splitting encryption key: invalid Shamir parameters''), s))
   \<and> (fst (Encrypt_wb env plaintext (Some cfg) keys blobID s) = Inr ed
      \<longrightarrow> (KeySplittingAlgorithm keyCfg = KeyConfig_NoSplit \<and> length (KekInfos keyCfg) = 1)
          \<or> (\<exists>n' k'. KeySplittingAlgorithm keyCfg = KeyConfig_Shamir n' k'
                \<and> int (length (KekInfos keyCfg)) = n' \<and> 2 \<le> k' \<and> k' \<le> n' \<and> n' \<le> 255))"
  using Encrypt_wb_nosplit [of cfg keyCfg env plaintext keys blobID s]
        Encrypt_wb_shamir_count [of cfg keyCfg n k env plaintext keys blobID s]
        Encrypt_wb_shamir_range [of cfg keyCfg n k env plaintext keys blobID s]
        Encrypt_wb_accepts [of cfg keyCfg env plaintext keys blobID s ed]
  by blast

theorem encrypt_validates_key_config_witness:
  "fst (Encrypt_wb env_wb_fake [7]
          (Some \<lparr>enc_KeyConfig = Some (cfg_mixed\<lparr>KeySplittingAlgorithm := KeyConfig_Shamir 3 1\<rparr>)\<rparr>)
          no_keys [] start)
     = Inl (Err ''error splitting encryption key: invalid Shamir parameters'')
   \<and> fst (Encrypt_wb env_wb_fake [7]
          (Some \<lparr>enc_KeyConfig = Some (cfg_mixed\<lparr>KeySplittingAlgorithm := KeyConfig_NoSplit\<rparr>)\<rparr>)
          no_keys [] start)
     = Inl (Err ''invalid Encrypt configuration, number of KekInfos is 3 but expected 1 for 'no split' option'')"
proof -
  have c1: "enc_KeyConfig \<lparr>enc_KeyConfig = Some (cfg_mixed\<lparr>KeySplittingAlgorithm := KeyConfig_Shamir 3 1\<rparr>)\<rparr>
            = Some (cfg_mixed\<lparr>KeySplittingAlgorithm := KeyConfig_Shamir 3 1\<rparr>)"
    by simp
  have c2: "enc_KeyConfig \<lparr>enc_KeyConfig = Some (cfg_mixed\<lparr>KeySplittingAlgorithm := KeyConfig_NoSplit\<rparr>)\<rparr>
            = Some (cfg_mixed\<lparr>KeySplittingAlgorithm := KeyConfig_NoSplit\<rparr>)"
    by simp
  from encrypt_validates_key_config [OF c1, of env_wb_fake "[7]" no_keys "[]" start 3 1]
       encrypt_validates_key_config [OF c2, of env_wb_fake "[7]" no_keys "[]" start]
  show ?thesis
    by (simp add: cfg_mixed_def decimal.simps [of "Suc (Suc (Suc 0))"])
qed

subsection \<open>What the whole-buffer Decrypt returns as key URIs\<close>

text \<open>
  The whole-buffer \<open>Decrypt\<close> does not report the shares it consumed: on success its
  key URIs are the KEK URIs of every KeyConfig of the decrypt config.
\<close>

lemma Decrypt_wb_key_uris:
  "fst (Decrypt_wb env data (Some cfg) keys s) = Inr result \<Longrightarrow>
   dd_KeyUris result = keyURIs_of_config (KeyConfigs cfg)"
  by (auto simp: Decrypt_wb_def Let_def
           split: sum.splits prod.splits option.splits if_splits)

lemma Decrypt_wb_run:
  "fst (Decrypt_wb env_wb_fake
          \<lparr>ed_Ciphertext = [1],
           ed_Metadata = blob_mixed\<lparr>md_Shares := [intact, intact, intact]\<rparr>\<rparr>
          (Some \<lparr>KeyConfigs = [cfg_other, cfg_mixed]\<rparr>) no_keys start)
   = Inr \<lparr>dd_Plaintext = [1],
          dd_KeyUris = [''gcp-kms://elsewhere'', ''gcp-kms://hsm'', ''gcp-kms://ext''],
          dd_BlobID = ''blob-1''\<rparr>"
  by (simp add: Decrypt_wb_def unwrapAndValidateShares_wb_def with_defers_def
        initializeKMSClient_wb_def protectionLevelsAndUris_def unwrapKMSShare_wb_def
        ekmSecureSessionUnwrap_wb_def parseEKMKeyURI_wb_def slice_of_def
        gcpKeyPrefix_def TrimPrefix_def proto_Equal_def copy_DEK_def DEKBytes_def Let_def
        env_wb_fake_def kms_fake_def ekm_fake_def start_with_def start_def no_keys_def
        enabled_key_def blob_mixed_def cfg_mixed_def cfg_other_def intact_def)

lemma reported_uris_mixed:
  "reported_uris kms_fake (KekInfos cfg_mixed) = [''gcp-kms://hsm'', ''https://ekm.test/k1'']"
  by (simp add: reported_uris_def List.map_filter_simps cfg_mixed_def kms_fake_def
                enabled_key_def gcpKeyPrefix_def TrimPrefix_def)

text \<open>
  C1 fails on the \<open>Decrypt\<close> of the whole-buffer revision, whose comment promises "the
  key URIs used during decryption". The blob was encrypted under \<open>cfg_mixed\<close> (an RSA
  key, an HSM key, an EXTERNAL key), all three shares unwrap and verify, and the decrypt
  config also holds \<open>cfg_other\<close>, which the blob does not use. The shares consumed
  report the KEK URI of the HSM key and the external key URI of the EXTERNAL key. The
  call returns instead the KEK URI of the unused \<open>cfg_other\<close>, and the EXTERNAL key by
  its Cloud KMS URI.
\<close>

theorem whole_buffer_decrypt_reports_unused_uris:
  "fst (Decrypt_wb env_wb_fake
          \<lparr>ed_Ciphertext = [1],
           ed_Metadata = blob_mixed\<lparr>md_Shares := [intact, intact, intact]\<rparr>\<rparr>
          (Some \<lparr>KeyConfigs = [cfg_other, cfg_mixed]\<rparr>) no_keys start)
   = Inr \<lparr>dd_Plaintext = [1],
          dd_KeyUris = [''gcp-kms://elsewhere'', ''gcp-kms://hsm'', ''gcp-kms://ext''],
          dd_BlobID = ''blob-1''\<rparr>
   \<and> md_KeyConfig (blob_mixed\<lparr>md_Shares := [intact, intact, intact]\<rparr>) = Some cfg_mixed
   \<and> KekInfo_KekUri ''gcp-kms://elsewhere'' \<notin> set (KekInfos cfg_mixed)
   \<and> reported_uris kms_fake (KekInfos cfg_mixed)
       = [''gcp-kms://hsm'', ''https://ekm.test/k1'']"
proof -
  have "md_KeyConfig (blob_mixed\<lparr>md_Shares := [intact, intact, intact]\<rparr>) = Some cfg_mixed"
    by (simp add: blob_mixed_def)
  moreover have "KekInfo_KekUri ''gcp-kms://elsewhere'' \<notin> set (KekInfos cfg_mixed)"
    by (simp add: cfg_mixed_def)
  ultimately show ?thesis
    using Decrypt_wb_run reported_uris_mixed by simp
qed

subsection \<open>Unwrapping in the whole-buffer revision\<close>

text \<open>
  The whole-buffer \<open>unwrapAndValidateShares\<close> tolerates no failure: it returns shares
  only when every wrapped share was unwrapped and verified.
\<close>

lemma unwrapAndValidateShares_wb_loop_all:
  "unwrapAndValidateShares_wb_loop env keys kekInfos i pairs m acc s = (Inr out, s') \<Longrightarrow>
   length out = length acc + length pairs"
proof (induction pairs arbitrary: i m acc s)
  case Nil
  then show ?case by simp
next
  case (Cons p rest)
  obtain wrapped kek where p: "p = (wrapped, kek)" by (cases p)
  from Cons.prems p show ?case
    by (auto simp: Let_def
             split: KekInfo.splits sum.splits prod.splits option.splits if_splits
             dest!: Cons.IH)
qed

lemma unwrapAndValidateShares_wb_all:
  assumes "unwrapAndValidateShares_wb env wrappedShares kekInfos keys s = (Inr out, s')"
  shows "length out = length wrappedShares"
proof -
  from assms have eq: "length wrappedShares = length kekInfos"
    by (auto simp: unwrapAndValidateShares_wb_def split: if_splits)
  with assms have
    "with_defers (unwrapAndValidateShares_wb_loop env keys kekInfos 0
                    (zip wrappedShares kekInfos) None []) s = (Inr out, s')"
    by (simp add: unwrapAndValidateShares_wb_def)
  from with_defers_frame [OF this] obtain s1 where
    "unwrapAndValidateShares_wb_loop env keys kekInfos 0 (zip wrappedShares kekInfos) None []
       (s\<lparr>deferred := []\<rparr>) = (Inr out, s1)"
    by auto
  from unwrapAndValidateShares_wb_loop_all [OF this] eq show ?thesis
    by simp
qed

end
